theory Spec2Isabelle
  imports Complex_Main "HOL-Library.Word" "HOL-Library.Log_Nat"
begin

unbundle bit_operations_syntax

section \<open>Numbers and strings of the source language\<close>

text \<open>
  The Go sources compute with \<^verbatim>\<open>float64\<close>. The content stream parser, the
  text organizer and the table extractor are read with every \<^verbatim>\<open>float64\<close> as a
  real number: sums and products are exact, there is no rounding, no infinity and no
  NaN. The laws of matrix composition depend on the rounding, and for them the matrix
  functions are also read in the arithmetic of \<^verbatim>\<open>float64\<close> itself, which the
  section on that arithmetic defines. A Go \<^verbatim>\<open>string\<close> is a sequence of bytes and is modelled as
  \<^typ>\<open>string\<close>, whose characters are bytes.
\<close>

subsection \<open>Functions of package \<^verbatim>\<open>strings\<close>\<close>

definition HasPrefix :: "string \<Rightarrow> string \<Rightarrow> bool" where
  "HasPrefix s prefix = (take (length prefix) s = prefix)"

definition HasSuffix :: "string \<Rightarrow> string \<Rightarrow> bool" where
  "HasSuffix s suffix =
     (length suffix \<le> length s \<and> drop (length s - length suffix) s = suffix)"

definition TrimPrefix :: "string \<Rightarrow> string \<Rightarrow> string" where
  "TrimPrefix s prefix = (if HasPrefix s prefix then drop (length prefix) s else s)"

definition TrimSuffix :: "string \<Rightarrow> string \<Rightarrow> string" where
  "TrimSuffix s suffix =
     (if HasSuffix s suffix then take (length s - length suffix) s else s)"

definition Trim :: "string \<Rightarrow> string \<Rightarrow> string" where
  "Trim s cutset =
     rev (dropWhile (\<lambda>c. c \<in> set cutset) (rev (dropWhile (\<lambda>c. c \<in> set cutset) s)))"

fun Join :: "string list \<Rightarrow> string \<Rightarrow> string" where
  "Join [] sep = []"
| "Join [x] sep = x"
| "Join (x # y # ys) sep = x @ sep @ Join (y # ys) sep"

subsection \<open>Bytes and digits\<close>

definition byte :: "char \<Rightarrow> nat" where
  "byte c = of_char c"

definition isDigit :: "char \<Rightarrow> bool" where
  "isDigit c = (48 \<le> byte c \<and> byte c \<le> 57)"

definition isHexDigit :: "char \<Rightarrow> bool" where
  "isHexDigit c =
     (isDigit c \<or> (65 \<le> byte c \<and> byte c \<le> 70) \<or> (97 \<le> byte c \<and> byte c \<le> 102))"

text \<open>The value of a digit as \<^verbatim>\<open>strconv.ParseUint\<close> reads it, letters in either case.\<close>

definition digitVal :: "char \<Rightarrow> nat option" where
  "digitVal c =
     (if 48 \<le> byte c \<and> byte c \<le> 57 then Some (byte c - 48)
      else if 97 \<le> byte c \<and> byte c \<le> 122 then Some (byte c - 97 + 10)
      else if 65 \<le> byte c \<and> byte c \<le> 90 then Some (byte c - 65 + 10)
      else None)"

subsection \<open>Package \<^verbatim>\<open>strconv\<close>\<close>

datatype numError = ErrSyntax | ErrRange

text \<open>
  The digit loop of \<^verbatim>\<open>strconv.ParseUint\<close> for an explicit base: it stops with a
  syntax error at the first byte that is no digit of the base, and with a range error
  (and the largest value of the bit size) as soon as the number read so far leaves the
  range, without looking at the bytes that follow.
\<close>

fun parseUintDigits :: "nat \<Rightarrow> nat \<Rightarrow> nat \<Rightarrow> string \<Rightarrow> nat \<times> numError option" where
  "parseUintDigits base maxVal n [] = (n, None)"
| "parseUintDigits base maxVal n (c # cs) =
     (case digitVal c of
        None \<Rightarrow> (0, Some ErrSyntax)
      | Some d \<Rightarrow>
          if d \<ge> base then (0, Some ErrSyntax)
          else if n * base + d > maxVal then (maxVal, Some ErrRange)
          else parseUintDigits base maxVal (n * base + d) cs)"

definition ParseInt :: "string \<Rightarrow> nat \<Rightarrow> nat \<Rightarrow> int \<times> numError option" where
  "ParseInt s base bitSize =
     (if s = [] then (0, Some ErrSyntax)
      else
        let neg = (hd s = CHR ''-'');
            s1 = (if hd s = CHR ''+'' \<or> hd s = CHR ''-'' then tl s else s)
        in if s1 = [] then (0, Some ErrSyntax)
           else
             (case parseUintDigits base (2 ^ bitSize - 1) 0 s1 of
                (un, Some ErrSyntax) \<Rightarrow> (0, Some ErrSyntax)
              | (un, _) \<Rightarrow>
                  let cutoff = 2 ^ (bitSize - 1)
                  in if \<not> neg \<and> un \<ge> cutoff then (int cutoff - 1, Some ErrRange)
                     else if neg \<and> un > cutoff then (- int cutoff, Some ErrRange)
                     else (if neg then - int un else int un, None)))"

text \<open>
  \<^verbatim>\<open>parseInt\<close> of the source calls \<^verbatim>\<open>strconv.Atoi\<close> and drops the error;
  \<^verbatim>\<open>Atoi\<close> is \<^verbatim>\<open>ParseInt\<close> in base 10 at the 64 bits of \<^verbatim>\<open>int\<close>.
\<close>

definition parseInt :: "string \<Rightarrow> int" where
  "parseInt s = fst (ParseInt s 10 64)"

definition decNat :: "string \<Rightarrow> nat" where
  "decNat ds = foldl (\<lambda>n c. 10 * n + (byte c - 48)) 0 ds"

text \<open>
  \<^verbatim>\<open>parseFloat\<close> of the source calls \<^verbatim>\<open>strconv.ParseFloat(s, 64)\<close> and drops the
  error, so that text that does not parse reads as zero. The model covers the plain
  decimal syntax of content streams (an optional sign, digits, at most one decimal point,
  at least one digit) and gives its exact value. The other forms the library accepts (an
  exponent, hexadecimal mantissas, digit-separating underscores, infinities and NaN) are
  outside the model, which reads them as zero.
\<close>

definition parseFloat :: "string \<Rightarrow> real" where
  "parseFloat s =
     (let neg = (s \<noteq> [] \<and> hd s = CHR ''-'');
          body = (if s \<noteq> [] \<and> (hd s = CHR ''+'' \<or> hd s = CHR ''-'') then tl s else s);
          ip = takeWhile isDigit body;
          rest = dropWhile isDigit body;
          fp = (if rest = [] then [] else tl rest);
          ok = (rest = [] \<or> (hd rest = CHR ''.'' \<and> list_all isDigit fp))
      in if ok \<and> (ip \<noteq> [] \<or> fp \<noteq> [])
         then (if neg then -1 else 1) * (real (decNat ip) + real (decNat fp) / 10 ^ length fp)
         else 0)"

text \<open>
  \<^verbatim>\<open>fmt.Sprintf("%f", x)\<close>: the sign, the integer part and six decimals, rounded to
  the nearest with ties to the even digit.
\<close>

definition roundHalfEven :: "real \<Rightarrow> nat" where
  "roundHalfEven x =
     (let n = nat \<lfloor>x\<rfloor>; r = x - real n
      in if r < 1 / 2 then n else if r > 1 / 2 then n + 1 else if even n then n else n + 1)"

function showNat :: "nat \<Rightarrow> string" where
  "showNat n =
     (if n < 10 then [char_of (48 + n)] else showNat (n div 10) @ [char_of (48 + n mod 10)])"
  by pat_completeness auto
termination
  by (relation "measure id") auto

definition formatF :: "real \<Rightarrow> string" where
  "formatF x =
     (let n = roundHalfEven (\<bar>x\<bar> * 1000000);
          frac = showNat (n mod 1000000)
      in (if x < 0 then ''-'' else []) @ showNat (n div 1000000) @ ''.''
           @ replicate (6 - length frac) (CHR ''0'') @ frac)"

subsection \<open>Runes\<close>

text \<open>
  \<^verbatim>\<open>string(rune(r))\<close>: the UTF-8 encoding of the code point, and the encoding of
  U+FFFD for a value that is no code point (negative, a surrogate half, or beyond
  U+10FFFF).
\<close>

definition encodeRune :: "int \<Rightarrow> string" where
  "encodeRune r =
     (let n = nat r in
      if r < 0 \<or> r > 0x10FFFF \<or> (0xD800 \<le> r \<and> r \<le> 0xDFFF)
        then [char_of (0xEF::nat), char_of (0xBF::nat), char_of (0xBD::nat)]
      else if n < 0x80 then [char_of n]
      else if n < 0x800 then [char_of (0xC0 + n div 64), char_of (0x80 + n mod 64)]
      else if n < 0x10000
        then [char_of (0xE0 + n div 4096), char_of (0x80 + (n div 64) mod 64),
              char_of (0x80 + n mod 64)]
      else [char_of (0xF0 + n div 262144), char_of (0x80 + (n div 4096) mod 64),
            char_of (0x80 + (n div 64) mod 64), char_of (0x80 + n mod 64)])"

text \<open>
  \<^verbatim>\<open>utf8.DecodeRuneInString\<close> on a non-empty string, given as its first byte and
  the rest: the rune and the number of bytes it takes. A byte that starts no valid
  encoding gives U+FFFD and width 1.
\<close>

definition isCont :: "char \<Rightarrow> bool" where
  "isCont c = (0x80 \<le> byte c \<and> byte c \<le> 0xBF)"

definition DecodeRune :: "char \<Rightarrow> string \<Rightarrow> int \<times> nat" where
  "DecodeRune c cs =
     (let s0 = byte c; runeError = (0xFFFD, 1) in
      if s0 < 0x80 then (int s0, 1)
      else if s0 < 0xC2 \<or> 0xF4 < s0 then runeError
      else
        let sz = (if s0 < 0xE0 then 2 else if s0 < 0xF0 then 3 else 4);
            lo = (if s0 = 0xE0 then 0xA0 else if s0 = 0xF0 then 0x90 else 0x80);
            hi = (if s0 = 0xED then 0x9F else if s0 = 0xF4 then 0x8F else 0xBF)
        in if Suc (length cs) < sz then runeError
           else
             let s1 = byte (cs ! 0) in
             if s1 < lo \<or> hi < s1 then runeError
             else if sz = 2 then (int ((s0 mod 32) * 64 + s1 mod 64), 2)
             else
               let s2 = byte (cs ! 1) in
               if \<not> isCont (cs ! 1) then runeError
               else if sz = 3
                 then (int ((s0 mod 16) * 4096 + (s1 mod 64) * 64 + s2 mod 64), 3)
               else
                 let s3 = byte (cs ! 2) in
                 if \<not> isCont (cs ! 2) then runeError
                 else (int ((s0 mod 8) * 262144 + (s1 mod 64) * 4096 + (s2 mod 64) * 64
                              + s3 mod 64), 4))"

text \<open>
  The runes a \<^verbatim>\<open>for _, r := range s\<close> loop visits. The first argument counts the
  bytes still covered by the rune read last.
\<close>

fun rangeRunes :: "nat \<Rightarrow> string \<Rightarrow> int list" where
  "rangeRunes skip [] = []"
| "rangeRunes skip (c # cs) =
     (if skip > 0 then rangeRunes (skip - 1) cs
      else (case DecodeRune c cs of (r, sz) \<Rightarrow> r # rangeRunes (sz - 1) cs))"

section \<open>The arithmetic of float64\<close>

text \<open>
  A \<^verbatim>\<open>float64\<close> is a finite number, an infinity or NaN (IEEE 754 binary64). A
  finite value is held as the real number it denotes. The two zeros are one value here:
  they compare equal in Go, and sums and products of operands that differ only in the
  sign of a zero differ at most in the sign of a zero.
\<close>

datatype float64 = Finite real | PosInf | NegInf | NaN

definition pow2 :: "int \<Rightarrow> real" where
  "pow2 k = (if 0 \<le> k then 2 ^ nat k else 1 / 2 ^ nat (- k))"

text \<open>
  The binary exponent of a real number other than zero: the integer \<open>e\<close> with
  \<open>2\<^sup>e \<le> \<bar>x\<bar> < 2\<^sup>e\<^sup>+\<^sup>1\<close>.
\<close>

definition exponent :: "real \<Rightarrow> int" where
  "exponent x =
     (if 1 \<le> \<bar>x\<bar> then bitlen \<lfloor>\<bar>x\<bar>\<rfloor> - 1 else - bitlen (\<lceil>1 / \<bar>x\<bar>\<rceil> - 1))"

definition nearestEven :: "real \<Rightarrow> int" where
  "nearestEven x =
     (let n = \<lfloor>x\<rfloor>; r = x - of_int n
      in if r < 1 / 2 then n else if r > 1 / 2 then n + 1 else if even n then n else n + 1)"

text \<open>
  Rounding to the nearest \<^verbatim>\<open>float64\<close>, ties to the even significand. A value has 53
  significant bits, so the values around \<open>x\<close> are the multiples of
  \<open>2\<^sup>e\<^sup>-\<^sup>5\<^sup>2\<close> for the exponent \<open>e\<close> of \<open>x\<close>, and of \<open>2\<^sup>-\<^sup>1\<^sup>0\<^sup>7\<^sup>4\<close> below the
  least normal exponent -1022. A result of magnitude \<open>2\<^sup>1\<^sup>0\<^sup>2\<^sup>4\<close> or more, which is a
  result of exponent 1024 or more, overflows to an infinity.
\<close>

definition round64 :: "real \<Rightarrow> float64" where
  "round64 x =
     (if x = 0 then Finite 0
      else
        let q = pow2 (max (exponent x) (- 1022) - 52);
            r = of_int (nearestEven (x / q)) * q
        in if r \<noteq> 0 \<and> 1024 \<le> exponent r then (if 0 < r then PosInf else NegInf)
           else Finite r)"

text \<open>
  The sum and the product of two \<^verbatim>\<open>float64\<close>: the exact result, rounded. Each
  operation rounds on its own; a compiler that fuses a product and a sum into one
  rounding is not modelled.
\<close>

fun add64 :: "float64 \<Rightarrow> float64 \<Rightarrow> float64" where
  "add64 NaN y = NaN"
| "add64 x NaN = NaN"
| "add64 PosInf NegInf = NaN"
| "add64 NegInf PosInf = NaN"
| "add64 PosInf y = PosInf"
| "add64 x PosInf = PosInf"
| "add64 NegInf y = NegInf"
| "add64 x NegInf = NegInf"
| "add64 (Finite a) (Finite b) = round64 (a + b)"

definition infTimes :: "bool \<Rightarrow> float64 \<Rightarrow> float64" where
  "infTimes positive y =
     (case y of
        NaN \<Rightarrow> NaN
      | PosInf \<Rightarrow> if positive then PosInf else NegInf
      | NegInf \<Rightarrow> if positive then NegInf else PosInf
      | Finite b \<Rightarrow>
          if b = 0 then NaN
          else if (0 < b) = positive then PosInf else NegInf)"

fun mul64 :: "float64 \<Rightarrow> float64 \<Rightarrow> float64" where
  "mul64 NaN y = NaN"
| "mul64 x NaN = NaN"
| "mul64 PosInf y = infTimes True y"
| "mul64 NegInf y = infTimes False y"
| "mul64 x PosInf = infTimes True x"
| "mul64 x NegInf = infTimes False x"
| "mul64 (Finite a) (Finite b) = round64 (a * b)"

instantiation float64 :: "{zero, one, plus, times}"
begin

definition zero_float64 :: float64 where
  "zero_float64 = Finite 0"

definition one_float64 :: float64 where
  "one_float64 = Finite 1"

definition plus_float64 :: "float64 \<Rightarrow> float64 \<Rightarrow> float64" where
  "plus_float64 x y = add64 x y"

definition times_float64 :: "float64 \<Rightarrow> float64 \<Rightarrow> float64" where
  "times_float64 x y = mul64 x y"

instance ..

end

section \<open>Matrices (content\_stream\_parser.go, state.go)\<close>

text \<open>
  The struct \<^verbatim>\<open>Matrix\<close> has six \<^verbatim>\<open>float64\<close> fields. The type of the fields is a
  parameter here, and the functions below use nothing but its constants 0 and 1, its sum
  and its product, so that each of them is one definition read in two arithmetics:
  with real fields in exact arithmetic, with \<^typ>\<open>float64\<close> fields in the
  arithmetic of the machine.
\<close>

record 'a Matrix =
  A :: 'a
  B :: 'a
  C :: 'a
  D :: 'a
  E :: 'a
  F :: 'a

definition IdentityMatrix :: "'a::{zero,one} Matrix" where
  "IdentityMatrix = \<lparr>A = 1, B = 0, C = 0, D = 1, E = 0, F = 0\<rparr>"

definition TranslationMatrix :: "'a::{zero,one} \<Rightarrow> 'a \<Rightarrow> 'a Matrix" where
  "TranslationMatrix tx ty = \<lparr>A = 1, B = 0, C = 0, D = 1, E = tx, F = ty\<rparr>"

definition MultiplyMatrix :: "'a::{plus,times} Matrix \<Rightarrow> 'a Matrix \<Rightarrow> 'a Matrix" where
  "MultiplyMatrix m1 m2 =
     \<lparr>A = A m1 * A m2 + B m1 * C m2,
      B = A m1 * B m2 + B m1 * D m2,
      C = C m1 * A m2 + D m1 * C m2,
      D = C m1 * B m2 + D m1 * D m2,
      E = E m1 * A m2 + F m1 * C m2 + E m2,
      F = E m1 * B m2 + F m1 * D m2 + F m2\<rparr>"

text \<open>The method \<^verbatim>\<open>Matrix.Multiply\<close> of package \<^verbatim>\<open>content\<close> (state.go).\<close>

definition Multiply :: "'a::{plus,times} Matrix \<Rightarrow> 'a Matrix \<Rightarrow> 'a Matrix" where
  "Multiply m other =
     \<lparr>A = A m * A other + B m * C other,
      B = A m * B other + B m * D other,
      C = C m * A other + D m * C other,
      D = C m * B other + D m * D other,
      E = E m * A other + F m * C other + E other,
      F = E m * B other + F m * D other + F other\<rparr>"

section \<open>The ToUnicode CMap (package pdf)\<close>

type_synonym uint16 = "16 word"

record cmapRange =
  startCID :: uint16
  endCID :: uint16
  startUnicode :: uint16
  unicodeArray :: "string list"

record ToUnicodeCMap =
  cidToUnicode :: "uint16 \<rightharpoonup> string"
  ranges :: "cmapRange list"
  rawData :: string

definition NewToUnicodeCMap :: ToUnicodeCMap where
  "NewToUnicodeCMap = \<lparr>cidToUnicode = Map.empty, ranges = [], rawData = []\<rparr>"

text \<open>
  The loop over the range records of \<^verbatim>\<open>MapCIDToUnicode\<close>. A record that contains
  the CID and has a non-empty array too short for it returns nothing, and the loop goes on
  to the next record. The sum \<^verbatim>\<open>r.startUnicode + offset\<close> is one of
  \<^verbatim>\<open>uint16\<close> and wraps around.
\<close>

fun mapRanges :: "cmapRange list \<Rightarrow> uint16 \<Rightarrow> string \<times> bool" where
  "mapRanges [] cid = ([], False)"
| "mapRanges (r # rs) cid =
     (if cid \<ge> startCID r \<and> cid \<le> endCID r then
        (if length (unicodeArray r) > 0 then
           (let index = unat (cid - startCID r)
            in if index < length (unicodeArray r) then (unicodeArray r ! index, True)
               else mapRanges rs cid)
         else
           (let offset = cid - startCID r;
                unicodePoint = startUnicode r + offset
            in (encodeRune (uint unicodePoint), True)))
      else mapRanges rs cid)"

definition MapCIDToUnicode :: "ToUnicodeCMap \<Rightarrow> uint16 \<Rightarrow> string \<times> bool" where
  "MapCIDToUnicode cmap cid =
     (case cidToUnicode cmap cid of
        Some unicode \<Rightarrow> (unicode, True)
      | None \<Rightarrow> mapRanges (ranges cmap) cid)"

text \<open>
  \<^verbatim>\<open>uint16(b)\<close> of a byte, and \<^verbatim>\<open>uint16(b0)<<8 | uint16(b1)\<close> of two.
\<close>

definition cidOfByte :: "char \<Rightarrow> uint16" where
  "cidOfByte b = word_of_nat (byte b)"

definition cidOfBytes :: "char \<Rightarrow> char \<Rightarrow> uint16" where
  "cidOfBytes b0 b1 = push_bit 8 (cidOfByte b0) OR cidOfByte b1"

subsection \<open>The regular expressions of the CMap parser\<close>

text \<open>
  The parser finds its blocks with regular expressions of package \<^verbatim>\<open>regexp\<close>.
  Each of them is matched here by a function that takes the input from a start position
  on and returns the groups the source uses and the input after the match, if the
  expression matches at that position. At every choice point of these expressions the
  next byte decides (digits before white space, white space before a letter or a bracket,
  hexadecimal digits before the closing bracket), so that the leftmost-first match of the
  library is the one match there is at a start position.
\<close>

definition isSpaceRe :: "char \<Rightarrow> bool" where
  "isSpaceRe c =
     (c = CHR 0x09 \<or> c = CHR 0x0A \<or> c = CHR 0x0C \<or> c = CHR 0x0D \<or> c = CHR '' '')"

definition matchLit :: "string \<Rightarrow> string \<Rightarrow> string option" where
  "matchLit lit s = (if HasPrefix s lit then Some (drop (length lit) s) else None)"

text \<open>\<^verbatim>\<open><([0-9A-Fa-f]+)>\<close>: the digits and the input after the closing bracket.\<close>

definition matchHexTok :: "string \<Rightarrow> (string \<times> string) option" where
  "matchHexTok s =
     (case s of
        [] \<Rightarrow> None
      | c # cs \<Rightarrow>
          if c \<noteq> CHR ''<'' then None
          else
            let h = takeWhile isHexDigit cs; r = dropWhile isHexDigit cs
            in if h = [] then None
               else (case r of
                       [] \<Rightarrow> None
                     | d # r' \<Rightarrow> if d = CHR ''>'' then Some (h, r') else None))"

text \<open>\<^verbatim>\<open><([0-9A-Fa-f]+)>\s*<([0-9A-Fa-f]+)>\<close>, the expression \<^verbatim>\<open>mappingRe\<close>.\<close>

definition matchMapping :: "string \<Rightarrow> ((string \<times> string) \<times> string) option" where
  "matchMapping s =
     (case matchHexTok s of
        None \<Rightarrow> None
      | Some (src, r1) \<Rightarrow>
          (case matchHexTok (dropWhile isSpaceRe r1) of
             None \<Rightarrow> None
           | Some (dst, r2) \<Rightarrow> Some ((src, dst), r2)))"

text \<open>\<^verbatim>\<open>\[([^\]]+)\]\<close>: the bracketed text with its brackets.\<close>

definition matchArray :: "string \<Rightarrow> (string \<times> string) option" where
  "matchArray s =
     (case s of
        [] \<Rightarrow> None
      | c # cs \<Rightarrow>
          if c \<noteq> CHR ''['' then None
          else
            let body = takeWhile (\<lambda>x. x \<noteq> CHR '']'') cs;
                r = dropWhile (\<lambda>x. x \<noteq> CHR '']'') cs
            in if body = [] then None
               else (case r of
                       [] \<Rightarrow> None
                     | d # r' \<Rightarrow> Some (CHR ''['' # body @ '']'', r')))"

text \<open>
  \<^verbatim>\<open><([0-9A-Fa-f]+)>\s*<([0-9A-Fa-f]+)>\s*(<[0-9A-Fa-f]+>|\[([^\]]+)\])\<close>, the
  expression \<^verbatim>\<open>rangeRe\<close>, with its first three groups.
\<close>

definition matchRange :: "string \<Rightarrow> ((string \<times> string \<times> string) \<times> string) option" where
  "matchRange s =
     (case matchMapping s of
        None \<Rightarrow> None
      | Some ((start, end), r2) \<Rightarrow>
          (let r3 = dropWhile isSpaceRe r2 in
           case matchHexTok r3 of
             Some (h, r4) \<Rightarrow> Some ((start, end, ''<'' @ h @ ''>''), r4)
           | None \<Rightarrow>
               (case matchArray r3 of
                  Some (arr, r4) \<Rightarrow> Some ((start, end, arr), r4)
                | None \<Rightarrow> None)))"

text \<open>
  The input after the longest run of items, each followed by white space: the starred
  group of the two block expressions. The fuel bounds the number of items by the length
  of the input, which every item shortens.
\<close>

fun manyItems :: "(string \<Rightarrow> ('a \<times> string) option) \<Rightarrow> nat \<Rightarrow> string \<Rightarrow> string" where
  "manyItems item 0 s = s"
| "manyItems item (Suc n) s =
     (case item s of
        None \<Rightarrow> s
      | Some (g, r) \<Rightarrow> manyItems item n (dropWhile isSpaceRe r))"

text \<open>
  \<^verbatim>\<open>(\d+)\s+KEYWORD\s*((?:ITEM\s*)+)endKEYWORD\<close> with the keyword
  \<^verbatim>\<open>beginbfchar\<close> or \<^verbatim>\<open>beginbfrange\<close>: the second group and the input
  after the match.
\<close>

definition matchBlock ::
  "string \<Rightarrow> string \<Rightarrow> (string \<Rightarrow> ('a \<times> string) option) \<Rightarrow> string \<Rightarrow> (string \<times> string) option" where
  "matchBlock beginKw endKw item s =
     (let digits = takeWhile isDigit s; s1 = dropWhile isDigit s;
          spaces = takeWhile isSpaceRe s1; s2 = dropWhile isSpaceRe s1
      in if digits = [] \<or> spaces = [] then None
         else
           (case matchLit beginKw s2 of
              None \<Rightarrow> None
            | Some s3 \<Rightarrow>
                (let s4 = dropWhile isSpaceRe s3;
                     s5 = manyItems item (length s4) s4
                 in if length s5 = length s4 then None
                    else
                      (case matchLit endKw s5 of
                         None \<Rightarrow> None
                       | Some s6 \<Rightarrow> Some (take (length s4 - length s5) s4, s6)))))"

text \<open>
  \<^verbatim>\<open>FindAllStringSubmatch(s, -1)\<close>: the matches from left to right, none
  overlapping another. The counter holds the number of bytes that the match found last
  still covers.
\<close>

fun findAll :: "(string \<Rightarrow> ('a \<times> string) option) \<Rightarrow> nat \<Rightarrow> string \<Rightarrow> 'a list" where
  "findAll m skip [] = []"
| "findAll m skip (c # cs) =
     (if skip > 0 then findAll m (skip - 1) cs
      else
        (case m (c # cs) of
           None \<Rightarrow> findAll m 0 cs
         | Some (g, r) \<Rightarrow> g # findAll m (length cs - length r) cs))"

subsection \<open>Parsing the blocks\<close>

text \<open>\<^verbatim>\<open>hex.DecodeString\<close>: the bytes, or nothing when the library returns an error.\<close>

definition fromHexChar :: "char \<Rightarrow> nat option" where
  "fromHexChar c = (if isHexDigit c then digitVal c else None)"

fun hexDecodeString :: "string \<Rightarrow> string option" where
  "hexDecodeString [] = Some []"
| "hexDecodeString [c] = None"
| "hexDecodeString (c # d # rest) =
     (case (fromHexChar c, fromHexChar d) of
        (Some a, Some b) \<Rightarrow>
          (case hexDecodeString rest of
             None \<Rightarrow> None
           | Some bs \<Rightarrow> Some (char_of (a * 16 + b) # bs))
      | _ \<Rightarrow> None)"

definition bytesToUnicode :: "string \<Rightarrow> string" where
  "bytesToUnicode data =
     (if length data = 0 then []
      else if length data = 1 then encodeRune (int (byte (data ! 0)))
      else if length data = 2 then encodeRune (uint (cidOfBytes (data ! 0) (data ! 1)))
      else if length data = 4 then
        (let high = cidOfBytes (data ! 0) (data ! 1);
             low = cidOfBytes (data ! 2) (data ! 3)
         in if high \<ge> 0xD800 \<and> high \<le> 0xDBFF \<and> low \<ge> 0xDC00 \<and> low \<le> 0xDFFF
            then encodeRune (0x10000 + (uint high mod 1024) * 1024 + uint low mod 1024)
            else
              (let codePoint = uint high * 65536 + uint low
               in encodeRune (if codePoint \<ge> 2 ^ 31 then codePoint - 2 ^ 32 else codePoint)))
      else data)"

text \<open>The CID of one or of at least two bytes, as the three places of the source read it.\<close>

definition cidOfDecoded :: "string \<Rightarrow> uint16" where
  "cidOfDecoded bs =
     (if length bs = 1 then cidOfByte (bs ! 0)
      else if length bs \<ge> 2 then cidOfBytes (bs ! 0) (bs ! 1)
      else 0)"

text \<open>The body of the inner loop of \<^verbatim>\<open>parseBeginBFChar\<close>, for one mapping.\<close>

definition addBFChar :: "ToUnicodeCMap \<Rightarrow> string \<times> string \<Rightarrow> ToUnicodeCMap" where
  "addBFChar cmap mapping =
     (case hexDecodeString (fst mapping) of
        None \<Rightarrow> cmap
      | Some srcBytes \<Rightarrow>
          if length srcBytes = 0 then cmap
          else
            (case hexDecodeString (snd mapping) of
               None \<Rightarrow> cmap
             | Some dstBytes \<Rightarrow>
                 cmap\<lparr>cidToUnicode :=
                        (cidToUnicode cmap)(cidOfDecoded srcBytes \<mapsto> bytesToUnicode dstBytes)\<rparr>))"

definition parseBeginBFChar :: "ToUnicodeCMap \<Rightarrow> string \<Rightarrow> ToUnicodeCMap" where
  "parseBeginBFChar cmap content =
     foldl (\<lambda>cm mappingStr. foldl addBFChar cm (findAll matchMapping 0 mappingStr)) cmap
       (findAll (matchBlock ''beginbfchar'' ''endbfchar'' matchMapping) 0 content)"

text \<open>
  The body of the inner loop of \<^verbatim>\<open>parseBeginBFRange\<close>, for one range. A
  destination in square brackets is skipped: the source leaves the array format undone.
\<close>

definition addBFRange :: "ToUnicodeCMap \<Rightarrow> string \<times> string \<times> string \<Rightarrow> ToUnicodeCMap" where
  "addBFRange cmap r =
     (case hexDecodeString (fst r) of
        None \<Rightarrow> cmap
      | Some startBytes \<Rightarrow>
          (case hexDecodeString (fst (snd r)) of
             None \<Rightarrow> cmap
           | Some endBytes \<Rightarrow>
               if HasPrefix (snd (snd r)) ''<'' then
                 (case hexDecodeString (Trim (snd (snd r)) ''<>'') of
                    None \<Rightarrow> cmap
                  | Some dstBytes \<Rightarrow>
                      cmap\<lparr>ranges := ranges cmap @
                             [\<lparr>startCID = cidOfDecoded startBytes,
                               endCID = cidOfDecoded endBytes,
                               startUnicode = cidOfDecoded dstBytes,
                               unicodeArray = []\<rparr>]\<rparr>)
               else cmap))"

definition parseBeginBFRange :: "ToUnicodeCMap \<Rightarrow> string \<Rightarrow> ToUnicodeCMap" where
  "parseBeginBFRange cmap content =
     foldl (\<lambda>cm rangeStr. foldl addBFRange cm (findAll matchRange 0 rangeStr)) cmap
       (findAll (matchBlock ''beginbfrange'' ''endbfrange'' matchRange) 0 content)"

text \<open>
  The method \<^verbatim>\<open>Parse\<close> of the CMap. Neither block parser ever returns an error,
  so that \<^verbatim>\<open>Parse\<close> returns none either.
\<close>

definition ToUnicodeCMap_Parse :: "ToUnicodeCMap \<Rightarrow> string \<Rightarrow> ToUnicodeCMap" where
  "ToUnicodeCMap_Parse cmap data =
     parseBeginBFRange (parseBeginBFChar (cmap\<lparr>rawData := data\<rparr>) data) data"

section \<open>The state of the content stream parser (content\_stream\_parser.go, types.go)\<close>

record PDFColor =
  R :: real
  G :: real
  B :: real
  ColorSpace :: string

record PDFPoint =
  X :: real
  Y :: real

record PathElement =
  Type :: string
  Points :: "PDFPoint list"

record GraphicsState =
  CTM :: "real Matrix"
  StrokeColor :: PDFColor
  FillColor :: PDFColor
  LineWidth :: real
  LineCap :: int
  LineJoin :: int
  MiterLimit :: real
  DashPattern :: "real list"
  DashPhase :: real

record FontInfo =
  Name :: string
  BaseFont :: string
  Encoding :: string
  IsVertical :: bool
  SpaceWidth :: real
  FontMatrix :: "real Matrix"
  ToUnicodeCMap :: "ToUnicodeCMap option"

record TextState =
  Font :: "FontInfo option"
  FontSize :: real
  CharSpace :: real
  WordSpace :: real
  Scale :: real
  Leading :: real
  Rise :: real
  RenderMode :: int

text \<open>The output objects of types.go. Colour channels are \<^verbatim>\<open>uint8\<close>.\<close>

record Color =
  R :: "8 word"
  G :: "8 word"
  B :: "8 word"
  A :: "8 word"

record Point =
  X :: real
  Y :: real

record TransformMatrix =
  A :: real
  B :: real
  C :: real
  D :: real
  E :: real
  F :: real

record BoundingBox =
  X0 :: real
  Y0 :: real
  X1 :: real
  Y1 :: real

record CharObject =
  Text :: string
  Font :: string
  FontSize :: real
  X0 :: real
  Y0 :: real
  X1 :: real
  Y1 :: real
  Width :: real
  Height :: real
  Color :: Color
  Matrix :: TransformMatrix

record LineObject =
  X0 :: real
  Y0 :: real
  X1 :: real
  Y1 :: real
  Width :: real
  StrokeColor :: Color
  NonStroking :: bool

record RectObject =
  X0 :: real
  Y0 :: real
  X1 :: real
  Y1 :: real
  Width :: real
  StrokeColor :: Color
  FillColor :: Color
  NonStroking :: bool

record CurveObject =
  Points :: "Point list"
  StrokeColor :: Color
  FillColor :: Color
  Width :: real

text \<open>
  The parser fills the four collections below; the image and annotation collections of
  \<^verbatim>\<open>Objects\<close> stay empty throughout and are left out.
\<close>

record Objects =
  Chars :: "CharObject list"
  Lines :: "LineObject list"
  Rects :: "RectObject list"
  Curves :: "CurveObject list"

text \<open>
  The parser. The saved states are at the end of \<^verbatim>\<open>stateStack\<close>, as
  \<^verbatim>\<open>append\<close> leaves them. The source holds the graphics state, the saved states
  and the text state behind pointers; no two of these pointers ever name the same object
  and the dash pattern is replaced, never written into, so that values stand for them
  here. The fields that only serve to read the font resources of the page (the document
  context, the page dictionary and its resources) are left out: the font table is given.
\<close>

record ContentStreamParser =
  objects :: Objects
  graphicsState :: GraphicsState
  stateStack :: "GraphicsState list"
  textState :: TextState
  textMatrix :: "real Matrix"
  lineMatrix :: "real Matrix"
  currentPath :: "PathElement list"
  fonts :: "string \<rightharpoonup> FontInfo"

definition zeroColor :: Color where
  "zeroColor = \<lparr>Color.R = 0, G = 0, B = 0, A = 0\<rparr>"

definition zeroTransformMatrix :: TransformMatrix where
  "zeroTransformMatrix =
     \<lparr>TransformMatrix.A = 0, B = 0, C = 0, D = 0, E = 0, F = 0\<rparr>"

definition NewContentStreamParser :: "(string \<rightharpoonup> FontInfo) \<Rightarrow> ContentStreamParser" where
  "NewContentStreamParser fontTable =
     \<lparr>objects = \<lparr>Chars = [], Lines = [], Rects = [], Curves = []\<rparr>,
      graphicsState =
        \<lparr>CTM = IdentityMatrix,
         StrokeColor = \<lparr>PDFColor.R = 0, G = 0, B = 0, ColorSpace = ''Gray''\<rparr>,
         FillColor = \<lparr>PDFColor.R = 0, G = 0, B = 0, ColorSpace = ''Gray''\<rparr>,
         LineWidth = 1, LineCap = 0, LineJoin = 0, MiterLimit = 10,
         DashPattern = [], DashPhase = 0\<rparr>,
      stateStack = [],
      textState =
        \<lparr>TextState.Font = None, FontSize = 12, CharSpace = 0, WordSpace = 0, Scale = 100,
         Leading = 0, Rise = 0, RenderMode = 0\<rparr>,
      textMatrix = IdentityMatrix,
      lineMatrix = IdentityMatrix,
      currentPath = [],
      fonts = fontTable\<rparr>"

section \<open>Decoding string operands\<close>

definition isWhitespace :: "char \<Rightarrow> bool" where
  "isWhitespace b =
     (b = CHR '' '' \<or> b = CHR 0x09 \<or> b = CHR 0x0A \<or> b = CHR 0x0D \<or> b = CHR 0x0C
      \<or> b = CHR 0x00)"

definition isDelimiter :: "char \<Rightarrow> bool" where
  "isDelimiter b =
     (b = CHR ''('' \<or> b = CHR '')'' \<or> b = CHR ''<'' \<or> b = CHR ''>'' \<or> b = CHR ''[''
      \<or> b = CHR '']'' \<or> b = CHR ''{'' \<or> b = CHR ''}'' \<or> b = CHR ''/'' \<or> b = CHR ''%'')"

text \<open>\<^verbatim>\<open>byte(val)\<close> of a signed integer: its low eight bits.\<close>

definition byteOfInt :: "int \<Rightarrow> char" where
  "byteOfInt v = char_of (nat (v mod 256))"

text \<open>
  \<^verbatim>\<open>unescapeString\<close>. A backslash that is not the last byte is followed by its
  escape letter; any other follower is tried as three octal digits when at least three
  bytes follow, and the backslash is written as it is when that fails.
\<close>

fun unescapeString :: "string \<Rightarrow> string" where
  "unescapeString [] = []"
| "unescapeString [c] = [c]"
| "unescapeString (c # d # rest) =
     (if c = CHR 0x5C then
        (if d = CHR ''n'' then CHR 0x0A # unescapeString rest
         else if d = CHR ''r'' then CHR 0x0D # unescapeString rest
         else if d = CHR ''t'' then CHR 0x09 # unescapeString rest
         else if d = CHR ''b'' then CHR 0x08 # unescapeString rest
         else if d = CHR ''f'' then CHR 0x0C # unescapeString rest
         else if d = CHR ''('' then CHR ''('' # unescapeString rest
         else if d = CHR '')'' then CHR '')'' # unescapeString rest
         else if d = CHR 0x5C then CHR 0x5C # unescapeString rest
         else if 2 \<le> length rest \<and> 48 \<le> byte d \<and> byte d \<le> 55 then
           (case ParseInt (d # take 2 rest) 8 16 of
              (val, None) \<Rightarrow> byteOfInt val # unescapeString (drop 2 rest)
            | (val, Some err) \<Rightarrow> c # unescapeString (d # rest))
         else c # unescapeString (d # rest))
      else c # unescapeString (d # rest))"

text \<open>\<^verbatim>\<open>decodeHexString\<close>: two digits a byte, a pair that does not parse is dropped.\<close>

fun decodeHexString :: "string \<Rightarrow> string" where
  "decodeHexString [] = []"
| "decodeHexString [c] =
     (case ParseInt [c, CHR ''0''] 16 16 of
        (val, None) \<Rightarrow> [byteOfInt val]
      | (val, Some err) \<Rightarrow> [])"
| "decodeHexString (c # d # rest) =
     (case ParseInt [c, d] 16 16 of
        (val, None) \<Rightarrow> byteOfInt val # decodeHexString rest
      | (val, Some err) \<Rightarrow> decodeHexString rest)"

definition mapOrByte :: "ToUnicodeCMap \<Rightarrow> char \<Rightarrow> string" where
  "mapOrByte cmap b =
     (case MapCIDToUnicode cmap (cidOfByte b) of
        (unicode, True) \<Rightarrow> unicode
      | (unicode, False) \<Rightarrow> [b])"

text \<open>The two loops of \<^verbatim>\<open>decodeString\<close>: two-byte CIDs, and single bytes.\<close>

fun decodeIdentity :: "ToUnicodeCMap \<Rightarrow> string \<Rightarrow> string" where
  "decodeIdentity cmap [] = []"
| "decodeIdentity cmap [b] = mapOrByte cmap b"
| "decodeIdentity cmap (b0 # b1 # rest) =
     (case MapCIDToUnicode cmap (cidOfBytes b0 b1) of
        (unicode, True) \<Rightarrow> unicode @ decodeIdentity cmap rest
      | (unicode, False) \<Rightarrow> mapOrByte cmap b0 @ mapOrByte cmap b1 @ decodeIdentity cmap rest)"

definition decodeSingle :: "ToUnicodeCMap \<Rightarrow> string \<Rightarrow> string" where
  "decodeSingle cmap data = concat (map (mapOrByte cmap) data)"

definition decodeString :: "ContentStreamParser \<Rightarrow> string \<Rightarrow> string" where
  "decodeString p str =
     (case TextState.Font (textState p) of
        None \<Rightarrow> str
      | Some font \<Rightarrow>
          (case ToUnicodeCMap font of
             None \<Rightarrow> str
           | Some cmap \<Rightarrow>
               if Encoding font = ''Identity-H'' \<or> Encoding font = ''Identity-V''
               then decodeIdentity cmap str
               else decodeSingle cmap str))"

definition extractString :: "ContentStreamParser \<Rightarrow> string \<Rightarrow> string" where
  "extractString p str =
     (if HasPrefix str ''('' \<and> HasSuffix str '')'' then
        (let str1 = unescapeString (TrimSuffix (TrimPrefix str ''('') '')'')
         in case TextState.Font (textState p) of
              None \<Rightarrow> str1
            | Some font \<Rightarrow> decodeString p str1)
      else if HasPrefix str ''<'' \<and> HasSuffix str ''>'' then
        (let decoded = decodeHexString (TrimSuffix (TrimPrefix str ''<'') ''>'')
         in case TextState.Font (textState p) of
              None \<Rightarrow> decoded
            | Some font \<Rightarrow> decodeString p decoded)
      else str)"

section \<open>Text operators\<close>

definition beginText :: "ContentStreamParser \<Rightarrow> ContentStreamParser" where
  "beginText p = p\<lparr>textMatrix := IdentityMatrix, lineMatrix := IdentityMatrix\<rparr>"

definition endText :: "ContentStreamParser \<Rightarrow> ContentStreamParser" where
  "endText p = p"

definition textMoveBy :: "ContentStreamParser \<Rightarrow> string list \<Rightarrow> ContentStreamParser" where
  "textMoveBy p operands =
     (if length operands < 2 then p
      else
        let tx = parseFloat (operands ! 0);
            ty = parseFloat (operands ! 1);
            translation = TranslationMatrix tx ty;
            lm = MultiplyMatrix translation (lineMatrix p)
        in p\<lparr>lineMatrix := lm, textMatrix := lm\<rparr>)"

definition textMoveByWithLeading ::
  "ContentStreamParser \<Rightarrow> string list \<Rightarrow> ContentStreamParser" where
  "textMoveByWithLeading p operands =
     (if length operands < 2 then p
      else
        let ty = parseFloat (operands ! 1)
        in textMoveBy (p\<lparr>textState := (textState p)\<lparr>Leading := - ty\<rparr>\<rparr>) operands)"

definition setTextMatrix :: "ContentStreamParser \<Rightarrow> string list \<Rightarrow> ContentStreamParser" where
  "setTextMatrix p operands =
     (if length operands < 6 then p
      else
        let m = \<lparr>Matrix.A = parseFloat (operands ! 0), B = parseFloat (operands ! 1),
                 C = parseFloat (operands ! 2), D = parseFloat (operands ! 3),
                 E = parseFloat (operands ! 4), F = parseFloat (operands ! 5)\<rparr>
        in p\<lparr>textMatrix := m, lineMatrix := m\<rparr>)"

definition textNextLine :: "ContentStreamParser \<Rightarrow> ContentStreamParser" where
  "textNextLine p = textMoveBy p [''0'', formatF (- Leading (textState p))]"

definition getCharWidth :: "string \<Rightarrow> real" where
  "getCharWidth char =
     (if char = '' '' then 0.25
      else if char \<in> {''i'', ''l'', ''I'', ''!'', ''.'', '','', '';'', '':'',
                        [CHR 0x27], [CHR 0x22]} then 0.3
      else if char \<in> {''m'', ''M'', ''W'', ''w''} then 0.8
      else 0.5)"

text \<open>The body of the loop of \<^verbatim>\<open>addTextChars\<close>, for one rune of the text.\<close>

definition addTextChar :: "FontInfo \<Rightarrow> ContentStreamParser \<Rightarrow> int \<Rightarrow> ContentStreamParser" where
  "addTextChar font p runeValue =
     (let charStr = encodeRune runeValue;
          charWidth = getCharWidth charStr * TextState.FontSize (textState p);
          textX = Matrix.E (textMatrix p);
          textY = Matrix.F (textMatrix p);
          ctm = CTM (graphicsState p);
          x = Matrix.A ctm * textX + Matrix.C ctm * textY + Matrix.E ctm;
          y = Matrix.B ctm * textX + Matrix.D ctm * textY + Matrix.F ctm;
          char = \<lparr>Text = charStr, Font = Name font,
                  FontSize = TextState.FontSize (textState p),
                  X0 = x, Y0 = y, X1 = x + charWidth,
                  Y1 = y + TextState.FontSize (textState p),
                  Width = charWidth, Height = TextState.FontSize (textState p),
                  Color = zeroColor, Matrix = zeroTransformMatrix\<rparr>;
          displacement0 = charWidth;
          displacement1 =
            (if charStr = '' '' then displacement0 + WordSpace (textState p)
             else displacement0);
          displacement2 = displacement1 + CharSpace (textState p);
          displacement = displacement2 * (Scale (textState p) / 100)
      in p\<lparr>objects := (objects p)\<lparr>Chars := Chars (objects p) @ [char]\<rparr>,
           textMatrix := (textMatrix p)
             \<lparr>Matrix.E := Matrix.E (textMatrix p) + displacement * Matrix.A (textMatrix p),
              Matrix.F := Matrix.F (textMatrix p) + displacement * Matrix.B (textMatrix p)\<rparr>\<rparr>)"

definition addTextChars :: "ContentStreamParser \<Rightarrow> string \<Rightarrow> ContentStreamParser" where
  "addTextChars p text =
     (if text = [] then p
      else
        (case TextState.Font (textState p) of
           None \<Rightarrow> p
         | Some font \<Rightarrow> foldl (addTextChar font) p (rangeRunes 0 text)))"

definition showText :: "ContentStreamParser \<Rightarrow> string list \<Rightarrow> ContentStreamParser" where
  "showText p operands =
     (if length operands < 1 then p
      else addTextChars p (extractString p (operands ! 0)))"

text \<open>
  The loop of \<^verbatim>\<open>parseTextArray\<close> over the bytes of the array text. Its arguments
  are the local variables of the source, then the byte before the current one (none at
  index 0) and the bytes from the current one on.
\<close>

fun parseTextArrayLoop ::
  "string list \<Rightarrow> string \<Rightarrow> bool \<Rightarrow> bool \<Rightarrow> int \<Rightarrow> char option \<Rightarrow> string \<Rightarrow> string list" where
  "parseTextArrayLoop elements current inString inHexString parenDepth prev [] =
     (if length current > 0 then elements @ [current] else elements)"
| "parseTextArrayLoop elements current inString inHexString parenDepth prev (ch # rest) =
     (if \<not> inString \<and> \<not> inHexString \<and> isWhitespace ch then
        (if length current > 0
         then parseTextArrayLoop (elements @ [current]) [] inString inHexString parenDepth
                (Some ch) rest
         else parseTextArrayLoop elements current inString inHexString parenDepth
                (Some ch) rest)
      else if ch = CHR ''('' \<and> \<not> inHexString then
        (if \<not> inString
         then parseTextArrayLoop elements (current @ [ch]) True inHexString 1 (Some ch) rest
         else if prev = Some (CHR 0x5C)
         then parseTextArrayLoop elements (current @ [ch]) inString inHexString parenDepth
                (Some ch) rest
         else parseTextArrayLoop elements (current @ [ch]) inString inHexString
                (parenDepth + 1) (Some ch) rest)
      else if ch = CHR '')'' \<and> inString \<and> \<not> inHexString then
        (if prev = Some (CHR 0x5C)
         then parseTextArrayLoop elements (current @ [ch]) inString inHexString parenDepth
                (Some ch) rest
         else if parenDepth - 1 = 0
         then parseTextArrayLoop (elements @ [current @ [ch]]) [] False inHexString
                (parenDepth - 1) (Some ch) rest
         else parseTextArrayLoop elements (current @ [ch]) inString inHexString
                (parenDepth - 1) (Some ch) rest)
      else if ch = CHR ''<'' \<and> \<not> inString then
        (if \<not> inHexString
         then parseTextArrayLoop elements (current @ [ch]) inString True parenDepth
                (Some ch) rest
         else parseTextArrayLoop elements current inString inHexString parenDepth
                (Some ch) rest)
      else if ch = CHR ''>'' \<and> inHexString then
        parseTextArrayLoop (elements @ [current @ [ch]]) [] inString False parenDepth
          (Some ch) rest
      else if ch = CHR ''-'' \<and> \<not> inString \<and> \<not> inHexString then
        (if rest \<noteq> [] \<and> (isDigit (hd rest) \<or> hd rest = CHR ''.'')
         then parseTextArrayLoop elements (current @ [ch]) inString inHexString parenDepth
                (Some ch) rest
         else if length current > 0
         then parseTextArrayLoop (elements @ [current]) [] inString inHexString parenDepth
                (Some ch) rest
         else parseTextArrayLoop elements current inString inHexString parenDepth
                (Some ch) rest)
      else parseTextArrayLoop elements (current @ [ch]) inString inHexString parenDepth
             (Some ch) rest)"

definition parseTextArray :: "string \<Rightarrow> string list" where
  "parseTextArray arrayStr = parseTextArrayLoop [] [] False False 0 None arrayStr"

text \<open>The body of the loop of \<^verbatim>\<open>showTextArray\<close>, for one element of the array.\<close>

definition showTextArrayElem :: "ContentStreamParser \<Rightarrow> string \<Rightarrow> ContentStreamParser" where
  "showTextArrayElem p elem =
     (if HasPrefix elem ''('' \<or> HasPrefix elem ''<''
      then addTextChars p (extractString p elem)
      else
        let spacing = parseFloat elem / 1000.0 * TextState.FontSize (textState p)
        in p\<lparr>textMatrix := (textMatrix p)
               \<lparr>Matrix.E := Matrix.E (textMatrix p) - spacing * Matrix.A (textMatrix p)\<rparr>\<rparr>)"

definition showTextArray :: "ContentStreamParser \<Rightarrow> string list \<Rightarrow> ContentStreamParser" where
  "showTextArray p operands =
     (if length operands < 1 then p
      else
        let arrayStr = Join operands '' ''
        in if \<not> HasPrefix arrayStr ''['' \<or> \<not> HasSuffix arrayStr '']'' then p
           else
             let elements = parseTextArray (TrimSuffix (TrimPrefix arrayStr ''['') '']'')
             in foldl showTextArrayElem p elements)"

definition textNextLineShow :: "ContentStreamParser \<Rightarrow> string list \<Rightarrow> ContentStreamParser" where
  "textNextLineShow p operands = showText (textNextLine p) operands"

definition setCharSpace :: "ContentStreamParser \<Rightarrow> string list \<Rightarrow> ContentStreamParser" where
  "setCharSpace p operands =
     (if length operands < 1 then p
      else p\<lparr>textState := (textState p)\<lparr>CharSpace := parseFloat (operands ! 0)\<rparr>\<rparr>)"

definition setWordSpace :: "ContentStreamParser \<Rightarrow> string list \<Rightarrow> ContentStreamParser" where
  "setWordSpace p operands =
     (if length operands < 1 then p
      else p\<lparr>textState := (textState p)\<lparr>WordSpace := parseFloat (operands ! 0)\<rparr>\<rparr>)"

definition textNextLineShowWithSpacing ::
  "ContentStreamParser \<Rightarrow> string list \<Rightarrow> ContentStreamParser" where
  "textNextLineShowWithSpacing p operands =
     (if length operands < 3 then p
      else showText (setCharSpace (setWordSpace p (take 1 operands)) (take 1 (drop 1 operands)))
             (drop 2 operands))"

definition setHorizontalScale :: "ContentStreamParser \<Rightarrow> string list \<Rightarrow> ContentStreamParser" where
  "setHorizontalScale p operands =
     (if length operands < 1 then p
      else p\<lparr>textState := (textState p)\<lparr>Scale := parseFloat (operands ! 0)\<rparr>\<rparr>)"

definition setTextLeading :: "ContentStreamParser \<Rightarrow> string list \<Rightarrow> ContentStreamParser" where
  "setTextLeading p operands =
     (if length operands < 1 then p
      else p\<lparr>textState := (textState p)\<lparr>Leading := parseFloat (operands ! 0)\<rparr>\<rparr>)"

definition setFont :: "ContentStreamParser \<Rightarrow> string list \<Rightarrow> ContentStreamParser" where
  "setFont p operands =
     (if length operands < 2 then p
      else
        let fontName = TrimPrefix (operands ! 0) ''/'';
            fontSize = parseFloat (operands ! 1);
            p1 = (case fonts p fontName of
                    Some font \<Rightarrow> p\<lparr>textState := (textState p)\<lparr>TextState.Font := Some font\<rparr>\<rparr>
                  | None \<Rightarrow> p)
        in p1\<lparr>textState := (textState p1)\<lparr>TextState.FontSize := fontSize\<rparr>\<rparr>)"

definition setTextRenderMode :: "ContentStreamParser \<Rightarrow> string list \<Rightarrow> ContentStreamParser" where
  "setTextRenderMode p operands =
     (if length operands < 1 then p
      else p\<lparr>textState := (textState p)\<lparr>RenderMode := parseInt (operands ! 0)\<rparr>\<rparr>)"

definition setTextRise :: "ContentStreamParser \<Rightarrow> string list \<Rightarrow> ContentStreamParser" where
  "setTextRise p operands =
     (if length operands < 1 then p
      else p\<lparr>textState := (textState p)\<lparr>Rise := parseFloat (operands ! 0)\<rparr>\<rparr>)"

section \<open>Graphics state and path operators\<close>

definition saveGraphicsState :: "ContentStreamParser \<Rightarrow> ContentStreamParser" where
  "saveGraphicsState p = p\<lparr>stateStack := stateStack p @ [graphicsState p]\<rparr>"

definition restoreGraphicsState :: "ContentStreamParser \<Rightarrow> ContentStreamParser" where
  "restoreGraphicsState p =
     (if length (stateStack p) > 0
      then p\<lparr>graphicsState := last (stateStack p), stateStack := butlast (stateStack p)\<rparr>
      else p)"

definition concatenateMatrix :: "ContentStreamParser \<Rightarrow> string list \<Rightarrow> ContentStreamParser" where
  "concatenateMatrix p operands =
     (if length operands < 6 then p
      else
        let m = \<lparr>Matrix.A = parseFloat (operands ! 0), B = parseFloat (operands ! 1),
                 C = parseFloat (operands ! 2), D = parseFloat (operands ! 3),
                 E = parseFloat (operands ! 4), F = parseFloat (operands ! 5)\<rparr>
        in p\<lparr>graphicsState := (graphicsState p)
               \<lparr>CTM := MultiplyMatrix m (CTM (graphicsState p))\<rparr>\<rparr>)"

definition pt :: "real \<Rightarrow> real \<Rightarrow> PDFPoint" where
  "pt x y = \<lparr>PDFPoint.X = x, Y = y\<rparr>"

definition moveTo :: "ContentStreamParser \<Rightarrow> string list \<Rightarrow> ContentStreamParser" where
  "moveTo p operands =
     (if length operands < 2 then p
      else
        let x = parseFloat (operands ! 0); y = parseFloat (operands ! 1)
        in p\<lparr>currentPath := currentPath p @ [\<lparr>Type = ''moveto'', Points = [pt x y]\<rparr>]\<rparr>)"

definition lineTo :: "ContentStreamParser \<Rightarrow> string list \<Rightarrow> ContentStreamParser" where
  "lineTo p operands =
     (if length operands < 2 then p
      else
        let x = parseFloat (operands ! 0); y = parseFloat (operands ! 1)
        in p\<lparr>currentPath := currentPath p @ [\<lparr>Type = ''lineto'', Points = [pt x y]\<rparr>]\<rparr>)"

definition curveTo :: "ContentStreamParser \<Rightarrow> string list \<Rightarrow> ContentStreamParser" where
  "curveTo p operands =
     (if length operands < 6 then p
      else p\<lparr>currentPath := currentPath p @
             [\<lparr>Type = ''curveto'',
               Points = [pt (parseFloat (operands ! 0)) (parseFloat (operands ! 1)),
                         pt (parseFloat (operands ! 2)) (parseFloat (operands ! 3)),
                         pt (parseFloat (operands ! 4)) (parseFloat (operands ! 5))]\<rparr>]\<rparr>)"

definition curveToV :: "ContentStreamParser \<Rightarrow> string list \<Rightarrow> ContentStreamParser" where
  "curveToV p operands =
     (if length operands < 4 then p
      else p\<lparr>currentPath := currentPath p @
             [\<lparr>Type = ''curveto'',
               Points = [pt 0 0,
                         pt (parseFloat (operands ! 0)) (parseFloat (operands ! 1)),
                         pt (parseFloat (operands ! 2)) (parseFloat (operands ! 3))]\<rparr>]\<rparr>)"

definition curveToY :: "ContentStreamParser \<Rightarrow> string list \<Rightarrow> ContentStreamParser" where
  "curveToY p operands =
     (if length operands < 4 then p
      else p\<lparr>currentPath := currentPath p @
             [\<lparr>Type = ''curveto'',
               Points = [pt (parseFloat (operands ! 0)) (parseFloat (operands ! 1)),
                         pt (parseFloat (operands ! 2)) (parseFloat (operands ! 3)),
                         pt (parseFloat (operands ! 2)) (parseFloat (operands ! 3))]\<rparr>]\<rparr>)"

definition closePath :: "ContentStreamParser \<Rightarrow> ContentStreamParser" where
  "closePath p = p\<lparr>currentPath := currentPath p @ [\<lparr>Type = ''close'', Points = []\<rparr>]\<rparr>"

definition rectangle :: "ContentStreamParser \<Rightarrow> string list \<Rightarrow> ContentStreamParser" where
  "rectangle p operands =
     (if length operands < 4 then p
      else
        let x = parseFloat (operands ! 0); y = parseFloat (operands ! 1);
            width = parseFloat (operands ! 2); height = parseFloat (operands ! 3)
        in p\<lparr>currentPath := currentPath p @
               [\<lparr>Type = ''moveto'', Points = [pt x y]\<rparr>,
                \<lparr>Type = ''lineto'', Points = [pt (x + width) y]\<rparr>,
                \<lparr>Type = ''lineto'', Points = [pt (x + width) (y + height)]\<rparr>,
                \<lparr>Type = ''lineto'', Points = [pt x (y + height)]\<rparr>,
                \<lparr>Type = ''close'', Points = []\<rparr>]\<rparr>)"

section \<open>Path painting\<close>

definition transformPoint :: "ContentStreamParser \<Rightarrow> real \<Rightarrow> real \<Rightarrow> real \<times> real" where
  "transformPoint p x y =
     (let ctm = CTM (graphicsState p)
      in (Matrix.A ctm * x + Matrix.C ctm * y + Matrix.E ctm,
          Matrix.B ctm * x + Matrix.D ctm * y + Matrix.F ctm))"

text \<open>
  \<^verbatim>\<open>uint8(x)\<close> of a \<^verbatim>\<open>float64\<close> drops the fraction. Go leaves the result open
  for a value outside 0..255; the model keeps the low eight bits there.
\<close>

definition toUint8 :: "real \<Rightarrow> 8 word" where
  "toUint8 x = word_of_int (if x \<ge> 0 then \<lfloor>x\<rfloor> else \<lceil>x\<rceil>)"

definition convertPDFColorToColor :: "PDFColor \<Rightarrow> Color" where
  "convertPDFColorToColor pdfColor =
     \<lparr>Color.R = toUint8 (PDFColor.R pdfColor * 255),
      G = toUint8 (PDFColor.G pdfColor * 255),
      B = toUint8 (PDFColor.B pdfColor * 255),
      A = 255\<rparr>"

definition isRectanglePath :: "ContentStreamParser \<Rightarrow> bool" where
  "isRectanglePath p =
     (let lineCount = length (filter (\<lambda>elem. Type elem = ''lineto'') (currentPath p));
          hasClose = list_ex (\<lambda>elem. Type elem = ''close'') (currentPath p)
      in lineCount = 3 \<and> hasClose)"

text \<open>
  The loop of \<^verbatim>\<open>getPathBounds\<close> over the points of the path: the flag
  \<^verbatim>\<open>first\<close>, then the four bounds. The functions \<^verbatim>\<open>min\<close> and \<^verbatim>\<open>max\<close>
  of types.go agree with \<^const>\<open>min\<close> and \<^const>\<open>max\<close> on real numbers.
\<close>

fun boundsStep ::
  "bool \<times> real \<times> real \<times> real \<times> real \<Rightarrow> PDFPoint \<Rightarrow> bool \<times> real \<times> real \<times> real \<times> real" where
  "boundsStep (first, minX, minY, maxX, maxY) q =
     (if first then (False, PDFPoint.X q, PDFPoint.Y q, PDFPoint.X q, PDFPoint.Y q)
      else (False, min minX (PDFPoint.X q), min minY (PDFPoint.Y q),
            max maxX (PDFPoint.X q), max maxY (PDFPoint.Y q)))"

definition getPathBounds :: "ContentStreamParser \<Rightarrow> real \<times> real \<times> real \<times> real" where
  "getPathBounds p =
     snd (foldl boundsStep (True, 0, 0, 0, 0) (concat (map PathElement.Points (currentPath p))))"

definition createFilledPath :: "ContentStreamParser \<Rightarrow> ContentStreamParser" where
  "createFilledPath p =
     (if length (currentPath p) < 3 then p
      else if isRectanglePath p then
        (case getPathBounds p of
           (minX, minY, maxX, maxY) \<Rightarrow>
             (case transformPoint p minX minY of
                (x0, y0) \<Rightarrow>
                  (case transformPoint p maxX maxY of
                     (x1, y1) \<Rightarrow>
                       let fillColor = convertPDFColorToColor (GraphicsState.FillColor (graphicsState p));
                           rect = \<lparr>RectObject.X0 = min x0 x1, Y0 = min y0 y1,
                                   X1 = max x0 x1, Y1 = max y0 y1, Width = 0,
                                   StrokeColor = zeroColor, FillColor = fillColor,
                                   NonStroking = True\<rparr>
                       in p\<lparr>objects := (objects p)\<lparr>Rects := Rects (objects p) @ [rect]\<rparr>\<rparr>)))
      else p)"

text \<open>
  The loop of \<^verbatim>\<open>createLineFromPath\<close> over the elements of the path. Its state
  is the output collected so far and the local variables \<^verbatim>\<open>currentX\<close>,
  \<^verbatim>\<open>currentY\<close>, \<^verbatim>\<open>pathStartX\<close> and \<^verbatim>\<open>pathStartY\<close>.
\<close>

definition mkLine :: "ContentStreamParser \<Rightarrow> Color \<Rightarrow> real \<Rightarrow> real \<Rightarrow> real \<Rightarrow> real \<Rightarrow> LineObject" where
  "mkLine p strokeColor fromX fromY toX toY =
     (case transformPoint p fromX fromY of
        (startX, startY) \<Rightarrow>
          (case transformPoint p toX toY of
             (endX, endY) \<Rightarrow>
               \<lparr>LineObject.X0 = startX, Y0 = startY, X1 = endX, Y1 = endY,
                Width = LineWidth (graphicsState p), StrokeColor = strokeColor,
                NonStroking = False\<rparr>))"

definition mkPoint :: "real \<times> real \<Rightarrow> Point" where
  "mkPoint xy = \<lparr>Point.X = fst xy, Y = snd xy\<rparr>"

fun createLineStep ::
  "ContentStreamParser \<Rightarrow> Color \<Rightarrow> Objects \<times> real \<times> real \<times> real \<times> real \<Rightarrow> PathElement
     \<Rightarrow> Objects \<times> real \<times> real \<times> real \<times> real" where
  "createLineStep p strokeColor (objs, currentX, currentY, pathStartX, pathStartY) elem =
     (let pts = PathElement.Points elem in
      if Type elem = ''moveto'' then
        (if length pts > 0
         then (objs, PDFPoint.X (pts ! 0), PDFPoint.Y (pts ! 0),
               PDFPoint.X (pts ! 0), PDFPoint.Y (pts ! 0))
         else (objs, currentX, currentY, pathStartX, pathStartY))
      else if Type elem = ''lineto'' then
        (if length pts > 0
         then
           (let endX = PDFPoint.X (pts ! 0); endY = PDFPoint.Y (pts ! 0);
                line = mkLine p strokeColor currentX currentY endX endY
            in (objs\<lparr>Lines := Lines objs @ [line]\<rparr>, endX, endY, pathStartX, pathStartY))
         else (objs, currentX, currentY, pathStartX, pathStartY))
      else if Type elem = ''close'' then
        (if currentX \<noteq> pathStartX \<or> currentY \<noteq> pathStartY
         then
           (let line = mkLine p strokeColor currentX currentY pathStartX pathStartY
            in (objs\<lparr>Lines := Lines objs @ [line]\<rparr>,
                currentX, currentY, pathStartX, pathStartY))
         else (objs, currentX, currentY, pathStartX, pathStartY))
      else if Type elem = ''curveto'' then
        (if length pts \<ge> 3
         then
           (let endX = PDFPoint.X (pts ! 2); endY = PDFPoint.Y (pts ! 2);
                curve = \<lparr>CurveObject.Points =
                           [mkPoint (transformPoint p currentX currentY),
                            mkPoint (transformPoint p (PDFPoint.X (pts ! 0)) (PDFPoint.Y (pts ! 0))),
                            mkPoint (transformPoint p (PDFPoint.X (pts ! 1)) (PDFPoint.Y (pts ! 1))),
                            mkPoint (transformPoint p endX endY)],
                         StrokeColor = strokeColor, FillColor = zeroColor,
                         Width = LineWidth (graphicsState p)\<rparr>
            in (objs\<lparr>Curves := Curves objs @ [curve]\<rparr>, endX, endY, pathStartX, pathStartY))
         else (objs, currentX, currentY, pathStartX, pathStartY))
      else (objs, currentX, currentY, pathStartX, pathStartY))"

definition createLineFromPath :: "ContentStreamParser \<Rightarrow> ContentStreamParser" where
  "createLineFromPath p =
     (if length (currentPath p) < 2 then p
      else
        let strokeColor = convertPDFColorToColor (GraphicsState.StrokeColor (graphicsState p))
        in p\<lparr>objects :=
               fst (foldl (createLineStep p strokeColor) (objects p, 0, 0, 0, 0)
                      (currentPath p))\<rparr>)"

definition stroke :: "ContentStreamParser \<Rightarrow> ContentStreamParser" where
  "stroke p = (createLineFromPath p)\<lparr>currentPath := []\<rparr>"

definition fill :: "ContentStreamParser \<Rightarrow> ContentStreamParser" where
  "fill p = (createFilledPath p)\<lparr>currentPath := []\<rparr>"

definition fillAndStroke :: "ContentStreamParser \<Rightarrow> ContentStreamParser" where
  "fillAndStroke p = (createLineFromPath (createFilledPath p))\<lparr>currentPath := []\<rparr>"

definition endPath :: "ContentStreamParser \<Rightarrow> ContentStreamParser" where
  "endPath p = p\<lparr>currentPath := []\<rparr>"

section \<open>Line style and colour operators\<close>

definition setLineWidth :: "ContentStreamParser \<Rightarrow> string list \<Rightarrow> ContentStreamParser" where
  "setLineWidth p operands =
     (if length operands < 1 then p
      else p\<lparr>graphicsState := (graphicsState p)\<lparr>LineWidth := parseFloat (operands ! 0)\<rparr>\<rparr>)"

definition setLineCap :: "ContentStreamParser \<Rightarrow> string list \<Rightarrow> ContentStreamParser" where
  "setLineCap p operands =
     (if length operands < 1 then p
      else p\<lparr>graphicsState := (graphicsState p)\<lparr>LineCap := parseInt (operands ! 0)\<rparr>\<rparr>)"

definition setLineJoin :: "ContentStreamParser \<Rightarrow> string list \<Rightarrow> ContentStreamParser" where
  "setLineJoin p operands =
     (if length operands < 1 then p
      else p\<lparr>graphicsState := (graphicsState p)\<lparr>LineJoin := parseInt (operands ! 0)\<rparr>\<rparr>)"

definition setMiterLimit :: "ContentStreamParser \<Rightarrow> string list \<Rightarrow> ContentStreamParser" where
  "setMiterLimit p operands =
     (if length operands < 1 then p
      else p\<lparr>graphicsState := (graphicsState p)\<lparr>MiterLimit := parseFloat (operands ! 0)\<rparr>\<rparr>)"

definition setDashPattern :: "ContentStreamParser \<Rightarrow> string list \<Rightarrow> ContentStreamParser" where
  "setDashPattern p operands =
     (if length operands \<ge> 2
      then p\<lparr>graphicsState := (graphicsState p)\<lparr>DashPattern := [1]\<rparr>\<rparr>
      else p)"

definition rgbColor :: "string list \<Rightarrow> PDFColor" where
  "rgbColor operands =
     \<lparr>PDFColor.R = parseFloat (operands ! 0), G = parseFloat (operands ! 1),
      B = parseFloat (operands ! 2), ColorSpace = ''RGB''\<rparr>"

definition grayColor :: "string list \<Rightarrow> PDFColor" where
  "grayColor operands =
     (let gray = parseFloat (operands ! 0)
      in \<lparr>PDFColor.R = gray, G = gray, B = gray, ColorSpace = ''Gray''\<rparr>)"

definition cmykColor :: "string list \<Rightarrow> PDFColor" where
  "cmykColor operands =
     (let c = parseFloat (operands ! 0); m = parseFloat (operands ! 1);
          y = parseFloat (operands ! 2); k = parseFloat (operands ! 3)
      in \<lparr>PDFColor.R = (1 - c) * (1 - k), G = (1 - m) * (1 - k), B = (1 - y) * (1 - k),
          ColorSpace = ''CMYK''\<rparr>)"

definition setStrokeColorRGB :: "ContentStreamParser \<Rightarrow> string list \<Rightarrow> ContentStreamParser" where
  "setStrokeColorRGB p operands =
     (if length operands < 3 then p
      else p\<lparr>graphicsState := (graphicsState p)
             \<lparr>GraphicsState.StrokeColor := rgbColor operands\<rparr>\<rparr>)"

definition setFillColorRGB :: "ContentStreamParser \<Rightarrow> string list \<Rightarrow> ContentStreamParser" where
  "setFillColorRGB p operands =
     (if length operands < 3 then p
      else p\<lparr>graphicsState := (graphicsState p)
             \<lparr>GraphicsState.FillColor := rgbColor operands\<rparr>\<rparr>)"

definition setStrokeColorGray :: "ContentStreamParser \<Rightarrow> string list \<Rightarrow> ContentStreamParser" where
  "setStrokeColorGray p operands =
     (if length operands < 1 then p
      else p\<lparr>graphicsState := (graphicsState p)
             \<lparr>GraphicsState.StrokeColor := grayColor operands\<rparr>\<rparr>)"

definition setFillColorGray :: "ContentStreamParser \<Rightarrow> string list \<Rightarrow> ContentStreamParser" where
  "setFillColorGray p operands =
     (if length operands < 1 then p
      else p\<lparr>graphicsState := (graphicsState p)
             \<lparr>GraphicsState.FillColor := grayColor operands\<rparr>\<rparr>)"

definition setStrokeColorCMYK :: "ContentStreamParser \<Rightarrow> string list \<Rightarrow> ContentStreamParser" where
  "setStrokeColorCMYK p operands =
     (if length operands < 4 then p
      else p\<lparr>graphicsState := (graphicsState p)
             \<lparr>GraphicsState.StrokeColor := cmykColor operands\<rparr>\<rparr>)"

definition setFillColorCMYK :: "ContentStreamParser \<Rightarrow> string list \<Rightarrow> ContentStreamParser" where
  "setFillColorCMYK p operands =
     (if length operands < 4 then p
      else p\<lparr>graphicsState := (graphicsState p)
             \<lparr>GraphicsState.FillColor := cmykColor operands\<rparr>\<rparr>)"

definition setStrokeColorSpace :: "ContentStreamParser \<Rightarrow> string list \<Rightarrow> ContentStreamParser" where
  "setStrokeColorSpace p operands = p"

definition setFillColorSpace :: "ContentStreamParser \<Rightarrow> string list \<Rightarrow> ContentStreamParser" where
  "setFillColorSpace p operands = p"

definition setStrokeColor :: "ContentStreamParser \<Rightarrow> string list \<Rightarrow> ContentStreamParser" where
  "setStrokeColor p operands =
     (if length operands = 1 then setStrokeColorGray p operands
      else if length operands \<ge> 3 then setStrokeColorRGB p operands
      else p)"

definition setFillColor :: "ContentStreamParser \<Rightarrow> string list \<Rightarrow> ContentStreamParser" where
  "setFillColor p operands =
     (if length operands = 1 then setFillColorGray p operands
      else if length operands \<ge> 3 then setFillColorRGB p operands
      else p)"

section \<open>Operator dispatch\<close>

definition isOperator :: "string \<Rightarrow> bool" where
  "isOperator token =
     (token \<in> set
        [''BT'', ''ET'', ''Td'', ''TD'', ''Tm'', ''T*'', ''Tj'', ''TJ'', [CHR 0x27], [CHR 0x22],
         ''Tc'', ''Tw'', ''Tz'', ''TL'', ''Tf'', ''Tr'', ''Ts'',
         ''q'', ''Q'', ''cm'', ''w'', ''J'', ''j'', ''M'', ''d'', ''ri'', ''i'', ''gs'',
         ''m'', ''l'', ''c'', ''v'', ''y'', ''h'', ''re'',
         ''S'', ''s'', ''f'', ''F'', ''f*'', ''B'', ''B*'', ''b'', ''b*'', ''n'',
         ''CS'', ''cs'', ''SC'', ''SCN'', ''sc'', ''scn'', ''G'', ''g'', ''RG'', ''rg'',
         ''K'', ''k'',
         ''W'', ''W*'', ''BX'', ''EX'', ''Do'', ''MP'', ''DP'', ''BMC'', ''BDC'', ''EMC''])"

definition processOperator ::
  "ContentStreamParser \<Rightarrow> string \<Rightarrow> string list \<Rightarrow> ContentStreamParser" where
  "processOperator p operator operands =
     (if operator = ''BT'' then beginText p
      else if operator = ''ET'' then endText p
      else if operator = ''Td'' then textMoveBy p operands
      else if operator = ''TD'' then textMoveByWithLeading p operands
      else if operator = ''Tm'' then setTextMatrix p operands
      else if operator = ''T*'' then textNextLine p
      else if operator = ''Tj'' then showText p operands
      else if operator = ''TJ'' then showTextArray p operands
      else if operator = [CHR 0x27] then textNextLineShow p operands
      else if operator = [CHR 0x22] then textNextLineShowWithSpacing p operands
      else if operator = ''Tc'' then setCharSpace p operands
      else if operator = ''Tw'' then setWordSpace p operands
      else if operator = ''Tz'' then setHorizontalScale p operands
      else if operator = ''TL'' then setTextLeading p operands
      else if operator = ''Tf'' then setFont p operands
      else if operator = ''Tr'' then setTextRenderMode p operands
      else if operator = ''Ts'' then setTextRise p operands
      else if operator = ''q'' then saveGraphicsState p
      else if operator = ''Q'' then restoreGraphicsState p
      else if operator = ''cm'' then concatenateMatrix p operands
      else if operator = ''m'' then moveTo p operands
      else if operator = ''l'' then lineTo p operands
      else if operator = ''c'' then curveTo p operands
      else if operator = ''v'' then curveToV p operands
      else if operator = ''y'' then curveToY p operands
      else if operator = ''h'' then closePath p
      else if operator = ''re'' then rectangle p operands
      else if operator = ''S'' \<or> operator = ''s'' then stroke p
      else if operator = ''f'' \<or> operator = ''F'' \<or> operator = ''f*'' then fill p
      else if operator = ''B'' \<or> operator = ''B*'' \<or> operator = ''b'' \<or> operator = ''b*''
        then fillAndStroke p
      else if operator = ''n'' then endPath p
      else if operator = ''w'' then setLineWidth p operands
      else if operator = ''J'' then setLineCap p operands
      else if operator = ''j'' then setLineJoin p operands
      else if operator = ''M'' then setMiterLimit p operands
      else if operator = ''d'' then setDashPattern p operands
      else if operator = ''RG'' then setStrokeColorRGB p operands
      else if operator = ''rg'' then setFillColorRGB p operands
      else if operator = ''G'' then setStrokeColorGray p operands
      else if operator = ''g'' then setFillColorGray p operands
      else if operator = ''K'' then setStrokeColorCMYK p operands
      else if operator = ''k'' then setFillColorCMYK p operands
      else if operator = ''CS'' then setStrokeColorSpace p operands
      else if operator = ''cs'' then setFillColorSpace p operands
      else if operator = ''SC'' \<or> operator = ''SCN'' then setStrokeColor p operands
      else if operator = ''sc'' \<or> operator = ''scn'' then setFillColor p operands
      else p)"

section \<open>The tokenizer\<close>

text \<open>
  A \<^verbatim>\<open>bytes.Reader\<close>: the bytes read so far, the last one first, and the bytes
  still to read. \<^verbatim>\<open>ReadByte\<close> at the end of the input returns the byte 0 and
  an error that the source drops; \<^verbatim>\<open>UnreadByte\<close> steps back by one byte
  whenever a byte has been read, also after a \<^verbatim>\<open>ReadByte\<close> that failed.
\<close>

type_synonym reader = "string \<times> string"

definition Len :: "reader \<Rightarrow> nat" where
  "Len r = length (snd r)"

definition ReadByte :: "reader \<Rightarrow> char \<times> reader" where
  "ReadByte r =
     (case snd r of
        [] \<Rightarrow> (CHR 0x00, r)
      | b # rest \<Rightarrow> (b, (b # fst r, rest)))"

definition UnreadByte :: "reader \<Rightarrow> reader" where
  "UnreadByte r =
     (case fst r of
        [] \<Rightarrow> r
      | b # seen \<Rightarrow> (seen, b # snd r))"

fun readStringLiteral :: "string \<Rightarrow> int \<Rightarrow> string \<Rightarrow> string \<Rightarrow> string \<times> reader" where
  "readStringLiteral result depth seen [] = (result, (seen, []))"
| "readStringLiteral result depth seen [b] =
     (if b = CHR 0x5C then (result @ [CHR 0x5C, CHR 0x00], (b # seen, []))
      else if b = CHR ''('' then (result @ [b], (b # seen, []))
      else if b = CHR '')'' then
        (if depth - 1 = 0 then (result, (b # seen, []))
         else (result @ [b], (b # seen, [])))
      else (result @ [b], (b # seen, [])))"
| "readStringLiteral result depth seen (b # nxt # rest) =
     (if b = CHR 0x5C
        then readStringLiteral (result @ [CHR 0x5C, nxt]) depth (nxt # b # seen) rest
      else if b = CHR ''(''
        then readStringLiteral (result @ [b]) (depth + 1) (b # seen) (nxt # rest)
      else if b = CHR '')'' then
        (if depth - 1 = 0 then (result, (b # seen, nxt # rest))
         else readStringLiteral (result @ [b]) (depth - 1) (b # seen) (nxt # rest))
      else readStringLiteral (result @ [b]) depth (b # seen) (nxt # rest))"

fun readHexString :: "string \<Rightarrow> string \<Rightarrow> string \<Rightarrow> string \<times> reader" where
  "readHexString result seen [] = (result, (seen, []))"
| "readHexString result seen (b # rest) =
     (if b = CHR ''>'' then (result, (b # seen, rest))
      else if \<not> isWhitespace b then readHexString (result @ [b]) (b # seen) rest
      else readHexString result (b # seen) rest)"

fun readName :: "string \<Rightarrow> string \<Rightarrow> string \<Rightarrow> string \<times> reader" where
  "readName result seen [] = (result, (seen, []))"
| "readName result seen (b # rest) =
     (if isDelimiter b \<or> isWhitespace b then (result, (seen, b # rest))
      else readName (result @ [b]) (b # seen) rest)"

fun readToken :: "string \<Rightarrow> string \<Rightarrow> string \<Rightarrow> string \<times> reader" where
  "readToken result seen [] = (result, (seen, []))"
| "readToken result seen (b # rest) =
     (if isDelimiter b \<or> isWhitespace b then (result, (seen, b # rest))
      else readToken (result @ [b]) (b # seen) rest)"

fun skipComment :: "string \<Rightarrow> string \<Rightarrow> reader" where
  "skipComment seen [] = (seen, [])"
| "skipComment seen (b # rest) =
     (if b = CHR 0x0A \<or> b = CHR 0x0D then (b # seen, rest)
      else skipComment (b # seen) rest)"

text \<open>
  The loop of \<^verbatim>\<open>tokenize\<close>. One unit of fuel pays for one pass through the loop;
  \<^const>\<open>None\<close> says that the fuel ran out before the reader was empty.
\<close>

fun tokenizeLoop :: "nat \<Rightarrow> string list \<Rightarrow> reader \<Rightarrow> string list option" where
  "tokenizeLoop 0 tokens r = (if Len r > 0 then None else Some tokens)"
| "tokenizeLoop (Suc n) tokens r =
     (if \<not> Len r > 0 then Some tokens
      else
        (case ReadByte r of
           (b, r1) \<Rightarrow>
             if isWhitespace b then tokenizeLoop n tokens r1
             else if b = CHR ''('' then
               (case readStringLiteral [] 1 (fst r1) (snd r1) of
                  (str, r2) \<Rightarrow> tokenizeLoop n (tokens @ [''('' @ str @ '')'']) r2)
             else if b = CHR ''<'' then
               (case ReadByte r1 of
                  (nxt, r2) \<Rightarrow>
                    if nxt = CHR ''<'' then tokenizeLoop n (tokens @ [''<<'']) r2
                    else
                      (case readHexString [] (fst (UnreadByte r2)) (snd (UnreadByte r2)) of
                         (hex, r3) \<Rightarrow> tokenizeLoop n (tokens @ [''<'' @ hex @ ''>'']) r3))
             else if b = CHR ''>'' then
               (case ReadByte r1 of
                  (nxt, r2) \<Rightarrow>
                    if nxt = CHR ''>'' then tokenizeLoop n (tokens @ [''>>'']) r2
                    else tokenizeLoop n tokens (UnreadByte r2))
             else if b = CHR ''['' then tokenizeLoop n (tokens @ [''['']) r1
             else if b = CHR '']'' then tokenizeLoop n (tokens @ ['']'']) r1
             else if b = CHR ''/'' then
               (case readName [] (fst r1) (snd r1) of
                  (name, r2) \<Rightarrow> tokenizeLoop n (tokens @ [''/'' @ name]) r2)
             else if b = CHR ''%'' then tokenizeLoop n tokens (skipComment (fst r1) (snd r1))
             else
               (case readToken [] (fst (UnreadByte r1)) (snd (UnreadByte r1)) of
                  (token, r2) \<Rightarrow>
                    if token \<noteq> [] then tokenizeLoop n (tokens @ [token]) r2
                    else tokenizeLoop n tokens r2)))"

definition tokenize :: "nat \<Rightarrow> string \<Rightarrow> string list option" where
  "tokenize fuel content = tokenizeLoop fuel [] ([], content)"

section \<open>Parsing a content stream\<close>

fun processTokens ::
  "ContentStreamParser \<Rightarrow> string list \<Rightarrow> string list \<Rightarrow> ContentStreamParser" where
  "processTokens p operands [] = p"
| "processTokens p operands (token # tokens) =
     (if isOperator token then processTokens (processOperator p token operands) [] tokens
      else processTokens p (operands @ [token]) tokens)"

text \<open>
  \<^verbatim>\<open>Parse\<close> returns the collected objects; \<^verbatim>\<open>ParseState\<close> is the parser
  it leaves behind.
\<close>

definition ParseState :: "nat \<Rightarrow> ContentStreamParser \<Rightarrow> string \<Rightarrow> ContentStreamParser option" where
  "ParseState fuel p content = map_option (processTokens p []) (tokenize fuel content)"

definition Parse :: "nat \<Rightarrow> ContentStreamParser \<Rightarrow> string \<Rightarrow> Objects option" where
  "Parse fuel p content = map_option objects (ParseState fuel p content)"

section \<open>Sorting slices\<close>

text \<open>
  \<^verbatim>\<open>sort.Slice\<close> is modelled by the insertion sort that the library runs on a
  slice of at most twelve elements: each element in turn moves left past every
  neighbour it is less than. The sorted part is held with its last element first. On a
  longer slice the library sorts by another algorithm, which returns the same slice
  whenever that is already in order, and the same up to the order of equal elements
  whenever the comparison is a strict weak order.
\<close>

fun insertRev :: "('a \<Rightarrow> 'a \<Rightarrow> bool) \<Rightarrow> 'a \<Rightarrow> 'a list \<Rightarrow> 'a list" where
  "insertRev lt x [] = [x]"
| "insertRev lt x (y # ys) = (if lt x y then y # insertRev lt x ys else x # y # ys)"

definition sortSlice :: "('a \<Rightarrow> 'a \<Rightarrow> bool) \<Rightarrow> 'a list \<Rightarrow> 'a list" where
  "sortSlice lt xs = rev (foldl (\<lambda>acc x. insertRev lt x acc) [] xs)"

section \<open>The text organizer (package extractors)\<close>

record TextOrganizer =
  xTolerance :: real
  yTolerance :: real

record Word =
  Text :: string
  BBox :: BoundingBox
  Characters :: "CharObject list"

text \<open>
  \<^verbatim>\<open>createWord\<close> reads \<^verbatim>\<open>chars[0]\<close> and panics on an empty slice. Its
  callers pass non-empty slices only, and the model says nothing about the empty one.
\<close>

fun createWord :: "CharObject list \<Rightarrow> Word" where
  "createWord (c # cs) =
     \<lparr>Word.Text = concat (map CharObject.Text (c # cs)),
      BBox =
        \<lparr>BoundingBox.X0 = foldl (\<lambda>m ch. min m (CharObject.X0 ch)) (CharObject.X0 c) (c # cs),
         Y0 = foldl (\<lambda>m ch. min m (CharObject.Y0 ch)) (CharObject.Y0 c) (c # cs),
         X1 = foldl (\<lambda>m ch. max m (CharObject.X1 ch)) (CharObject.X1 c) (c # cs),
         Y1 = foldl (\<lambda>m ch. max m (CharObject.Y1 ch)) (CharObject.Y1 c) (c # cs)\<rparr>,
      Characters = c # cs\<rparr>"

text \<open>
  The loop of \<^verbatim>\<open>extractWordsFromLine\<close> from index 1 on: the words finished so
  far, the word being built, the character at index \<^verbatim>\<open>i-1\<close>, and the characters from
  index \<^verbatim>\<open>i\<close> on.
\<close>

fun wordsLoop ::
  "TextOrganizer \<Rightarrow> Word list \<Rightarrow> CharObject list \<Rightarrow> CharObject \<Rightarrow> CharObject list \<Rightarrow> Word list" where
  "wordsLoop to words currentWord prev [] =
     (if length currentWord > 0 then words @ [createWord currentWord] else words)"
| "wordsLoop to words currentWord prev (char # rest) =
     (let gap = CharObject.X0 char - CharObject.X1 prev in
      if gap > xTolerance to \<or> gap > CharObject.Width char * 0.3 then
        wordsLoop to
          (if length currentWord > 0 then words @ [createWord currentWord] else words)
          [char] char rest
      else wordsLoop to words (currentWord @ [char]) char rest)"

definition extractWordsFromLine :: "TextOrganizer \<Rightarrow> CharObject list \<Rightarrow> Word list" where
  "extractWordsFromLine to lineChars =
     (case sortSlice (\<lambda>a b. CharObject.X0 a < CharObject.X0 b) lineChars of
        [] \<Rightarrow> []
      | char # rest \<Rightarrow> wordsLoop to [] [char] char rest)"

section \<open>The table extractor (package pdf)\<close>

record tableExtractor =
  verticalStrategy :: string
  horizontalStrategy :: string
  minTableSize :: int
  textTolerance :: real
  snapTolerance :: real
  joinTolerance :: real
  edgeTolerance :: real

record tableRegion =
  BBox :: BoundingBox
  HLines :: "real list"
  VLines :: "real list"
  Cells :: "BoundingBox list list"

record Table =
  Rows :: "string list list"
  BBox :: BoundingBox

text \<open>\<^verbatim>\<open>math.Round\<close>: to the nearest integer, halves away from zero.\<close>

definition Round :: "real \<Rightarrow> real" where
  "Round x = (if x \<ge> 0 then of_int \<lfloor>x + 1 / 2\<rfloor> else of_int \<lceil>x - 1 / 2\<rceil>)"

definition collectTableLines ::
  "tableExtractor \<Rightarrow> Objects \<Rightarrow> LineObject list \<times> LineObject list" where
  "collectTableLines te objs =
     (filter (\<lambda>line. \<bar>LineObject.Y1 line - LineObject.Y0 line\<bar> < snapTolerance te)
        (Lines objs),
      filter (\<lambda>line. \<not> \<bar>LineObject.Y1 line - LineObject.Y0 line\<bar> < snapTolerance te
                      \<and> \<bar>LineObject.X1 line - LineObject.X0 line\<bar> < snapTolerance te)
        (Lines objs))"

text \<open>
  The loop of \<^verbatim>\<open>groupLines\<close> from index 1 on: the groups closed so far, the
  current group, the line at index \<^verbatim>\<open>i-1\<close> and the lines from index \<^verbatim>\<open>i\<close> on.
\<close>

fun groupLoop ::
  "bool \<Rightarrow> LineObject list list \<Rightarrow> LineObject list \<Rightarrow> LineObject \<Rightarrow> LineObject list
     \<Rightarrow> LineObject list list" where
  "groupLoop horizontal groups currentGroup prev [] =
     (if length currentGroup > 0 then groups @ [currentGroup] else groups)"
| "groupLoop horizontal groups currentGroup prev (line # rest) =
     (let pos = (if horizontal then LineObject.Y0 line else LineObject.X0 line);
          prevPos = (if horizontal then LineObject.Y0 prev else LineObject.X0 prev)
      in if \<bar>pos - prevPos\<bar> > 50
         then groupLoop horizontal (groups @ [currentGroup]) [line] line rest
         else groupLoop horizontal groups (currentGroup @ [line]) line rest)"

definition groupLines :: "tableExtractor \<Rightarrow> LineObject list \<Rightarrow> bool \<Rightarrow> LineObject list list" where
  "groupLines te lines horizontal =
     (case sortSlice (\<lambda>a b. if horizontal then LineObject.Y0 a < LineObject.Y0 b
                              else LineObject.X0 a < LineObject.X0 b) lines of
        [] \<Rightarrow> []
      | line # rest \<Rightarrow> groupLoop horizontal [] [line] line rest)"

text \<open>
  \<^verbatim>\<open>getUniquePositions\<close> collects the snapped start and end positions as the
  keys of a map and returns the keys in the order the map gives them, which Go leaves
  open. The model returns them in the order of their first appearance; the one caller
  sorts them.
\<close>

definition snap :: "tableExtractor \<Rightarrow> real \<Rightarrow> real" where
  "snap te v = Round (v / snapTolerance te) * snapTolerance te"

definition getUniquePositions :: "tableExtractor \<Rightarrow> LineObject list \<Rightarrow> bool \<Rightarrow> real list" where
  "getUniquePositions te lines horizontal =
     remdups (concat (map (\<lambda>line.
        if horizontal then [snap te (LineObject.Y0 line), snap te (LineObject.Y1 line)]
        else [snap te (LineObject.X0 line), snap te (LineObject.X1 line)]) lines))"

definition createTableRegion ::
  "tableExtractor \<Rightarrow> LineObject list \<Rightarrow> LineObject list \<Rightarrow> tableRegion option" where
  "createTableRegion te hLines vLines =
     (let hPositions0 = getUniquePositions te hLines True;
          vPositions0 = getUniquePositions te vLines False
      in if length hPositions0 < 2 \<or> length vPositions0 < 2 then None
         else
           let hPositions = sort hPositions0;
               vPositions = sort vPositions0;
               cells =
                 map (\<lambda>i. map (\<lambda>j. \<lparr>BoundingBox.X0 = vPositions ! j, Y0 = hPositions ! i,
                                      X1 = vPositions ! (j + 1), Y1 = hPositions ! (i + 1)\<rparr>)
                            [0 ..< length vPositions - 1])
                   [0 ..< length hPositions - 1];
               bbox = \<lparr>BoundingBox.X0 = vPositions ! 0, Y0 = hPositions ! 0,
                       X1 = vPositions ! (length vPositions - 1),
                       Y1 = hPositions ! (length hPositions - 1)\<rparr>
           in Some \<lparr>tableRegion.BBox = bbox, HLines = hPositions, VLines = vPositions,
                     Cells = cells\<rparr>)"

definition findTableRegions ::
  "tableExtractor \<Rightarrow> LineObject list \<Rightarrow> LineObject list \<Rightarrow> tableRegion list" where
  "findTableRegions te hLines vLines =
     (let hGroups = groupLines te hLines True;
          vGroups = groupLines te vLines False
      in concat (map (\<lambda>hGroup. concat (map (\<lambda>vGroup.
           if length hGroup \<ge> 2 \<and> length vGroup \<ge> 2 then
             (case createTableRegion te hGroup vGroup of
                None \<Rightarrow> []
              | Some region \<Rightarrow> [region])
           else []) vGroups)) hGroups))"

text \<open>
  The loop of \<^verbatim>\<open>extractCellText\<close> that builds the text of a cell from its sorted
  characters, with the local variables \<^verbatim>\<open>text\<close>, \<^verbatim>\<open>lastY\<close> and \<^verbatim>\<open>lastX\<close>.
\<close>

fun cellTextLoop :: "tableExtractor \<Rightarrow> string \<Rightarrow> real \<Rightarrow> real \<Rightarrow> CharObject list \<Rightarrow> string" where
  "cellTextLoop te text lastY lastX [] = text"
| "cellTextLoop te text lastY lastX (char # rest) =
     (if lastY > 0 \<and> \<bar>CharObject.Y0 char - lastY\<bar> > textTolerance te
      then cellTextLoop te (text @ [CHR 0x0A] @ CharObject.Text char)
             (CharObject.Y0 char) (CharObject.X1 char) rest
      else if lastX > 0 \<and> CharObject.X0 char - lastX > textTolerance te
      then cellTextLoop te (text @ '' '' @ CharObject.Text char)
             (CharObject.Y0 char) (CharObject.X1 char) rest
      else cellTextLoop te (text @ CharObject.Text char)
             (CharObject.Y0 char) (CharObject.X1 char) rest)"

definition extractCellText :: "tableExtractor \<Rightarrow> BoundingBox \<Rightarrow> CharObject list \<Rightarrow> string" where
  "extractCellText te cell chars =
     (let cellChars =
            filter (\<lambda>char.
              let centerX = (CharObject.X0 char + CharObject.X1 char) / 2;
                  centerY = (CharObject.Y0 char + CharObject.Y1 char) / 2
              in centerX \<ge> BoundingBox.X0 cell \<and> centerX \<le> BoundingBox.X1 cell
                 \<and> centerY \<ge> BoundingBox.Y0 cell \<and> centerY \<le> BoundingBox.Y1 cell) chars;
          sorted =
            sortSlice (\<lambda>a b.
              if \<bar>CharObject.Y0 a - CharObject.Y0 b\<bar> > textTolerance te
              then CharObject.Y0 a < CharObject.Y0 b
              else CharObject.X0 a < CharObject.X0 b) cellChars
      in cellTextLoop te [] (-1000) (-1000) sorted)"

definition extractTableFromRegion :: "tableExtractor \<Rightarrow> tableRegion \<Rightarrow> Objects \<Rightarrow> Table" where
  "extractTableFromRegion te region objs =
     \<lparr>Rows = map (\<lambda>row. map (\<lambda>cell. extractCellText te cell (Chars objs)) row) (Cells region),
      BBox = tableRegion.BBox region\<rparr>"

definition rectEdges :: "RectObject \<Rightarrow> LineObject list \<times> LineObject list" where
  "rectEdges rect =
     (let edge = (\<lambda>x0 y0 x1 y1.
            \<lparr>LineObject.X0 = x0, Y0 = y0, X1 = x1, Y1 = y1, Width = RectObject.Width rect,
             StrokeColor = zeroColor, NonStroking = False\<rparr>)
      in ([edge (RectObject.X0 rect) (RectObject.Y0 rect) (RectObject.X1 rect) (RectObject.Y0 rect),
           edge (RectObject.X0 rect) (RectObject.Y1 rect) (RectObject.X1 rect) (RectObject.Y1 rect)],
          [edge (RectObject.X0 rect) (RectObject.Y0 rect) (RectObject.X0 rect) (RectObject.Y1 rect),
           edge (RectObject.X1 rect) (RectObject.Y0 rect) (RectObject.X1 rect) (RectObject.Y1 rect)]))"

definition extractLineBasedTables :: "tableExtractor \<Rightarrow> Objects \<Rightarrow> Table list" where
  "extractLineBasedTables te objs =
     (let hLines = fst (collectTableLines te objs) @ concat (map (fst \<circ> rectEdges) (Rects objs));
          vLines = snd (collectTableLines te objs) @ concat (map (snd \<circ> rectEdges) (Rects objs));
          tableRegions = findTableRegions te hLines vLines
      in filter (\<lambda>table. int (length (Rows table)) \<ge> minTableSize te)
           (map (\<lambda>region. extractTableFromRegion te region objs) tableRegions))"

section \<open>Matrix composition\<close>

text \<open>
  The real numbers that are values of \<^verbatim>\<open>float64\<close>: zero, and the numbers of
  exponent at most 1023 that are a whole multiple of the spacing of the values at
  their exponent.
\<close>

definition isFloat64 :: "real \<Rightarrow> bool" where
  "isFloat64 x =
     (x = 0 \<or>
      (exponent x \<le> 1023
       \<and> (let q = pow2 (max (exponent x) (- 1022) - 52) in x / q = of_int \<lfloor>x / q\<rfloor>)))"

definition isFinite :: "float64 \<Rightarrow> bool" where
  "isFinite v = (case v of Finite x \<Rightarrow> isFloat64 x | _ \<Rightarrow> False)"

definition finiteMatrix :: "float64 Matrix \<Rightarrow> bool" where
  "finiteMatrix m =
     (isFinite (Matrix.A m) \<and> isFinite (Matrix.B m) \<and> isFinite (Matrix.C m)
      \<and> isFinite (Matrix.D m) \<and> isFinite (Matrix.E m) \<and> isFinite (Matrix.F m))"

text \<open>The whole numbers of magnitude at most 65536, and the matrices made of them.\<close>

definition smallInt :: "float64 \<Rightarrow> bool" where
  "smallInt v = (case v of Finite x \<Rightarrow> x = of_int \<lfloor>x\<rfloor> \<and> \<bar>x\<bar> \<le> 65536 | _ \<Rightarrow> False)"

definition smallIntMatrix :: "float64 Matrix \<Rightarrow> bool" where
  "smallIntMatrix m =
     (smallInt (Matrix.A m) \<and> smallInt (Matrix.B m) \<and> smallInt (Matrix.C m)
      \<and> smallInt (Matrix.D m) \<and> smallInt (Matrix.E m) \<and> smallInt (Matrix.F m))"

text \<open>
  A matrix of integers read as a matrix of \<^verbatim>\<open>float64\<close>, and a bound on the
  magnitude of its coefficients.
\<close>

definition ofInt :: "int \<Rightarrow> float64" where
  "ofInt n = Finite (of_int n)"

definition ofIntMatrix :: "int Matrix \<Rightarrow> float64 Matrix" where
  "ofIntMatrix m =
     \<lparr>Matrix.A = ofInt (Matrix.A m), B = ofInt (Matrix.B m), C = ofInt (Matrix.C m),
      D = ofInt (Matrix.D m), E = ofInt (Matrix.E m), F = ofInt (Matrix.F m)\<rparr>"

definition boundedBy :: "int \<Rightarrow> int Matrix \<Rightarrow> bool" where
  "boundedBy k m =
     (\<bar>Matrix.A m\<bar> \<le> k \<and> \<bar>Matrix.B m\<bar> \<le> k \<and> \<bar>Matrix.C m\<bar> \<le> k
      \<and> \<bar>Matrix.D m\<bar> \<le> k \<and> \<bar>Matrix.E m\<bar> \<le> k \<and> \<bar>Matrix.F m\<bar> \<le> k)"

text \<open>The matrices used as examples below.\<close>

definition diagonal :: "float64 \<Rightarrow> float64 Matrix" where
  "diagonal x = \<lparr>Matrix.A = x, B = 0, C = 0, D = x, E = 0, F = 0\<rparr>"

definition shear :: "float64 Matrix" where
  "shear =
     \<lparr>Matrix.A = Finite (1 / 2), B = Finite (3602879701896397 / 2 ^ 55), C = Finite (- 3),
      D = Finite (3 / 4), E = Finite 72, F = Finite (- 1 / 1024)\<rparr>"

definition quarterTurn :: "float64 Matrix" where
  "quarterTurn =
     \<lparr>Matrix.A = Finite 0, B = Finite 1, C = Finite (- 1), D = Finite 0, E = Finite 0,
      F = Finite 0\<rparr>"

text \<open>The exponent is the binary exponent.\<close>

lemma exponent_bounds:
  assumes "x \<noteq> 0"
  shows "pow2 (exponent x) \<le> \<bar>x\<bar> \<and> \<bar>x\<bar> < pow2 (exponent x + 1)"
proof (cases "1 \<le> \<bar>x\<bar>")
  case True
  define n where "n = \<lfloor>\<bar>x\<bar>\<rfloor>"
  have n: "0 < n" using True by (simp add: n_def)
  have e: "exponent x = bitlen n - 1" using True by (simp add: exponent_def n_def)
  have b1: "1 \<le> bitlen n" using n bitlen_eq_zero_iff [of n] bitlen_nonneg [of n] by linarith
  note bb = bitlen_bounds [OF n]
  have "real_of_int (2 ^ nat (bitlen n - 1)) \<le> real_of_int n" using bb by linarith
  also have "\<dots> \<le> \<bar>x\<bar>" by (simp add: n_def)
  finally have lo: "pow2 (exponent x) \<le> \<bar>x\<bar>" using b1 by (simp add: e pow2_def)
  have "n + 1 \<le> 2 ^ nat (bitlen n)" using bb by linarith
  then have "real_of_int (n + 1) \<le> real_of_int (2 ^ nat (bitlen n))" by linarith
  moreover have "\<bar>x\<bar> < real_of_int (n + 1)" unfolding n_def by linarith
  ultimately have "\<bar>x\<bar> < 2 ^ nat (bitlen n)" by simp
  then have hi: "\<bar>x\<bar> < pow2 (exponent x + 1)" using b1 by (simp add: e pow2_def)
  from lo hi show ?thesis ..
next
  case False
  define y where "y = 1 / \<bar>x\<bar>"
  define c where "c = \<lceil>y\<rceil>"
  have xp: "0 < \<bar>x\<bar>" "\<bar>x\<bar> < 1" using assms False by simp_all
  then have y1: "1 < y" by (simp add: y_def)
  then have c2: "2 \<le> c" unfolding c_def by linarith
  then have c1: "0 < c - 1" by simp
  define k where "k = bitlen (c - 1)"
  have e: "exponent x = - k" using False by (simp add: exponent_def k_def c_def y_def)
  have k1: "1 \<le> k"
    using c1 bitlen_eq_zero_iff [of "c - 1"] bitlen_nonneg [of "c - 1"] unfolding k_def by linarith
  note bb = bitlen_bounds [OF c1, folded k_def]
  have "c \<le> 2 ^ nat k" using bb by linarith
  then have "real_of_int c \<le> 2 ^ nat k" by (metis of_int_le_iff of_int_numeral of_int_power)
  moreover have "y \<le> real_of_int c" unfolding c_def by linarith
  ultimately have "y \<le> 2 ^ nat k" by linarith
  then have "1 / 2 ^ nat k \<le> 1 / y" using y1 by (intro divide_left_mono) auto
  then have lo: "pow2 (exponent x) \<le> \<bar>x\<bar>" using k1 xp by (simp add: e pow2_def y_def)
  have "real_of_int (2 ^ nat (k - 1)) \<le> real_of_int (c - 1)" using bb by linarith
  moreover have "real_of_int (c - 1) < y" unfolding c_def by linarith
  ultimately have "2 ^ nat (k - 1) < y" by simp
  then have "1 / y < 1 / 2 ^ nat (k - 1)" using y1 by (intro divide_strict_left_mono) auto
  then have "\<bar>x\<bar> < 1 / 2 ^ nat (k - 1)" using xp by (simp add: y_def)
  moreover have "pow2 (exponent x + 1) = 1 / 2 ^ nat (k - 1)"
    using k1 by (cases "k = 1") (simp_all add: e pow2_def)
  ultimately have hi: "\<bar>x\<bar> < pow2 (exponent x + 1)" by simp
  from lo hi show ?thesis ..
qed

text \<open>Whole numbers below \<open>2\<^sup>5\<^sup>3\<close> and the values of \<^verbatim>\<open>float64\<close> are not rounded.\<close>

lemma nearestEven_of_int: "nearestEven (of_int m) = m"
  by (simp add: nearestEven_def)

lemma exponent_of_int:
  assumes "n \<noteq> 0" "\<bar>n\<bar> < 2 ^ 53"
  shows "exponent (of_int n) = bitlen \<bar>n\<bar> - 1" "0 \<le> bitlen \<bar>n\<bar> - 1" "bitlen \<bar>n\<bar> - 1 \<le> 52"
proof -
  have pos: "0 < \<bar>n\<bar>" using assms by simp
  have "1 \<le> \<bar>real_of_int n\<bar>" using assms by linarith
  moreover have "\<lfloor>\<bar>real_of_int n\<bar>\<rfloor> = \<bar>n\<bar>" by (metis floor_of_int of_int_abs)
  ultimately show "exponent (of_int n) = bitlen \<bar>n\<bar> - 1"
    by (simp add: exponent_def)
  have "bitlen \<bar>n\<bar> \<noteq> 0" using pos by (simp add: bitlen_eq_zero_iff)
  then show "0 \<le> bitlen \<bar>n\<bar> - 1" using bitlen_nonneg [of "\<bar>n\<bar>"] by linarith
  have "bitlen \<bar>n\<bar> \<le> 53" using assms by (simp add: bitlen_le_iff_power)
  then show "bitlen \<bar>n\<bar> - 1 \<le> 52" by simp
qed

lemma round64_exact:
  assumes "x \<noteq> 0" "pow2 (max (exponent x) (- 1022) - 52) = q"
    and "x / q = of_int m" "of_int m * q = x" "exponent x < 1024"
  shows "round64 x = Finite x"
  using assms by (simp add: round64_def Let_def nearestEven_of_int)

lemma pow2_pos: "0 < pow2 k"
  by (simp add: pow2_def)

lemma round64_isFloat64:
  assumes "isFloat64 x"
  shows "round64 x = Finite x"
proof (cases "x = 0")
  case True
  then show ?thesis by (simp add: round64_def)
next
  case False
  define q where "q = pow2 (max (exponent x) (- 1022) - 52)"
  have q: "q \<noteq> 0" using pow2_pos [of "max (exponent x) (- 1022) - 52"] by (simp add: q_def)
  from assms False have e: "exponent x < 1024" and d: "x / q = of_int \<lfloor>x / q\<rfloor>"
    by (simp_all add: isFloat64_def Let_def q_def)
  from d have "of_int \<lfloor>x / q\<rfloor> * q = x" using q by (metis nonzero_divide_eq_eq)
  with False d e show ?thesis by (intro round64_exact [where q = q and m = "\<lfloor>x / q\<rfloor>"]) (simp_all add: q_def)
qed

lemma round64_of_int:
  assumes "\<bar>n\<bar> < 2 ^ 53"
  shows "round64 (of_int n) = Finite (of_int n)"
proof (cases "n = 0")
  case True
  then show ?thesis by (simp add: round64_def)
next
  case False
  define e where "e = bitlen \<bar>n\<bar> - 1"
  define k where "k = nat (52 - e)"
  note ex = exponent_of_int [OF False assms, folded e_def]
  have q: "pow2 (max (exponent (real_of_int n)) (- 1022) - 52) = 1 / 2 ^ k"
    using ex by (auto simp add: pow2_def k_def max_def)
  have d: "real_of_int n / (1 / 2 ^ k) = of_int (n * 2 ^ k)" by simp
  have r: "real_of_int (n * 2 ^ k) * (1 / 2 ^ k) = of_int n" by simp
  have "exponent (real_of_int n) < 1024" using ex by simp
  with False q d r show ?thesis
    by (intro round64_exact [where q = "1 / 2 ^ k" and m = "n * 2 ^ k"]) simp_all
qed


lemma Multiply_eq: "Multiply m other = MultiplyMatrix m other"
  by (simp add: Multiply_def MultiplyMatrix_def)

lemma MultiplyMatrix_assoc_ring:
  fixes a b c :: "'a::comm_ring_1 Matrix"
  shows "MultiplyMatrix (MultiplyMatrix a b) c = MultiplyMatrix a (MultiplyMatrix b c)"
  by (simp add: MultiplyMatrix_def algebra_simps)

lemma mul_exact:
  assumes "\<bar>m\<bar> \<le> J" "\<bar>n\<bar> \<le> K" "J * K < 2 ^ 53"
  shows "ofInt m * ofInt n = ofInt (m * n)" "\<bar>m * n\<bar> \<le> J * K"
proof -
  have "\<bar>m\<bar> * \<bar>n\<bar> \<le> J * K"
    using assms(1,2) by (intro mult_mono) auto
  then show b: "\<bar>m * n\<bar> \<le> J * K" by (simp add: abs_mult)
  then have "\<bar>m * n\<bar> < 2 ^ 53" using assms(3) by linarith
  from round64_of_int [OF this] show "ofInt m * ofInt n = ofInt (m * n)"
    by (simp add: ofInt_def times_float64_def)
qed

lemma add_exact:
  assumes "\<bar>m\<bar> \<le> J" "\<bar>n\<bar> \<le> K" "J + K < 2 ^ 53"
  shows "ofInt m + ofInt n = ofInt (m + n)" "\<bar>m + n\<bar> \<le> J + K"
proof -
  show b: "\<bar>m + n\<bar> \<le> J + K" using assms(1,2) by linarith
  then have "\<bar>m + n\<bar> < 2 ^ 53" using assms(3) by linarith
  from round64_of_int [OF this] show "ofInt m + ofInt n = ofInt (m + n)"
    by (simp add: ofInt_def plus_float64_def)
qed

lemma dot2:
  assumes "\<bar>a1\<bar> \<le> J" "\<bar>a2\<bar> \<le> J" "\<bar>b1\<bar> \<le> K" "\<bar>b2\<bar> \<le> K" "2 * J * K < 2 ^ 53"
  shows "ofInt a1 * ofInt b1 + ofInt a2 * ofInt b2 = ofInt (a1 * b1 + a2 * b2)"
    "\<bar>a1 * b1 + a2 * b2\<bar> \<le> 2 * J * K"
proof -
  have "0 \<le> J" "0 \<le> K" using assms(1,3) by linarith+
  then have "0 \<le> J * K" by simp
  then have jk: "J * K < 2 ^ 53" "J * K + J * K < 2 ^ 53" using assms(5) by linarith+
  note p1 = mul_exact [OF assms(1) assms(3) jk(1)]
  note p2 = mul_exact [OF assms(2) assms(4) jk(1)]
  note s = add_exact [OF p1(2) p2(2) jk(2)]
  show "ofInt a1 * ofInt b1 + ofInt a2 * ofInt b2 = ofInt (a1 * b1 + a2 * b2)"
    using p1(1) p2(1) s(1) by simp
  show "\<bar>a1 * b1 + a2 * b2\<bar> \<le> 2 * J * K" using s(2) by simp
qed

lemma dot3:
  assumes "\<bar>a1\<bar> \<le> J" "\<bar>a2\<bar> \<le> J" "\<bar>b1\<bar> \<le> K" "\<bar>b2\<bar> \<le> K" "\<bar>c\<bar> \<le> K"
    and "2 * J * K + K < 2 ^ 53"
  shows "ofInt a1 * ofInt b1 + ofInt a2 * ofInt b2 + ofInt c = ofInt (a1 * b1 + a2 * b2 + c)"
    "\<bar>a1 * b1 + a2 * b2 + c\<bar> \<le> 2 * J * K + K"
proof -
  have "0 \<le> K" using assms(3) by linarith
  then have jk: "2 * J * K < 2 ^ 53" using assms(6) by linarith
  note d = dot2 [OF assms(1,2,3,4) jk]
  note s = add_exact [OF d(2) assms(5) assms(6)]
  show "ofInt a1 * ofInt b1 + ofInt a2 * ofInt b2 + ofInt c = ofInt (a1 * b1 + a2 * b2 + c)"
    using d(1) s(1) by simp
  show "\<bar>a1 * b1 + a2 * b2 + c\<bar> \<le> 2 * J * K + K" using s(2) .
qed

lemma MultiplyMatrix_exact:
  assumes "boundedBy J m1" "boundedBy K m2" "2 * J * K + K < 2 ^ 53"
  shows "MultiplyMatrix (ofIntMatrix m1) (ofIntMatrix m2) = ofIntMatrix (MultiplyMatrix m1 m2)"
    "boundedBy (2 * J * K + K) (MultiplyMatrix m1 m2)"
proof -
  have a: "\<bar>Matrix.A m1\<bar> \<le> J" "\<bar>Matrix.B m1\<bar> \<le> J" "\<bar>Matrix.C m1\<bar> \<le> J"
    "\<bar>Matrix.D m1\<bar> \<le> J" "\<bar>Matrix.E m1\<bar> \<le> J" "\<bar>Matrix.F m1\<bar> \<le> J"
    using assms(1) by (simp_all add: boundedBy_def)
  have b: "\<bar>Matrix.A m2\<bar> \<le> K" "\<bar>Matrix.B m2\<bar> \<le> K" "\<bar>Matrix.C m2\<bar> \<le> K"
    "\<bar>Matrix.D m2\<bar> \<le> K" "\<bar>Matrix.E m2\<bar> \<le> K" "\<bar>Matrix.F m2\<bar> \<le> K"
    using assms(2) by (simp_all add: boundedBy_def)
  have k: "0 \<le> K" using b(1) by linarith
  then have jk: "2 * J * K < 2 ^ 53" using assms(3) by linarith
  note cA = dot2 [OF a(1) a(2) b(1) b(3) jk]
  note cB = dot2 [OF a(1) a(2) b(2) b(4) jk]
  note cC = dot2 [OF a(3) a(4) b(1) b(3) jk]
  note cD = dot2 [OF a(3) a(4) b(2) b(4) jk]
  note cE = dot3 [OF a(5) a(6) b(1) b(3) b(5) assms(3)]
  note cF = dot3 [OF a(5) a(6) b(2) b(4) b(6) assms(3)]
  show "MultiplyMatrix (ofIntMatrix m1) (ofIntMatrix m2) = ofIntMatrix (MultiplyMatrix m1 m2)"
    by (simp add: MultiplyMatrix_def ofIntMatrix_def cA(1) cB(1) cC(1) cD(1) cE(1) cF(1))
  show "boundedBy (2 * J * K + K) (MultiplyMatrix m1 m2)"
    using cA(2) cB(2) cC(2) cD(2) cE(2) cF(2) k
    by (simp add: boundedBy_def MultiplyMatrix_def)
qed

lemma MultiplyMatrix_assoc_small:
  assumes "boundedBy 65536 a" "boundedBy 65536 b" "boundedBy 65536 c"
  shows "MultiplyMatrix (MultiplyMatrix (ofIntMatrix a) (ofIntMatrix b)) (ofIntMatrix c)
       = MultiplyMatrix (ofIntMatrix a) (MultiplyMatrix (ofIntMatrix b) (ofIntMatrix c))"
proof -
  have n: "2 * 65536 * 65536 + 65536 < (2::int) ^ 53" by simp
  note ab = MultiplyMatrix_exact [OF assms(1) assms(2) n]
  note bc = MultiplyMatrix_exact [OF assms(2) assms(3) n]
  have l: "2 * (2 * 65536 * 65536 + 65536) * 65536 + 65536 < (2::int) ^ 53" by simp
  have r: "2 * 65536 * (2 * 65536 * 65536 + 65536) + (2 * 65536 * 65536 + 65536) < (2::int) ^ 53"
    by simp
  note abc = MultiplyMatrix_exact [OF ab(2) assms(3) l]
  note abc' = MultiplyMatrix_exact [OF assms(1) bc(2) r]
  show ?thesis
    unfolding ab(1) bc(1) abc(1) abc'(1) by (simp only: MultiplyMatrix_assoc_ring)
qed

lemma smallInt_ofInt:
  assumes "smallInt v"
  obtains n where "v = ofInt n" "\<bar>n\<bar> \<le> 65536"
proof -
  from assms obtain x where v: "v = Finite x" and x: "x = of_int \<lfloor>x\<rfloor>" and b: "\<bar>x\<bar> \<le> 65536"
    by (auto simp add: smallInt_def split: float64.splits)
  have "\<bar>\<lfloor>x\<rfloor>\<bar> \<le> 65536" using x b by linarith
  moreover have "v = ofInt \<lfloor>x\<rfloor>" using v x by (simp add: ofInt_def)
  ultimately show ?thesis using that by blast
qed

lemma smallIntMatrix_ofIntMatrix:
  assumes "smallIntMatrix m"
  obtains m' where "m = ofIntMatrix m'" "boundedBy 65536 m'"
proof -
  from assms have s: "smallInt (Matrix.A m)" "smallInt (Matrix.B m)" "smallInt (Matrix.C m)"
    "smallInt (Matrix.D m)" "smallInt (Matrix.E m)" "smallInt (Matrix.F m)"
    by (simp_all add: smallIntMatrix_def)
  from s(1) obtain a where a: "Matrix.A m = ofInt a" "\<bar>a\<bar> \<le> 65536" by (rule smallInt_ofInt)
  from s(2) obtain b where b: "Matrix.B m = ofInt b" "\<bar>b\<bar> \<le> 65536" by (rule smallInt_ofInt)
  from s(3) obtain c where c: "Matrix.C m = ofInt c" "\<bar>c\<bar> \<le> 65536" by (rule smallInt_ofInt)
  from s(4) obtain d where d: "Matrix.D m = ofInt d" "\<bar>d\<bar> \<le> 65536" by (rule smallInt_ofInt)
  from s(5) obtain e where e: "Matrix.E m = ofInt e" "\<bar>e\<bar> \<le> 65536" by (rule smallInt_ofInt)
  from s(6) obtain f where f: "Matrix.F m = ofInt f" "\<bar>f\<bar> \<le> 65536" by (rule smallInt_ofInt)
  let ?m = "\<lparr>Matrix.A = a, B = b, C = c, D = d, E = e, F = f\<rparr>"
  have "m = ofIntMatrix ?m"
    using a(1) b(1) c(1) d(1) e(1) f(1) by (cases m) (simp add: ofIntMatrix_def)
  moreover have "boundedBy 65536 ?m"
    using a(2) b(2) c(2) d(2) e(2) f(2) by (simp add: boundedBy_def)
  ultimately show ?thesis using that by blast
qed

lemma isFinite_unit:
  assumes "isFinite v"
  shows "1 * v = v" "v * 1 = v" "0 * v = 0" "v * 0 = 0" "v + 0 = v" "0 + v = v"
proof -
  from assms obtain x where v: "v = Finite x" and "isFloat64 x"
    by (auto simp add: isFinite_def split: float64.splits)
  then have x: "round64 x = Finite x" by (simp add: round64_isFloat64)
  have z: "round64 0 = Finite 0" by (simp add: round64_def)
  show "1 * v = v" "v * 1 = v" "0 * v = 0" "v * 0 = 0" "v + 0 = v" "0 + v = v"
    by (simp_all add: v x z times_float64_def plus_float64_def one_float64_def zero_float64_def)
qed

lemma zero_plus_zero: "(0::float64) + 0 = 0"
  by (simp add: plus_float64_def zero_float64_def round64_def)

lemma MultiplyMatrix_unit_finite:
  assumes "finiteMatrix m"
  shows "MultiplyMatrix IdentityMatrix m = m" "MultiplyMatrix m IdentityMatrix = m"
proof -
  from assms have f: "isFinite (Matrix.A m)" "isFinite (Matrix.B m)" "isFinite (Matrix.C m)"
    "isFinite (Matrix.D m)" "isFinite (Matrix.E m)" "isFinite (Matrix.F m)"
    by (simp_all add: finiteMatrix_def)
  show "MultiplyMatrix IdentityMatrix m = m"
    by (simp add: MultiplyMatrix_def IdentityMatrix_def zero_plus_zero
        isFinite_unit [OF f(1)] isFinite_unit [OF f(2)] isFinite_unit [OF f(3)]
        isFinite_unit [OF f(4)] isFinite_unit [OF f(5)] isFinite_unit [OF f(6)])
  show "MultiplyMatrix m IdentityMatrix = m"
    by (simp add: MultiplyMatrix_def IdentityMatrix_def zero_plus_zero
        isFinite_unit [OF f(1)] isFinite_unit [OF f(2)] isFinite_unit [OF f(3)]
        isFinite_unit [OF f(4)] isFinite_unit [OF f(5)] isFinite_unit [OF f(6)])
qed

text \<open>
  Rounding yields a value of \<^verbatim>\<open>float64\<close>, so that every finite sum and product is
  one.
\<close>

lemma pow2_powr: "pow2 k = 2 powr (real_of_int k)"
proof (cases "0 \<le> k")
  case True
  then have "2 powr (real_of_int k) = 2 powr (real (nat k))" by simp
  also have "\<dots> = 2 ^ nat k" by (simp add: powr_realpow)
  finally show ?thesis using True by (simp add: pow2_def)
next
  case False
  then have "2 powr (real_of_int k) = 2 powr (- real (nat (- k)))" by simp
  also have "\<dots> = 1 / 2 ^ nat (- k)" by (simp add: powr_minus powr_realpow divide_inverse)
  finally show ?thesis using False by (simp add: pow2_def)
qed

lemma pow2_add: "pow2 (j + k) = pow2 j * pow2 k"
  by (simp add: pow2_powr powr_add)

lemma pow2_less_iff: "pow2 j < pow2 k \<longleftrightarrow> j < k"
  by (simp add: pow2_powr)

lemma pow2_le_iff: "pow2 j \<le> pow2 k \<longleftrightarrow> j \<le> k"
  by (simp add: pow2_powr)

lemma exponent_unique:
  assumes "pow2 e \<le> \<bar>x\<bar>" "\<bar>x\<bar> < pow2 (e + 1)"
  shows "exponent x = e"
proof -
  have "x \<noteq> 0" using assms(1) pow2_pos [of e] by auto
  note b = exponent_bounds [OF this]
  have "pow2 (exponent x) < pow2 (e + 1)" using b assms(2) by linarith
  moreover have "pow2 e < pow2 (exponent x + 1)" using b assms(1) by linarith
  ultimately show ?thesis by (simp add: pow2_less_iff)
qed

lemma nearestEven_bounds: "\<lfloor>x\<rfloor> \<le> nearestEven x \<and> nearestEven x \<le> \<lceil>x\<rceil>"
  by (auto simp add: nearestEven_def Let_def ceiling_altdef)

lemma nearestEven_abs_ge:
  assumes "of_int N \<le> \<bar>x\<bar>"
  shows "N \<le> \<bar>nearestEven x\<bar>"
proof (cases "0 \<le> x")
  case True
  then have "N \<le> \<lfloor>x\<rfloor>" using assms by (simp add: le_floor_iff)
  then show ?thesis using nearestEven_bounds [of x] by linarith
next
  case False
  then have "of_int N \<le> - x" using assms by simp
  then have "x \<le> of_int (- N)" by simp
  then have "\<lceil>x\<rceil> \<le> - N" by (simp only: ceiling_le_iff)
  then show ?thesis using nearestEven_bounds [of x] by linarith
qed

lemma nearestEven_abs_le:
  assumes "\<bar>x\<bar> \<le> of_int N"
  shows "\<bar>nearestEven x\<bar> \<le> N"
proof -
  have "x \<le> of_int N" "of_int (- N) \<le> x" using assms by simp_all
  then have "\<lceil>x\<rceil> \<le> N" "- N \<le> \<lfloor>x\<rfloor>" by (simp_all only: ceiling_le_iff le_floor_iff)
  then show ?thesis using nearestEven_bounds [of x] by linarith
qed



lemma isFloat64_multiple:
  assumes "r = of_int m * pow2 (max (exponent r) (- 1022) - 52)" "exponent r \<le> 1023"
  shows "isFloat64 r"
proof -
  define q where "q = pow2 (max (exponent r) (- 1022) - 52)"
  have "q \<noteq> 0" using pow2_pos [of "max (exponent r) (- 1022) - 52"] by (simp add: q_def)
  then have "r / q = of_int m" using assms(1) by (simp add: q_def [symmetric])
  then have "r / q = of_int \<lfloor>r / q\<rfloor>" by simp
  then show ?thesis using assms(2) by (simp add: isFloat64_def Let_def q_def)
qed

lemma round64_value:
  assumes "round64 x = Finite y"
  shows "isFloat64 y"
proof (cases "y = 0")
  case True
  then show ?thesis by (simp add: isFloat64_def)
next
  case y: False
  then have x: "x \<noteq> 0" using assms by (auto simp add: round64_def)
  define e where "e = exponent x"
  define E where "E = max e (- 1022)"
  define q where "q = pow2 (E - 52)"
  define m where "m = nearestEven (x / q)"
  have q0: "0 < q" by (simp add: q_def pow2_pos)
  then have qn: "0 \<le> q" by simp
  from assms x y have r: "y = of_int m * q" and ov: "exponent y \<le> 1023"
    by (auto simp add: round64_def Let_def e_def E_def q_def m_def split: if_splits)
  note xb = exponent_bounds [OF x, folded e_def]
  have q53: "of_int (2 ^ 53) * q = pow2 (E + 1)"
  proof -
    have "pow2 (E + 1) = pow2 (53 + (E - 52))" by (simp add: algebra_simps)
    also have "\<dots> = pow2 53 * q" by (simp only: pow2_add q_def)
    finally show ?thesis by (simp add: pow2_def)
  qed
  have q52: "of_int (2 ^ 52) * q = pow2 E"
  proof -
    have "pow2 E = pow2 (52 + (E - 52))" by (simp add: algebra_simps)
    also have "\<dots> = pow2 52 * q" by (simp only: pow2_add q_def)
    finally show ?thesis by (simp add: pow2_def)
  qed
  have "\<bar>x\<bar> < pow2 (E + 1)"
  proof -
    have "pow2 (e + 1) \<le> pow2 (E + 1)" by (simp add: pow2_le_iff E_def)
    then show ?thesis using xb by linarith
  qed
  then have "\<bar>x\<bar> < of_int (2 ^ 53) * q" by (simp only: q53)
  then have "\<bar>x / q\<bar> \<le> of_int (2 ^ 53)" using q0 by (simp add: field_simps)
  then have mu: "\<bar>m\<bar> \<le> 2 ^ 53" unfolding m_def by (rule nearestEven_abs_le)
  have absr: "\<bar>y\<bar> = of_int \<bar>m\<bar> * q" using q0 by (simp add: r abs_mult)
  show ?thesis
  proof (cases "\<bar>m\<bar> = 2 ^ 53")
    case True
    have ay: "\<bar>y\<bar> = pow2 (E + 1)" using absr True q53 by simp
    have "pow2 (E + 1) < pow2 (E + 1 + 1)" by (simp add: pow2_less_iff)
    then have ey: "exponent y = E + 1" using ay by (intro exponent_unique) simp_all
    have mx: "max (exponent y) (- 1022) - 52 = 1 + (E - 52)" by (simp add: ey E_def)
    have "m = 2 ^ 53 \<or> m = - (2 ^ 53)" using True by linarith
    then have "even m" by auto
    then obtain h where h: "m = 2 * h" by (elim evenE)
    have "pow2 (1 + (E - 52)) = pow2 1 * q" by (simp only: pow2_add q_def)
    then have p: "pow2 (1 + (E - 52)) = 2 * q" by (simp add: pow2_def)
    have "y = of_int h * pow2 (max (exponent y) (- 1022) - 52)"
      unfolding mx p by (simp add: r h)
    then show ?thesis using ov by (rule isFloat64_multiple)
  next
    case False
    then have ml: "\<bar>m\<bar> + 1 \<le> 2 ^ 53" using mu by linarith
    have "real_of_int (\<bar>m\<bar> + 1) \<le> real_of_int (2 ^ 53)"
      using ml by (simp only: of_int_le_iff)
    then have le: "of_int (\<bar>m\<bar> + 1) * q \<le> of_int (2 ^ 53) * q"
      using qn by (rule mult_right_mono)
    have "real_of_int \<bar>m\<bar> < real_of_int (\<bar>m\<bar> + 1)" by simp
    then have lt: "of_int \<bar>m\<bar> * q < of_int (\<bar>m\<bar> + 1) * q"
      using q0 by (rule mult_strict_right_mono)
    note absr
    also note lt
    also note le
    also note q53
    finally have yl: "\<bar>y\<bar> < pow2 (E + 1)" .
    have "max (exponent y) (- 1022) = E"
    proof (cases "- 1022 \<le> e")
      case True
      then have E: "E = e" by (simp add: E_def)
      have "pow2 e \<le> \<bar>x\<bar>" using xb by simp
      then have "of_int (2 ^ 52) * q \<le> \<bar>x\<bar>" using q52 E by simp
      then have "of_int (2 ^ 52) \<le> \<bar>x / q\<bar>" using q0 by (simp add: field_simps)
      then have "2 ^ 52 \<le> \<bar>m\<bar>" unfolding m_def by (rule nearestEven_abs_ge)
      then have "real_of_int (2 ^ 52) \<le> real_of_int \<bar>m\<bar>"
        by (simp only: of_int_le_iff)
      then have "of_int (2 ^ 52) * q \<le> of_int \<bar>m\<bar> * q"
        using qn by (rule mult_right_mono)
      then have "pow2 E \<le> \<bar>y\<bar>" using absr q52 by simp
      then have "exponent y = E" using yl by (rule exponent_unique)
      then show ?thesis using True E by simp
    next
      case False
      then have E: "E = - 1022" by (simp add: E_def)
      have "y \<noteq> 0" using y .
      note yb = exponent_bounds [OF this]
      have "pow2 (exponent y) < pow2 (E + 1)" using yb yl by linarith
      then have "exponent y < E + 1" by (simp add: pow2_less_iff)
      then show ?thesis using E by simp
    qed
    then have "y = of_int m * pow2 (max (exponent y) (- 1022) - 52)"
      by (simp add: r q_def)
    then show ?thesis using ov by (rule isFloat64_multiple)
  qed
qed

lemma sum_product_values:
  "(u + v = Finite y \<longrightarrow> isFloat64 y) \<and> (u * v = Finite y \<longrightarrow> isFloat64 y)"
  by (cases u; cases v)
    (auto simp add: plus_float64_def times_float64_def infTimes_def round64_value
      split: if_splits)


text \<open>
  Claim C9, as stated, fails: in the arithmetic of \<^verbatim>\<open>float64\<close> composition is
  not associative, and the identity matrix is not always a unit. The diagonal
  matrices with the coefficients 3, \<open>2\<^sup>2\<^sup>7 + 1\<close> and \<open>2\<^sup>2\<^sup>6 + 1\<close> have finite coefficients,
  and their two products differ in the coefficient \<^verbatim>\<open>A\<close>: the product of the last two
  is rounded before it is multiplied by 3 in the one, and the exact 3 times \<open>2\<^sup>2\<^sup>7 + 1\<close>
  is multiplied by \<open>2\<^sup>2\<^sup>6 + 1\<close> and rounded once in the other. The identity matrix is
  not a unit for a matrix with an infinite coefficient, where 0 times infinity is NaN.
\<close>

theorem MultiplyMatrix_assoc_counterexample:
  "finiteMatrix (diagonal (Finite 3)) \<and> finiteMatrix (diagonal (Finite 134217729))
   \<and> finiteMatrix (diagonal (Finite 67108865))
   \<and> Matrix.A (MultiplyMatrix (MultiplyMatrix (diagonal (Finite 3))
          (diagonal (Finite 134217729))) (diagonal (Finite 67108865)))
       = Finite 27021598368202756
   \<and> Matrix.A (MultiplyMatrix (diagonal (Finite 3))
          (MultiplyMatrix (diagonal (Finite 134217729)) (diagonal (Finite 67108865))))
       = Finite 27021598368202752
   \<and> MultiplyMatrix (MultiplyMatrix (diagonal (Finite 3)) (diagonal (Finite 134217729)))
         (diagonal (Finite 67108865))
       \<noteq> MultiplyMatrix (diagonal (Finite 3))
           (MultiplyMatrix (diagonal (Finite 134217729)) (diagonal (Finite 67108865)))
   \<and> Multiply (Multiply (diagonal (Finite 3)) (diagonal (Finite 134217729)))
         (diagonal (Finite 67108865))
       \<noteq> Multiply (diagonal (Finite 3))
           (Multiply (diagonal (Finite 134217729)) (diagonal (Finite 67108865)))
   \<and> MultiplyMatrix IdentityMatrix (diagonal PosInf) \<noteq> diagonal PosInf
   \<and> Multiply (diagonal PosInf) IdentityMatrix \<noteq> diagonal PosInf"
  by code_simp

text \<open>
  Claim C9, amended. In the arithmetic of \<^verbatim>\<open>float64\<close> the identity matrix is a left
  and a right unit of composition for every matrix whose six coefficients are finite,
  and composition is associative for matrices whose coefficients are whole numbers of
  magnitude at most 65536, where no product and no sum is rounded; for
  \<^verbatim>\<open>MultiplyMatrix\<close> of package \<^verbatim>\<open>pdf\<close> and for \<^verbatim>\<open>Matrix.Multiply\<close> of package
  \<^verbatim>\<open>content\<close> alike.
\<close>

theorem MultiplyMatrix_float64_laws:
  "(finiteMatrix m \<longrightarrow>
      MultiplyMatrix IdentityMatrix m = m \<and> MultiplyMatrix m IdentityMatrix = m
      \<and> Multiply IdentityMatrix m = m \<and> Multiply m IdentityMatrix = m)
   \<and> (smallIntMatrix a \<and> smallIntMatrix b \<and> smallIntMatrix c \<longrightarrow>
      MultiplyMatrix (MultiplyMatrix a b) c = MultiplyMatrix a (MultiplyMatrix b c)
      \<and> Multiply (Multiply a b) c = Multiply a (Multiply b c))"
proof (intro conjI impI)
  assume "finiteMatrix m"
  then show "MultiplyMatrix IdentityMatrix m = m" "MultiplyMatrix m IdentityMatrix = m"
    "Multiply IdentityMatrix m = m" "Multiply m IdentityMatrix = m"
    by (simp_all add: Multiply_eq MultiplyMatrix_unit_finite)
next
  assume s: "smallIntMatrix a \<and> smallIntMatrix b \<and> smallIntMatrix c"
  from s obtain a' where a: "a = ofIntMatrix a'" "boundedBy 65536 a'"
    using smallIntMatrix_ofIntMatrix by blast
  from s obtain b' where b: "b = ofIntMatrix b'" "boundedBy 65536 b'"
    using smallIntMatrix_ofIntMatrix by blast
  from s obtain c' where c: "c = ofIntMatrix c'" "boundedBy 65536 c'"
    using smallIntMatrix_ofIntMatrix by blast
  show "MultiplyMatrix (MultiplyMatrix a b) c = MultiplyMatrix a (MultiplyMatrix b c)"
    unfolding a(1) b(1) c(1) by (rule MultiplyMatrix_assoc_small [OF a(2) b(2) c(2)])
  then show "Multiply (Multiply a b) c = Multiply a (Multiply b c)"
    by (simp add: Multiply_eq)
qed

theorem MultiplyMatrix_float64_laws_witness:
  "finiteMatrix shear
   \<and> MultiplyMatrix IdentityMatrix shear = shear \<and> MultiplyMatrix shear IdentityMatrix = shear
   \<and> Multiply IdentityMatrix shear = shear \<and> Multiply shear IdentityMatrix = shear
   \<and> smallIntMatrix (diagonal (Finite 2))
   \<and> smallIntMatrix (TranslationMatrix (Finite 3) (Finite 4))
   \<and> smallIntMatrix quarterTurn
   \<and> MultiplyMatrix (MultiplyMatrix (diagonal (Finite 2))
          (TranslationMatrix (Finite 3) (Finite 4))) quarterTurn
       = MultiplyMatrix (diagonal (Finite 2))
           (MultiplyMatrix (TranslationMatrix (Finite 3) (Finite 4)) quarterTurn)
   \<and> Multiply (Multiply (diagonal (Finite 2))
          (TranslationMatrix (Finite 3) (Finite 4))) quarterTurn
       = Multiply (diagonal (Finite 2))
           (Multiply (TranslationMatrix (Finite 3) (Finite 4)) quarterTurn)"
proof -
  have f: "finiteMatrix shear"
    by code_simp
  have s: "smallIntMatrix (diagonal (Finite 2))"
    "smallIntMatrix (TranslationMatrix (Finite 3) (Finite 4))" "smallIntMatrix quarterTurn"
    by code_simp+
  show ?thesis
    using MultiplyMatrix_float64_laws
      [of shear "diagonal (Finite 2)" "TranslationMatrix (Finite 3) (Finite 4)" quarterTurn]
      f s
    by blast
qed

section \<open>A one-line content stream\<close>

definition fontF1 :: FontInfo where
  "fontF1 =
     \<lparr>Name = ''F1'', BaseFont = ''Helvetica'', Encoding = [], IsVertical = False,
      SpaceWidth = 0.25,
      FontMatrix = \<lparr>Matrix.A = 0.001, B = 0, C = 0, D = 0.001, E = 0, F = 0\<rparr>,
      ToUnicodeCMap = None\<rparr>"

lemma tokenize_Hi:
  "tokenize 34 ''BT /F1 12 Tf 100 700 Td (Hi) Tj ET'' =
     Some [''BT'', ''/F1'', ''12'', ''Tf'', ''100'', ''700'', ''Td'', ''(Hi)'', ''Tj'', ''ET'']"
  by code_simp

lemma parseFloat_12: "parseFloat ''12'' = 12"
  by code_simp

lemma parseFloat_100: "parseFloat ''100'' = 100"
  by code_simp

lemma parseFloat_700: "parseFloat ''700'' = 700"
  by code_simp

lemma rangeRunes_Hi: "rangeRunes 0 ''Hi'' = [72, 105]"
  by code_simp

lemma encodeRune_H: "encodeRune 72 = ''H''"
  by code_simp

lemma encodeRune_i: "encodeRune 105 = ''i''"
  by code_simp

lemma unescapeString_Hi: "unescapeString ''Hi'' = ''Hi''"
  by code_simp

text \<open>
  Claim C1. From the initial state, with a font table that has an entry \<open>F1\<close> without
  a ToUnicode CMap, parsing \<^verbatim>\<open>BT /F1 12 Tf 100 700 Td (Hi) Tj ET\<close> returns (on a
  fuel of 34, the length of the stream) exactly two characters, \<open>H\<close> and \<open>i\<close>; the
  first has its left edge at 100 and the second at 100 plus the table width of \<open>H\<close>
  times the font size 12.
\<close>

theorem Parse_Hi_two_chars:
  assumes "fontTable ''F1'' = Some fi" and "ToUnicodeCMap fi = None"
  shows "\<exists>objs.
     Parse 34 (NewContentStreamParser fontTable) ''BT /F1 12 Tf 100 700 Td (Hi) Tj ET''
       = Some objs
     \<and> length (Chars objs) = 2
     \<and> map CharObject.Text (Chars objs) = [''H'', ''i'']
     \<and> CharObject.X0 (Chars objs ! 0) = 100
     \<and> CharObject.X0 (Chars objs ! 1) = 100 + getCharWidth ''H'' * 12"
  using assms
  by (simp add: Parse_def ParseState_def tokenize_Hi isOperator_def processOperator_def
      NewContentStreamParser_def beginText_def endText_def setFont_def textMoveBy_def
      showText_def extractString_def decodeString_def addTextChars_def addTextChar_def
      HasPrefix_def HasSuffix_def TrimPrefix_def TrimSuffix_def
      parseFloat_12 parseFloat_100 parseFloat_700 rangeRunes_Hi encodeRune_H encodeRune_i
      unescapeString_Hi getCharWidth_def IdentityMatrix_def TranslationMatrix_def
      MultiplyMatrix_def Let_def
      del: rangeRunes.simps unescapeString.simps)

theorem Parse_Hi_two_chars_witness:
  "(Map.empty(''F1'' \<mapsto> fontF1)) ''F1'' = Some fontF1
   \<and> ToUnicodeCMap fontF1 = None
   \<and> (\<exists>objs.
         Parse 34 (NewContentStreamParser (Map.empty(''F1'' \<mapsto> fontF1)))
           ''BT /F1 12 Tf 100 700 Td (Hi) Tj ET'' = Some objs
         \<and> length (Chars objs) = 2
         \<and> map CharObject.Text (Chars objs) = [''H'', ''i'']
         \<and> CharObject.X0 (Chars objs ! 0) = 100
         \<and> CharObject.X0 (Chars objs ! 1) = 100 + getCharWidth ''H'' * 12)"
  using Parse_Hi_two_chars [of "Map.empty(''F1'' \<mapsto> fontF1)" fontF1]
  by (simp add: fontF1_def)

section \<open>Sequences of save and restore\<close>

text \<open>
  Two ways to count the saved states after a sequence of \<open>q\<close> and \<open>Q\<close>. The first is
  the count of the specification: the number of \<open>q\<close> minus the number of \<open>Q\<close>, and
  zero when that is negative. The second adds one at each \<open>q\<close> and takes one away at
  each \<open>Q\<close>, stopping at zero every time.
\<close>

definition spec_depth :: "string list \<Rightarrow> nat" where
  "spec_depth qs = nat (max 0 (int (count_list qs ''q'') - int (count_list qs ''Q'')))"

definition clampedDepth :: "string list \<Rightarrow> nat" where
  "clampedDepth qs = foldl (\<lambda>d t. if t = ''q'' then Suc d else d - 1) 0 qs"

lemma processOperator_q: "processOperator p ''q'' operands = saveGraphicsState p"
  by (simp add: processOperator_def)

lemma processOperator_Q: "processOperator p ''Q'' operands = restoreGraphicsState p"
  by (simp add: processOperator_def)

lemma isOperator_q: "isOperator ''q''" "isOperator ''Q''"
  by (simp_all add: isOperator_def)

lemma butlast_replicate_Suc: "butlast (replicate (Suc n) x) = replicate n x"
  by (induction n) simp_all

lemma butlast_replicate_pred: "butlast (replicate n x) = replicate (n - 1) x"
  using butlast_replicate_Suc [of "n - 1" x] by (cases n) simp_all

text \<open>
  A run of \<open>q\<close> and \<open>Q\<close> from a state whose saved states all equal the current one
  changes nothing but the number of saved states.
\<close>

lemma processTokens_qQ:
  assumes "set qs \<subseteq> {''q'', ''Q''}"
  shows "stateStack p = replicate d (graphicsState p) \<Longrightarrow>
         processTokens p [] qs =
           p\<lparr>stateStack :=
                replicate (foldl (\<lambda>d t. if t = ''q'' then Suc d else d - 1) d qs)
                  (graphicsState p)\<rparr>"
  using assms
proof (induction qs arbitrary: p d)
  case Nil
  then show ?case by simp
next
  case (Cons t ts)
  show ?case
  proof (cases "t = ''q''")
    case True
    have st: "stateStack (saveGraphicsState p) =
                replicate (Suc d) (graphicsState (saveGraphicsState p))"
      using Cons.prems(1) by (simp add: saveGraphicsState_def replicate_append_same)
    have "processTokens p [] (t # ts) = processTokens (saveGraphicsState p) [] ts"
      using True by (simp add: isOperator_q processOperator_q)
    also have "\<dots> = (saveGraphicsState p)\<lparr>stateStack :=
        replicate (foldl (\<lambda>d t. if t = ''q'' then Suc d else d - 1) (Suc d) ts)
          (graphicsState (saveGraphicsState p))\<rparr>"
      using Cons.IH [OF st] Cons.prems(2) by simp
    finally show ?thesis using True by (simp add: saveGraphicsState_def)
  next
    case False
    then have tQ: "t = ''Q''" using Cons.prems(2) by simp
    have st: "stateStack (restoreGraphicsState p) =
                replicate (d - 1) (graphicsState (restoreGraphicsState p))"
      using Cons.prems(1) by (simp add: restoreGraphicsState_def butlast_replicate_pred)
    have "processTokens p [] (t # ts) = processTokens (restoreGraphicsState p) [] ts"
      using tQ by (simp add: isOperator_q processOperator_Q)
    also have "\<dots> = (restoreGraphicsState p)\<lparr>stateStack :=
        replicate (foldl (\<lambda>d t. if t = ''q'' then Suc d else d - 1) (d - 1) ts)
          (graphicsState (restoreGraphicsState p))\<rparr>"
      using Cons.IH [OF st] Cons.prems(2) by simp
    finally show ?thesis using tQ Cons.prems(1)
      by (simp add: restoreGraphicsState_def)
  qed
qed

text \<open>
  Claim C10, as stated, fails: after \<open>Q q\<close> from the initial state one state is saved,
  while the number of \<open>q\<close> minus the number of \<open>Q\<close> is zero.
\<close>

theorem qQ_depth_counterexample:
  "length (stateStack (processTokens (NewContentStreamParser Map.empty) [] [''Q'', ''q'']))
     \<noteq> spec_depth [''Q'', ''q'']"
  by (simp add: isOperator_q processOperator_q processOperator_Q saveGraphicsState_def
      restoreGraphicsState_def NewContentStreamParser_def spec_depth_def)

text \<open>
  Claim C10, amended. For any sequence of \<open>q\<close> and \<open>Q\<close> processed from a state with no
  saved state, the graphics state after the sequence is the one before it; after every
  prefix of the sequence the number of saved states is the count that adds one at each
  \<open>q\<close> and takes one away at each \<open>Q\<close>, stopping at zero every time; and a \<open>Q\<close>
  processed with no saved state leaves the parser as it is.
\<close>

theorem qQ_balance:
  assumes "stateStack p = []" and "set qs \<subseteq> {''q'', ''Q''}"
  shows "graphicsState (processTokens p [] qs) = graphicsState p
     \<and> (\<forall>k \<le> length qs.
           length (stateStack (processTokens p [] (take k qs))) = clampedDepth (take k qs))
     \<and> processOperator p ''Q'' operands = p"
proof -
  have run: "processTokens p [] xs =
               p\<lparr>stateStack := replicate (clampedDepth xs) (graphicsState p)\<rparr>"
    if "set xs \<subseteq> {''q'', ''Q''}" for xs
    using processTokens_qQ [OF that, of p 0] assms(1) by (simp add: clampedDepth_def)
  have "set (take k qs) \<subseteq> {''q'', ''Q''}" for k
    using assms(2) set_take_subset by fastforce
  then show ?thesis
    using run [OF assms(2)] run assms(1)
    by (simp add: processOperator_Q restoreGraphicsState_def)
qed

theorem qQ_balance_witness:
  "stateStack (NewContentStreamParser Map.empty) = []
   \<and> set [''q'', ''Q'', ''Q'', ''q''] \<subseteq> {''q'', ''Q''}
   \<and> graphicsState (processTokens (NewContentStreamParser Map.empty) []
         [''q'', ''Q'', ''Q'', ''q'']) = graphicsState (NewContentStreamParser Map.empty)
   \<and> length (stateStack (processTokens (NewContentStreamParser Map.empty) []
         (take 3 [''q'', ''Q'', ''Q'', ''q'']))) = 0
   \<and> length (stateStack (processTokens (NewContentStreamParser Map.empty) []
         (take 4 [''q'', ''Q'', ''Q'', ''q'']))) = 1
   \<and> processOperator (NewContentStreamParser Map.empty) ''Q'' [] = NewContentStreamParser Map.empty"
proof -
  have s: "stateStack (NewContentStreamParser Map.empty) = []"
    by (simp add: NewContentStreamParser_def)
  have q: "set [''q'', ''Q'', ''Q'', ''q''] \<subseteq> {''q'', ''Q''}"
    by simp
  note b = qQ_balance [OF s q, of "[]"]
  have d3: "clampedDepth (take 3 [''q'', ''Q'', ''Q'', ''q'']) = 0"
    by (simp add: clampedDepth_def)
  have d4: "clampedDepth (take 4 [''q'', ''Q'', ''Q'', ''q'']) = 1"
    by (simp add: clampedDepth_def)
  have k3: "length (stateStack (processTokens (NewContentStreamParser Map.empty) []
         (take 3 [''q'', ''Q'', ''Q'', ''q'']))) = 0"
    using b [THEN conjunct2, THEN conjunct1, rule_format, of 3] d3 by simp
  have k4: "length (stateStack (processTokens (NewContentStreamParser Map.empty) []
         (take 4 [''q'', ''Q'', ''Q'', ''q'']))) = 1"
    using b [THEN conjunct2, THEN conjunct1, rule_format, of 4] d4 by simp
  show ?thesis
    using s q b k3 k4 by blast
qed

section \<open>Save and restore around text operators\<close>

text \<open>The text operators: the first row of the operator table of the source.\<close>

definition textOperators :: "string list" where
  "textOperators =
     [''BT'', ''ET'', ''Td'', ''TD'', ''Tm'', ''T*'', ''Tj'', ''TJ'', [CHR 0x27], [CHR 0x22],
      ''Tc'', ''Tw'', ''Tz'', ''TL'', ''Tf'', ''Tr'', ''Ts'']"

lemma addTextChars_frame:
  "graphicsState (addTextChars p text) = graphicsState p
   \<and> stateStack (addTextChars p text) = stateStack p
   \<and> textState (addTextChars p text) = textState p"
proof -
  have "graphicsState (foldl (addTextChar f) q rs) = graphicsState q
        \<and> stateStack (foldl (addTextChar f) q rs) = stateStack q
        \<and> textState (foldl (addTextChar f) q rs) = textState q" for f q rs
    by (induction rs arbitrary: q) (simp_all add: addTextChar_def Let_def)
  then show ?thesis
    by (simp add: addTextChars_def split: option.splits)
qed

lemma showTextArrayElem_frame:
  "graphicsState (showTextArrayElem p elem) = graphicsState p
   \<and> stateStack (showTextArrayElem p elem) = stateStack p
   \<and> textState (showTextArrayElem p elem) = textState p"
  by (simp add: showTextArrayElem_def addTextChars_frame Let_def)

lemma foldl_showTextArrayElem_frame:
  "graphicsState (foldl showTextArrayElem p elems) = graphicsState p
   \<and> stateStack (foldl showTextArrayElem p elems) = stateStack p
   \<and> textState (foldl showTextArrayElem p elems) = textState p"
  by (induction elems arbitrary: p) (simp_all add: showTextArrayElem_frame)

lemma processOperator_text:
  "processOperator p ''BT'' operands = beginText p"
  "processOperator p ''ET'' operands = endText p"
  "processOperator p ''Td'' operands = textMoveBy p operands"
  "processOperator p ''TD'' operands = textMoveByWithLeading p operands"
  "processOperator p ''Tm'' operands = setTextMatrix p operands"
  "processOperator p ''T*'' operands = textNextLine p"
  "processOperator p ''Tj'' operands = showText p operands"
  "processOperator p ''TJ'' operands = showTextArray p operands"
  "processOperator p [CHR 0x27] operands = textNextLineShow p operands"
  "processOperator p [CHR 0x22] operands = textNextLineShowWithSpacing p operands"
  "processOperator p ''Tc'' operands = setCharSpace p operands"
  "processOperator p ''Tw'' operands = setWordSpace p operands"
  "processOperator p ''Tz'' operands = setHorizontalScale p operands"
  "processOperator p ''TL'' operands = setTextLeading p operands"
  "processOperator p ''Tf'' operands = setFont p operands"
  "processOperator p ''Tr'' operands = setTextRenderMode p operands"
  "processOperator p ''Ts'' operands = setTextRise p operands"
  by (simp_all add: processOperator_def)

lemma text_functions_frame:
  "graphicsState (beginText p) = graphicsState p \<and> stateStack (beginText p) = stateStack p"
  "graphicsState (endText p) = graphicsState p \<and> stateStack (endText p) = stateStack p"
  "graphicsState (textMoveBy p operands) = graphicsState p
     \<and> stateStack (textMoveBy p operands) = stateStack p"
  "graphicsState (textMoveByWithLeading p operands) = graphicsState p
     \<and> stateStack (textMoveByWithLeading p operands) = stateStack p"
  "graphicsState (setTextMatrix p operands) = graphicsState p
     \<and> stateStack (setTextMatrix p operands) = stateStack p"
  "graphicsState (textNextLine p) = graphicsState p \<and> stateStack (textNextLine p) = stateStack p"
  "graphicsState (showText p operands) = graphicsState p
     \<and> stateStack (showText p operands) = stateStack p"
  "graphicsState (showTextArray p operands) = graphicsState p
     \<and> stateStack (showTextArray p operands) = stateStack p"
  "graphicsState (textNextLineShow p operands) = graphicsState p
     \<and> stateStack (textNextLineShow p operands) = stateStack p"
  "graphicsState (textNextLineShowWithSpacing p operands) = graphicsState p
     \<and> stateStack (textNextLineShowWithSpacing p operands) = stateStack p"
  "graphicsState (setCharSpace p operands) = graphicsState p
     \<and> stateStack (setCharSpace p operands) = stateStack p"
  "graphicsState (setWordSpace p operands) = graphicsState p
     \<and> stateStack (setWordSpace p operands) = stateStack p"
  "graphicsState (setHorizontalScale p operands) = graphicsState p
     \<and> stateStack (setHorizontalScale p operands) = stateStack p"
  "graphicsState (setTextLeading p operands) = graphicsState p
     \<and> stateStack (setTextLeading p operands) = stateStack p"
  "graphicsState (setFont p operands) = graphicsState p
     \<and> stateStack (setFont p operands) = stateStack p"
  "graphicsState (setTextRenderMode p operands) = graphicsState p
     \<and> stateStack (setTextRenderMode p operands) = stateStack p"
  "graphicsState (setTextRise p operands) = graphicsState p
     \<and> stateStack (setTextRise p operands) = stateStack p"
  by (simp_all add: beginText_def endText_def
      textMoveBy_def textMoveByWithLeading_def setTextMatrix_def textNextLine_def
      showText_def showTextArray_def textNextLineShow_def textNextLineShowWithSpacing_def
      setCharSpace_def setWordSpace_def setHorizontalScale_def setTextLeading_def
      setFont_def setTextRenderMode_def setTextRise_def addTextChars_frame
      foldl_showTextArrayElem_frame Let_def split: option.splits)

lemma text_operator_frame:
  assumes "operator \<in> set textOperators"
  shows "graphicsState (processOperator p operator operands) = graphicsState p
         \<and> stateStack (processOperator p operator operands) = stateStack p"
proof -
  from assms consider
    "operator = ''BT''" | "operator = ''ET''" | "operator = ''Td''" | "operator = ''TD''"
    | "operator = ''Tm''" | "operator = ''T*''" | "operator = ''Tj''" | "operator = ''TJ''"
    | "operator = [CHR 0x27]" | "operator = [CHR 0x22]" | "operator = ''Tc''"
    | "operator = ''Tw''" | "operator = ''Tz''" | "operator = ''TL''" | "operator = ''Tf''"
    | "operator = ''Tr''" | "operator = ''Ts''"
    unfolding textOperators_def by fastforce
  then show ?thesis
    by cases (simp_all only: processOperator_text text_functions_frame simp_thms)
qed

lemma processTokens_text_frame:
  assumes "\<forall>t \<in> set ts. isOperator t \<longrightarrow> t \<in> set textOperators"
  shows "graphicsState (processTokens p operands ts) = graphicsState p
         \<and> stateStack (processTokens p operands ts) = stateStack p"
  using assms
  by (induction ts arbitrary: p operands) (simp_all add: text_operator_frame)

lemma processTokens_snoc_Q:
  "processTokens p operands (ts @ [''Q'']) = restoreGraphicsState (processTokens p operands ts)"
  by (induction ts arbitrary: p operands)
     (simp_all add: isOperator_q processOperator_Q)

lemma tokenize_q_Tz_Q: "tokenize 9 ''q 50 Tz Q'' = Some [''q'', ''50'', ''Tz'', ''Q'']"
  by code_simp

lemma parseFloat_50: "parseFloat ''50'' = 50"
  by code_simp

text \<open>
  Claim C3, as stated, fails: parsing \<^verbatim>\<open>q 50 Tz Q\<close> from the initial state
  leaves the horizontal scale at 50, while it was 100 before the \<open>q\<close>.
\<close>

theorem qQ_text_state_counterexample:
  "map_option (\<lambda>p. Scale (textState p))
      (ParseState 9 (NewContentStreamParser Map.empty) ''q 50 Tz Q'') = Some 50
   \<and> Scale (textState (NewContentStreamParser Map.empty)) = 100"
  by (simp add: ParseState_def tokenize_q_Tz_Q isOperator_def processOperator_def
      saveGraphicsState_def restoreGraphicsState_def setHorizontalScale_def parseFloat_50
      NewContentStreamParser_def)

text \<open>
  Claim C3, amended. The operator \<open>q\<close> saves the graphics state proper (transformation
  matrix, colours, line width, cap, join, miter limit and dash), and \<open>Q\<close> makes the
  saved copy current; the text state and the two text matrices are no part of what is
  saved. After \<open>q\<close>, any sequence of text operators with their operands, and \<open>Q\<close>, the
  graphics state and the saved states are those before the \<open>q\<close>, and the text state and
  the text matrices are the ones the operators in between left, as they were just before
  the \<open>Q\<close>.
\<close>

theorem qQ_keeps_text_state:
  assumes "\<forall>t \<in> set mid. isOperator t \<longrightarrow> t \<in> set textOperators"
  shows "graphicsState (processTokens p [] (''q'' # mid @ [''Q''])) = graphicsState p
     \<and> stateStack (processTokens p [] (''q'' # mid @ [''Q''])) = stateStack p
     \<and> textState (processTokens p [] (''q'' # mid @ [''Q'']))
         = textState (processTokens p [] (''q'' # mid))
     \<and> textMatrix (processTokens p [] (''q'' # mid @ [''Q'']))
         = textMatrix (processTokens p [] (''q'' # mid))
     \<and> lineMatrix (processTokens p [] (''q'' # mid @ [''Q'']))
         = lineMatrix (processTokens p [] (''q'' # mid))"
proof -
  let ?pm = "processTokens (saveGraphicsState p) [] mid"
  have pm: "processTokens p [] (''q'' # mid) = ?pm"
    by (simp add: isOperator_q processOperator_q)
  have pq: "processTokens p [] (''q'' # mid @ [''Q'']) = restoreGraphicsState ?pm"
    using processTokens_snoc_Q [of "saveGraphicsState p" "[]" mid]
    by (simp add: isOperator_q processOperator_q)
  have fr: "graphicsState ?pm = graphicsState p
            \<and> stateStack ?pm = stateStack p @ [graphicsState p]"
    using processTokens_text_frame [OF assms, of "saveGraphicsState p" "[]"]
    by (simp add: saveGraphicsState_def)
  show ?thesis
    unfolding pm pq using fr by (simp add: restoreGraphicsState_def)
qed

theorem qQ_keeps_text_state_witness:
  "graphicsState (processTokens (NewContentStreamParser Map.empty) []
       (''q'' # [''50'', ''Tz''] @ [''Q''])) = graphicsState (NewContentStreamParser Map.empty)
   \<and> stateStack (processTokens (NewContentStreamParser Map.empty) []
       (''q'' # [''50'', ''Tz''] @ [''Q''])) = []
   \<and> Scale (textState (processTokens (NewContentStreamParser Map.empty) []
       (''q'' # [''50'', ''Tz''] @ [''Q'']))) = 50"
proof -
  have h: "\<forall>t \<in> set [''50'', ''Tz'']. isOperator t \<longrightarrow> t \<in> set textOperators"
    by (simp add: textOperators_def isOperator_def)
  have m: "Scale (textState (processTokens (NewContentStreamParser Map.empty) []
             (''q'' # [''50'', ''Tz'']))) = 50"
    by (simp add: isOperator_def processOperator_def saveGraphicsState_def
        setHorizontalScale_def parseFloat_50)
  have s: "stateStack (NewContentStreamParser Map.empty) = []"
    by (simp add: NewContentStreamParser_def)
  show ?thesis
    using qQ_keeps_text_state [OF h, of "NewContentStreamParser Map.empty"] m s by simp
qed

section \<open>Selecting a font that the font table lacks\<close>

lemma addTextChars_no_font:
  "TextState.Font (textState p) = None \<Longrightarrow> addTextChars p text = p"
  by (simp add: addTextChars_def)

lemma foldl_showTextArrayElem_no_font:
  "TextState.Font (textState p) = None \<Longrightarrow>
     objects (foldl showTextArrayElem p elems) = objects p
     \<and> textState (foldl showTextArrayElem p elems) = textState p"
proof (induction elems arbitrary: p)
  case Nil
  then show ?case by simp
next
  case (Cons e es)
  have step: "TextState.Font (textState (showTextArrayElem p e)) = None"
    "objects (showTextArrayElem p e) = objects p"
    "textState (showTextArrayElem p e) = textState p"
    using Cons.prems by (simp_all add: showTextArrayElem_def addTextChars_no_font Let_def)
  show ?case using Cons.IH [OF step(1)] step(2,3) by simp
qed

lemma tokenize_F9:
  "tokenize 23 ''BT /F9 12 Tf (Hi) Tj ET'' =
     Some [''BT'', ''/F9'', ''12'', ''Tf'', ''(Hi)'', ''Tj'', ''ET'']"
  by code_simp

lemma tokenize_F1_F9:
  "tokenize 34 ''BT /F1 12 Tf /F9 10 Tf (Hi) Tj ET'' =
     Some [''BT'', ''/F1'', ''12'', ''Tf'', ''/F9'', ''10'', ''Tf'', ''(Hi)'', ''Tj'', ''ET'']"
  by code_simp

lemma parseFloat_10: "parseFloat ''10'' = 10"
  by code_simp

text \<open>
  Claim C6, as stated, fails twice. With the font table holding \<open>F1\<close> only, parsing
  \<^verbatim>\<open>BT /F9 12 Tf (Hi) Tj ET\<close> from the initial state emits no character at all;
  and parsing \<^verbatim>\<open>BT /F1 12 Tf /F9 10 Tf (Hi) Tj ET\<close> emits characters that carry
  the font \<open>F1\<close>: the selection has not become ``no font''.
\<close>

theorem absent_font_counterexample:
  "map_option Chars
     (Parse 23 (NewContentStreamParser (Map.empty(''F1'' \<mapsto> fontF1)))
        ''BT /F9 12 Tf (Hi) Tj ET'') = Some []
   \<and> map_option (\<lambda>objs. map (\<lambda>c. (CharObject.Text c, CharObject.Font c, CharObject.FontSize c))
                           (Chars objs))
     (Parse 34 (NewContentStreamParser (Map.empty(''F1'' \<mapsto> fontF1)))
        ''BT /F1 12 Tf /F9 10 Tf (Hi) Tj ET'') = Some [(''H'', ''F1'', 10), (''i'', ''F1'', 10)]"
  by (simp add: Parse_def ParseState_def tokenize_F9 tokenize_F1_F9 isOperator_def
      processOperator_def NewContentStreamParser_def beginText_def endText_def setFont_def
      showText_def extractString_def decodeString_def addTextChars_def addTextChar_def
      HasPrefix_def HasSuffix_def TrimPrefix_def TrimSuffix_def parseFloat_12 parseFloat_10
      unescapeString_Hi rangeRunes_Hi encodeRune_H encodeRune_i fontF1_def Let_def
      del: unescapeString.simps rangeRunes.simps)

text \<open>
  Claim C6, amended. When a \<open>Tf\<close> operator names a font resource absent from the font
  table, the font selection stays as it was and only the font size is set. While no font
  is selected, \<open>Tj\<close> leaves the parser as it is and \<open>TJ\<close> emits nothing: text shown
  without a selected font produces no character.
\<close>

theorem absent_font_keeps_selection:
  assumes "length operands \<ge> 2"
    and "fonts p (TrimPrefix (operands ! 0) ''/'') = None"
  shows "processOperator p ''Tf'' operands
           = p\<lparr>textState := (textState p)\<lparr>TextState.FontSize := parseFloat (operands ! 1)\<rparr>\<rparr>
     \<and> (TextState.Font (textState p) = None \<longrightarrow>
          processOperator (processOperator p ''Tf'' operands) ''Tj'' strs
            = processOperator p ''Tf'' operands
          \<and> objects (processOperator (processOperator p ''Tf'' operands) ''TJ'' strs)
              = objects p)"
proof -
  have tf: "processOperator p ''Tf'' operands
           = p\<lparr>textState := (textState p)\<lparr>TextState.FontSize := parseFloat (operands ! 1)\<rparr>\<rparr>"
    using assms by (simp add: processOperator_text setFont_def Let_def)
  have "processOperator (processOperator p ''Tf'' operands) ''Tj'' strs
            = processOperator p ''Tf'' operands
          \<and> objects (processOperator (processOperator p ''Tf'' operands) ''TJ'' strs)
              = objects p" if "TextState.Font (textState p) = None"
  proof -
    let ?q = "p\<lparr>textState := (textState p)\<lparr>TextState.FontSize := parseFloat (operands ! 1)\<rparr>\<rparr>"
    have nf: "TextState.Font (textState ?q) = None" using that by simp
    have "showText ?q strs = ?q"
      using that by (simp add: showText_def addTextChars_no_font)
    moreover have "objects (showTextArray ?q strs) = objects p"
      using foldl_showTextArrayElem_no_font [OF nf]
      by (simp add: showTextArray_def Let_def)
    ultimately show ?thesis
      unfolding tf by (simp add: processOperator_text)
  qed
  then show ?thesis using tf by blast
qed

theorem absent_font_keeps_selection_witness:
  "TextState.FontSize (textState
      (processOperator (NewContentStreamParser (Map.empty(''F1'' \<mapsto> fontF1))) ''Tf''
         [''/F9'', ''10''])) = 10
   \<and> TextState.Font (textState
      (processOperator (NewContentStreamParser (Map.empty(''F1'' \<mapsto> fontF1))) ''Tf''
         [''/F9'', ''10''])) = None
   \<and> objects (processOperator
        (processOperator (NewContentStreamParser (Map.empty(''F1'' \<mapsto> fontF1))) ''Tf''
           [''/F9'', ''10'']) ''Tj'' [''(Hi)''])
       = objects (NewContentStreamParser (Map.empty(''F1'' \<mapsto> fontF1)))
   \<and> objects (processOperator
        (processOperator (NewContentStreamParser (Map.empty(''F1'' \<mapsto> fontF1))) ''Tf''
           [''/F9'', ''10'']) ''TJ'' [''['', ''(Hi)'', '']''])
       = objects (NewContentStreamParser (Map.empty(''F1'' \<mapsto> fontF1)))"
proof -
  let ?p = "NewContentStreamParser (Map.empty(''F1'' \<mapsto> fontF1))"
  have l: "length [''/F9'', ''10''] \<ge> 2"
    by simp
  have a: "fonts ?p (TrimPrefix ([''/F9'', ''10''] ! 0) ''/'') = None"
    by (simp add: NewContentStreamParser_def TrimPrefix_def HasPrefix_def)
  have n: "TextState.Font (textState ?p) = None"
    by (simp add: NewContentStreamParser_def)
  have t1: "processOperator ?p ''Tf'' [''/F9'', ''10'']
       = ?p\<lparr>textState := (textState ?p)\<lparr>TextState.FontSize := parseFloat ''10''\<rparr>\<rparr>"
    using absent_font_keeps_selection [OF l a, of "[''(Hi)'']"] by simp
  have t2: "processOperator (processOperator ?p ''Tf'' [''/F9'', ''10'']) ''Tj'' [''(Hi)'']
       = processOperator ?p ''Tf'' [''/F9'', ''10'']"
    using absent_font_keeps_selection [OF l a, of "[''(Hi)'']"] n by blast
  have t3: "objects (processOperator (processOperator ?p ''Tf'' [''/F9'', ''10'']) ''TJ''
              [''['', ''(Hi)'', '']'']) = objects ?p"
    using absent_font_keeps_selection [OF l a, of "[''['', ''(Hi)'', '']'']"] n by blast
  show ?thesis
    unfolding t2 t3 unfolding t1 using n by (simp add: parseFloat_10)
qed

section \<open>Looking a CID up\<close>

definition contiguousOnly :: "ToUnicodeCMap \<Rightarrow> bool" where
  "contiguousOnly cmap = list_all (\<lambda>r. unicodeArray r = []) (ranges cmap)"

lemma mapRanges_find:
  "list_all (\<lambda>r. unicodeArray r = []) rs \<Longrightarrow>
   mapRanges rs cid =
     (case find (\<lambda>r. startCID r \<le> cid \<and> cid \<le> endCID r) rs of
        None \<Rightarrow> ([], False)
      | Some r \<Rightarrow> (encodeRune (uint (startUnicode r + (cid - startCID r))), True))"
  by (induction rs) (simp_all add: Let_def)

lemma addBFRange_contiguousOnly:
  "contiguousOnly cmap \<Longrightarrow> contiguousOnly (addBFRange cmap x)"
  by (simp add: contiguousOnly_def addBFRange_def split: option.splits)

lemma foldl_addBFRange_contiguousOnly:
  "contiguousOnly cmap \<Longrightarrow> contiguousOnly (foldl addBFRange cmap xs)"
  by (induction xs arbitrary: cmap) (simp_all add: addBFRange_contiguousOnly)

lemma parseBeginBFRange_contiguousOnly:
  assumes "contiguousOnly cmap"
  shows "contiguousOnly (parseBeginBFRange cmap content)"
proof -
  have "contiguousOnly cm \<Longrightarrow>
        contiguousOnly (foldl (\<lambda>cm rangeStr. foldl addBFRange cm (f rangeStr)) cm bs)"
    for cm bs and f :: "string \<Rightarrow> (string \<times> string \<times> string) list"
    by (induction bs arbitrary: cm) (simp_all add: foldl_addBFRange_contiguousOnly)
  then show ?thesis
    unfolding parseBeginBFRange_def using assms by blast
qed

lemma parseBeginBFChar_ranges: "ranges (parseBeginBFChar cmap content) = ranges cmap"
proof -
  have a: "ranges (foldl addBFChar cm xs) = ranges cm" for cm xs
    by (induction xs arbitrary: cm) (simp_all add: addBFChar_def split: option.splits)
  have "ranges (foldl (\<lambda>cm s. foldl addBFChar cm (f s)) cm bs) = ranges cm"
    for cm bs and f :: "string \<Rightarrow> (string \<times> string) list"
    by (induction bs arbitrary: cm) (simp_all add: a)
  then show ?thesis unfolding parseBeginBFChar_def by blast
qed

text \<open>
  The order of the lookup, for every parsed CMap and every CID: the direct table first,
  then the first range in insertion order that contains the CID, and not found when
  there is neither. A parsed CMap has contiguous ranges only, since the parser skips the
  array form.
\<close>

lemma MapCIDToUnicode_parsed:
  "MapCIDToUnicode (ToUnicodeCMap_Parse NewToUnicodeCMap data) cid =
     (let cmap = ToUnicodeCMap_Parse NewToUnicodeCMap data in
      case cidToUnicode cmap cid of
        Some unicode \<Rightarrow> (unicode, True)
      | None \<Rightarrow>
          (case find (\<lambda>r. startCID r \<le> cid \<and> cid \<le> endCID r) (ranges cmap) of
             None \<Rightarrow> ([], False)
           | Some r \<Rightarrow> (encodeRune (uint (startUnicode r + (cid - startCID r))), True)))"
proof -
  have "contiguousOnly (ToUnicodeCMap_Parse NewToUnicodeCMap data)"
    unfolding ToUnicodeCMap_Parse_def
    by (rule parseBeginBFRange_contiguousOnly)
       (simp add: contiguousOnly_def parseBeginBFChar_ranges NewToUnicodeCMap_def)
  then have "mapRanges (ranges (ToUnicodeCMap_Parse NewToUnicodeCMap data)) cid =
     (case find (\<lambda>r. startCID r \<le> cid \<and> cid \<le> endCID r)
             (ranges (ToUnicodeCMap_Parse NewToUnicodeCMap data)) of
        None \<Rightarrow> ([], False)
      | Some r \<Rightarrow> (encodeRune (uint (startUnicode r + (cid - startCID r))), True))"
    unfolding contiguousOnly_def by (rule mapRanges_find)
  then show ?thesis
    by (cases "cidToUnicode (ToUnicodeCMap_Parse NewToUnicodeCMap data) cid")
       (simp_all add: MapCIDToUnicode_def Let_def)
qed

text \<open>
  With the count that the block expressions of the parser ask for before the keyword,
  the two examples of claim C4 decode as the claim says.
\<close>

lemma Parse_with_count:
  "MapCIDToUnicode
     (ToUnicodeCMap_Parse NewToUnicodeCMap ''1 beginbfchar <0001> <0041> endbfchar'') 0x0001
     = (''A'', True)
   \<and> MapCIDToUnicode
     (ToUnicodeCMap_Parse NewToUnicodeCMap ''1 beginbfrange <0001> <0005> <0041> endbfrange'')
       0x0003 = (''C'', True)
   \<and> snd (MapCIDToUnicode
     (ToUnicodeCMap_Parse NewToUnicodeCMap ''1 beginbfrange <0001> <0005> <0041> endbfrange'')
       0x0006) = False"
  by code_simp

text \<open>
  Claim C4 at its own examples. Parsing \<^verbatim>\<open>beginbfchar <0001> <0041> endbfchar\<close>
  and \<^verbatim>\<open>beginbfrange <0001> <0005> <0041> endbfrange\<close> as they stand, with no
  count before the keyword, leaves the CMap empty: CID 1 and CID 3 are not found.
\<close>

theorem Parse_without_count:
  "MapCIDToUnicode
     (ToUnicodeCMap_Parse NewToUnicodeCMap ''beginbfchar <0001> <0041> endbfchar'') 0x0001
     = ([], False)
   \<and> MapCIDToUnicode
     (ToUnicodeCMap_Parse NewToUnicodeCMap ''beginbfrange <0001> <0005> <0041> endbfrange'')
       0x0003 = ([], False)"
  by code_simp

section \<open>Numbers in a text array\<close>

text \<open>
  What the loop of \<^verbatim>\<open>showTextArray\<close> does with an element that starts with
  neither bracket: it moves the horizontal offset of the text matrix by the number, over
  1000, times the font size, times the coefficient \<open>A\<close> of the text matrix. The
  horizontal scale does not enter, and nothing is emitted.
\<close>

lemma showTextArrayElem_number:
  "\<not> HasPrefix elem ''('' \<Longrightarrow> \<not> HasPrefix elem ''<'' \<Longrightarrow>
   showTextArrayElem p elem =
     p\<lparr>textMatrix := (textMatrix p)
          \<lparr>Matrix.E := Matrix.E (textMatrix p)
             - parseFloat elem / 1000 * TextState.FontSize (textState p)
                 * Matrix.A (textMatrix p)\<rparr>\<rparr>"
  by (simp add: showTextArrayElem_def)

lemma tokenize_TJ:
  "tokenize 33 ''BT /F1 12 Tf 50 Tz [1000] TJ ET'' =
     Some [''BT'', ''/F1'', ''12'', ''Tf'', ''50'', ''Tz'', ''['', ''1000'', '']'', ''TJ'', ''ET'']"
  by code_simp

lemma parseFloat_1000: "parseFloat ''1000'' = 1000"
  by code_simp

lemma parseTextArray_1000: "parseTextArray '' 1000 '' = [''1000'']"
  by code_simp

text \<open>
  Claim C5 at a horizontal scale of 50. Parsing
  \<^verbatim>\<open>BT /F1 12 Tf 50 Tz [1000] TJ ET\<close> moves the horizontal offset of the text
  matrix from 0 to -12 and emits nothing; the claim's formula gives
  -(1000/1000) * 12 * 50/100 = -6.
\<close>

theorem TJ_ignores_scale:
  "map_option (\<lambda>p. (Matrix.E (textMatrix p), Scale (textState p), Chars (objects p)))
     (ParseState 33 (NewContentStreamParser (Map.empty(''F1'' \<mapsto> fontF1)))
        ''BT /F1 12 Tf 50 Tz [1000] TJ ET'')
   = Some (- 12, 50, [])"
  by (simp add: ParseState_def tokenize_TJ isOperator_def processOperator_def
      NewContentStreamParser_def beginText_def endText_def setFont_def setHorizontalScale_def
      showTextArray_def showTextArrayElem_def parseTextArray_1000
      HasPrefix_def HasSuffix_def TrimPrefix_def TrimSuffix_def
      parseFloat_12 parseFloat_50 parseFloat_1000 IdentityMatrix_def Let_def)

section \<open>Filling a path\<close>

text \<open>
  The condition of the specification, in its words: every point of the accumulated path
  lies, within the tolerance, on a corner of the path's own axis-aligned bounding box.
\<close>

definition spec_pointsOnBBoxCorners :: "real \<Rightarrow> ContentStreamParser \<Rightarrow> bool" where
  "spec_pointsOnBBoxCorners tol p =
     (case getPathBounds p of
        (minX, minY, maxX, maxY) \<Rightarrow>
          list_all (\<lambda>q. (\<bar>PDFPoint.X q - minX\<bar> \<le> tol \<or> \<bar>PDFPoint.X q - maxX\<bar> \<le> tol)
                        \<and> (\<bar>PDFPoint.Y q - minY\<bar> \<le> tol \<or> \<bar>PDFPoint.Y q - maxY\<bar> \<le> tol))
            (concat (map PathElement.Points (currentPath p))))"

text \<open>
  Claim C2, as stated, fails in both directions. The path
  \<^verbatim>\<open>0 0 m 10 0 l 10 10 l 0 10 l\<close> has its points exactly on the four corners of
  its bounding box, and \<open>f\<close> emits no rectangle for it, since it has no close element.
  The path \<^verbatim>\<open>0 0 m 10 5 l 3 9 l 1 1 l h\<close> has points far from the corners of its
  bounding box (more than 1 away), and \<open>f\<close> emits the rectangle from (0, 0) to (10, 9).
\<close>

theorem fill_counterexample:
  "map_option (spec_pointsOnBBoxCorners 0)
     (ParseState 29 (NewContentStreamParser Map.empty) ''0 0 m 10 0 l 10 10 l 0 10 l'')
     = Some True
   \<and> map_option Rects
     (Parse 31 (NewContentStreamParser Map.empty) ''0 0 m 10 0 l 10 10 l 0 10 l f'')
     = Some []
   \<and> map_option (spec_pointsOnBBoxCorners 1)
     (ParseState 28 (NewContentStreamParser Map.empty) ''0 0 m 10 5 l 3 9 l 1 1 l h'')
     = Some False
   \<and> map_option (\<lambda>objs. map (\<lambda>r. (RectObject.X0 r, RectObject.Y0 r, RectObject.X1 r,
                                    RectObject.Y1 r, RectObject.NonStroking r)) (Rects objs))
     (Parse 30 (NewContentStreamParser Map.empty) ''0 0 m 10 5 l 3 9 l 1 1 l h f'')
     = Some [(0, 0, 10, 9, True)]"
  by code_simp

lemma processOperator_fill:
  "processOperator p ''f'' operands = fill p"
  "processOperator p ''F'' operands = fill p"
  "processOperator p ''f*'' operands = fill p"
  by (simp_all add: processOperator_def)

text \<open>
  Claim C2, amended. Processing a fill operator (\<open>f\<close>, \<open>F\<close> or \<open>f*\<close>) emits one
  filled rectangle if and only if the accumulated path has at least three elements,
  exactly three of them are line segments and at least one is a close; the rectangle is
  then the bounding box of all points of the path, its two extreme corners taken through
  the transformation matrix of paint time. Nothing else is emitted, and the path is
  cleared.
\<close>

theorem fill_emits_rect_iff:
  assumes "operator \<in> {''f'', ''F'', ''f*''}"
  shows "\<exists>rect.
     objects (processOperator p operator operands) =
       (objects p)\<lparr>Rects := Rects (objects p) @
          (if 3 \<le> length (currentPath p)
              \<and> length (filter (\<lambda>elem. Type elem = ''lineto'') (currentPath p)) = 3
              \<and> (\<exists>elem \<in> set (currentPath p). Type elem = ''close'')
           then [rect] else [])\<rparr>
     \<and> RectObject.NonStroking rect \<and> RectObject.Width rect = 0
     \<and> RectObject.FillColor rect
         = convertPDFColorToColor (GraphicsState.FillColor (graphicsState p))
     \<and> (case getPathBounds p of
           (minX, minY, maxX, maxY) \<Rightarrow>
             (case transformPoint p minX minY of
                (x0, y0) \<Rightarrow>
                  (case transformPoint p maxX maxY of
                     (x1, y1) \<Rightarrow>
                       RectObject.X0 rect = min x0 x1 \<and> RectObject.Y0 rect = min y0 y1
                       \<and> RectObject.X1 rect = max x0 x1 \<and> RectObject.Y1 rect = max y0 y1)))
     \<and> currentPath (processOperator p operator operands) = []"
proof -
  obtain minX minY maxX maxY where b: "getPathBounds p = (minX, minY, maxX, maxY)"
    by (cases "getPathBounds p") auto
  obtain x0 y0 where t0: "transformPoint p minX minY = (x0, y0)"
    by (cases "transformPoint p minX minY") auto
  obtain x1 y1 where t1: "transformPoint p maxX maxY = (x1, y1)"
    by (cases "transformPoint p maxX maxY") auto
  let ?rect = "\<lparr>RectObject.X0 = min x0 x1, Y0 = min y0 y1, X1 = max x0 x1, Y1 = max y0 y1,
                Width = 0, StrokeColor = zeroColor,
                FillColor = convertPDFColorToColor (GraphicsState.FillColor (graphicsState p)),
                NonStroking = True\<rparr>"
  have op: "processOperator p operator operands = fill p"
    using assms processOperator_fill by auto
  have "objects (fill p) =
       (objects p)\<lparr>Rects := Rects (objects p) @
          (if 3 \<le> length (currentPath p)
              \<and> length (filter (\<lambda>elem. Type elem = ''lineto'') (currentPath p)) = 3
              \<and> (\<exists>elem \<in> set (currentPath p). Type elem = ''close'')
           then [?rect] else [])\<rparr>"
    by (simp add: fill_def createFilledPath_def isRectanglePath_def b t0 t1 Let_def
        list_ex_iff not_less)
  moreover have "currentPath (fill p) = []"
    by (simp add: fill_def)
  ultimately show ?thesis
    unfolding op by (intro exI [of _ ?rect]) (simp add: b t0 t1)
qed

definition skewPath :: "PathElement list" where
  "skewPath =
     [\<lparr>Type = ''moveto'', Points = [pt 0 0]\<rparr>, \<lparr>Type = ''lineto'', Points = [pt 10 5]\<rparr>,
      \<lparr>Type = ''lineto'', Points = [pt 3 9]\<rparr>, \<lparr>Type = ''lineto'', Points = [pt 1 1]\<rparr>,
      \<lparr>Type = ''close'', Points = []\<rparr>]"

theorem fill_emits_rect_iff_witness:
  "''f'' \<in> {''f'', ''F'', ''f*''}
   \<and> length (Rects (objects (processOperator
        ((NewContentStreamParser Map.empty)\<lparr>currentPath := skewPath\<rparr>) ''f'' []))) = 1
   \<and> currentPath (processOperator
        ((NewContentStreamParser Map.empty)\<lparr>currentPath := skewPath\<rparr>) ''f'' []) = []"
proof -
  let ?p = "(NewContentStreamParser Map.empty)\<lparr>currentPath := skewPath\<rparr>"
  have m: "''f'' \<in> {''f'', ''F'', ''f*''}"
    by simp
  have c: "3 \<le> length (currentPath ?p)
           \<and> length (filter (\<lambda>elem. Type elem = ''lineto'') (currentPath ?p)) = 3
           \<and> (\<exists>elem \<in> set (currentPath ?p). Type elem = ''close'')"
    by (simp add: skewPath_def)
  have r: "Rects (objects ?p) = []"
    by (simp add: NewContentStreamParser_def)
  obtain rect where
    "objects (processOperator ?p ''f'' []) =
       (objects ?p)\<lparr>Rects := Rects (objects ?p) @
          (if 3 \<le> length (currentPath ?p)
              \<and> length (filter (\<lambda>elem. Type elem = ''lineto'') (currentPath ?p)) = 3
              \<and> (\<exists>elem \<in> set (currentPath ?p). Type elem = ''close'')
           then [rect] else [])\<rparr>"
    and "currentPath (processOperator ?p ''f'' []) = []"
    using fill_emits_rect_iff [OF m, of ?p "[]"] by blast
  then show ?thesis
    using c r by simp
qed

section \<open>Splitting a line into words\<close>

text \<open>
  The index in the line at which each word of a list of words starts, counted from the
  given index of the first; and, for the proofs, the indices from the given one on at
  which the loop of \<^verbatim>\<open>extractWordsFromLine\<close> starts a new word.
\<close>

fun wordStartsFrom :: "nat \<Rightarrow> Word list \<Rightarrow> nat list" where
  "wordStartsFrom k [] = []"
| "wordStartsFrom k (w # ws) = k # wordStartsFrom (k + length (Characters w)) ws"

fun breaks :: "TextOrganizer \<Rightarrow> CharObject \<Rightarrow> nat \<Rightarrow> CharObject list \<Rightarrow> nat list" where
  "breaks to prev k [] = []"
| "breaks to prev k (c # cs) =
     (if CharObject.X0 c - CharObject.X1 prev > xTolerance to
         \<or> CharObject.X0 c - CharObject.X1 prev > CharObject.Width c * 0.3
      then [k] else []) @ breaks to c (Suc k) cs"

definition charAt :: "real \<Rightarrow> real \<Rightarrow> CharObject" where
  "charAt x0 x1 =
     \<lparr>CharObject.Text = ''a'', Font = ''F1'', FontSize = 12, X0 = x0, Y0 = 0, X1 = x1, Y1 = 12,
      Width = x1 - x0, Height = 12, Color = zeroColor, Matrix = zeroTransformMatrix\<rparr>"

lemma insertRev_last:
  "(\<forall>y \<in> set acc. \<not> lt x y) \<Longrightarrow> insertRev lt x acc = x # acc"
  by (cases acc) simp_all

lemma foldl_insertRev_sorted:
  "sorted_wrt (\<lambda>a b. \<not> lt b a) (pre @ xs) \<Longrightarrow>
   foldl (\<lambda>acc x. insertRev lt x acc) (rev pre) xs = rev (pre @ xs)"
proof (induction xs arbitrary: pre)
  case Nil
  then show ?case by simp
next
  case (Cons x xs)
  have "insertRev lt x (rev pre) = x # rev pre"
    using Cons.prems by (intro insertRev_last) (auto simp: sorted_wrt_append)
  moreover have "sorted_wrt (\<lambda>a b. \<not> lt b a) ((pre @ [x]) @ xs)"
    using Cons.prems by simp
  ultimately show ?case
    using Cons.IH [of "pre @ [x]"] by simp
qed

lemma sortSlice_sorted:
  "sorted_wrt (\<lambda>a b. \<not> lt b a) xs \<Longrightarrow> sortSlice lt xs = xs"
  using foldl_insertRev_sorted [of lt "[]" xs] by (simp add: sortSlice_def)

lemma Characters_createWord: "cw \<noteq> [] \<Longrightarrow> Characters (createWord cw) = cw"
  by (cases cw) simp_all

lemma wordsLoop_concat:
  "cw \<noteq> [] \<Longrightarrow>
   concat (map Characters (wordsLoop to words cw prev rest))
     = concat (map Characters words) @ cw @ rest"
  by (induction rest arbitrary: words cw prev)
     (simp_all add: Characters_createWord Let_def)

lemma wordStartsFrom_snoc:
  "wordStartsFrom k (ws @ [w]) = wordStartsFrom k ws @ [k + length (concat (map Characters ws))]"
  by (induction ws arbitrary: k) simp_all

lemma wordsLoop_starts:
  "cw \<noteq> [] \<Longrightarrow>
   wordStartsFrom k (wordsLoop to words cw prev rest)
     = wordStartsFrom k words @ [k + length (concat (map Characters words))]
       @ breaks to prev (k + length (concat (map Characters words)) + length cw) rest"
proof (induction rest arbitrary: words cw prev)
  case Nil
  then show ?case by (simp add: wordStartsFrom_snoc)
next
  case (Cons c cs)
  show ?case
  proof (cases "CharObject.X0 c - CharObject.X1 prev > xTolerance to
         \<or> CharObject.X0 c - CharObject.X1 prev > CharObject.Width c * 0.3")
    case True
    then show ?thesis
      using Cons.prems Cons.IH [of "[c]" "words @ [createWord cw]" c]
      by (simp add: Let_def wordStartsFrom_snoc Characters_createWord add.assoc)
  next
    case False
    then show ?thesis
      using Cons.prems Cons.IH [of "cw @ [c]" words c]
      by (simp add: Let_def)
  qed
qed

lemma breaks_mem:
  "i \<in> set (breaks to prev k rest) \<longleftrightarrow>
     k \<le> i \<and> i < k + length rest
     \<and> (CharObject.X0 (rest ! (i - k)) - CharObject.X1 ((prev # rest) ! (i - k)) > xTolerance to
        \<or> CharObject.X0 (rest ! (i - k)) - CharObject.X1 ((prev # rest) ! (i - k))
             > CharObject.Width (rest ! (i - k)) * 0.3)"
proof (induction rest arbitrary: prev k)
  case Nil
  then show ?case by simp
next
  case (Cons c cs)
  show ?case
  proof (cases "i = k")
    case True
    then show ?thesis using Cons.IH [of c "Suc k"] by auto
  next
    case False
    then show ?thesis
      using Cons.IH [of c "Suc k"]
      by (auto simp: nth_Cons' Suc_diff_le less_Suc_eq_le)
  qed
qed

text \<open>
  Claim C7, as stated, fails: with the tolerance 3, a gap of 4 before a character of
  width 20 does not exceed the maximum of 3 and 0.3 times 20, and the line is split into
  two words all the same.
\<close>

theorem words_split_counterexample:
  "length (extractWordsFromLine \<lparr>xTolerance = 3, yTolerance = 3\<rparr> [charAt 0 10, charAt 14 34]) = 2
   \<and> \<not> (CharObject.X0 (charAt 14 34) - CharObject.X1 (charAt 0 10)
          > max (xTolerance \<lparr>xTolerance = 3, yTolerance = 3\<rparr>) (0.3 * CharObject.Width (charAt 14 34)))"
  by (simp add: extractWordsFromLine_def sortSlice_def charAt_def)

text \<open>
  Claim C7, amended. Within a line whose characters are in ascending order of their left
  edges, \<^verbatim>\<open>extractWordsFromLine\<close> keeps every character in its place and starts
  a new word exactly when the gap between the right edge of the previous character and
  the left edge of the current one exceeds the tolerance or exceeds 0.3 times the width
  of the current character, that is, when it exceeds the smaller of the two.
\<close>

theorem words_split_at_min:
  assumes "sorted (map CharObject.X0 line)"
  shows "concat (map Characters (extractWordsFromLine to line)) = line
     \<and> (\<forall>i. 0 < i \<and> i < length line \<longrightarrow>
           (i \<in> set (wordStartsFrom 0 (extractWordsFromLine to line))
            \<longleftrightarrow> CharObject.X0 (line ! i) - CharObject.X1 (line ! (i - 1))
                  > min (xTolerance to) (0.3 * CharObject.Width (line ! i))))"
proof (cases line)
  case Nil
  then show ?thesis by (simp add: extractWordsFromLine_def sortSlice_def)
next
  case (Cons c cs)
  have "sorted_wrt (\<lambda>a b. \<not> CharObject.X0 b < CharObject.X0 a) line"
    using assms by (simp add: sorted_map not_less)
  then have s: "sortSlice (\<lambda>a b. CharObject.X0 a < CharObject.X0 b) line = line"
    by (rule sortSlice_sorted)
  have e: "extractWordsFromLine to line = wordsLoop to [] [c] c cs"
    by (simp add: extractWordsFromLine_def s) (simp add: Cons)
  have st: "wordStartsFrom 0 (extractWordsFromLine to line) = 0 # breaks to c 1 cs"
    unfolding e using wordsLoop_starts [of "[c]" 0 to "[]" c cs] by simp
  have cc: "concat (map Characters (extractWordsFromLine to line)) = line"
    unfolding e using wordsLoop_concat [of "[c]" to "[]" c cs] Cons by simp
  have "i \<in> set (wordStartsFrom 0 (extractWordsFromLine to line))
            \<longleftrightarrow> CharObject.X0 (line ! i) - CharObject.X1 (line ! (i - 1))
                  > min (xTolerance to) (0.3 * CharObject.Width (line ! i))"
    if pos: "0 < i" and less: "i < length line" for i
  proof -
    obtain j where j: "i = Suc j" using pos by (cases i) auto
    have "j < length cs" using less j Cons by simp
    then show ?thesis
      unfolding st using j Cons
      by (simp add: breaks_mem min_less_iff_disj mult.commute)
  qed
  then show ?thesis using cc by blast
qed

theorem words_split_at_min_witness:
  "sorted (map CharObject.X0 [charAt 0 10, charAt 14 34])
   \<and> concat (map Characters
        (extractWordsFromLine \<lparr>xTolerance = 3, yTolerance = 3\<rparr> [charAt 0 10, charAt 14 34]))
       = [charAt 0 10, charAt 14 34]
   \<and> 1 \<in> set (wordStartsFrom 0
        (extractWordsFromLine \<lparr>xTolerance = 3, yTolerance = 3\<rparr> [charAt 0 10, charAt 14 34]))"
proof -
  have s: "sorted (map CharObject.X0 [charAt 0 10, charAt 14 34])"
    by (simp add: charAt_def)
  note w = words_split_at_min [OF s, of "\<lparr>xTolerance = 3, yTolerance = 3\<rparr>"]
  have g: "CharObject.X0 ([charAt 0 10, charAt 14 34] ! 1)
             - CharObject.X1 ([charAt 0 10, charAt 14 34] ! (1 - 1))
           > min (xTolerance \<lparr>xTolerance = 3, yTolerance = 3\<rparr>)
               (0.3 * CharObject.Width ([charAt 0 10, charAt 14 34] ! 1))"
    by (simp add: charAt_def)
  have "1 \<in> set (wordStartsFrom 0
        (extractWordsFromLine \<lparr>xTolerance = 3, yTolerance = 3\<rparr> [charAt 0 10, charAt 14 34]))"
    using w [THEN conjunct2, rule_format, of 1] g by simp
  then show ?thesis
    using s w by blast
qed

section \<open>The shape of line-based tables\<close>

text \<open>
  \<^verbatim>\<open>newTableExtractor\<close> without options: the default configuration and the three
  tolerances the constructor fixes.
\<close>

definition newTableExtractor :: tableExtractor where
  "newTableExtractor =
     \<lparr>verticalStrategy = ''lines'', horizontalStrategy = ''lines'', minTableSize = 3,
      textTolerance = 3, snapTolerance = 3, joinTolerance = 3, edgeTolerance = 10\<rparr>"

text \<open>
  A page with four horizontal rulings at y = 100, 120, 140, 160 and three vertical
  rulings at x = 50, 90, 130, and no characters.
\<close>

definition ruling :: "real \<Rightarrow> real \<Rightarrow> real \<Rightarrow> real \<Rightarrow> LineObject" where
  "ruling x0 y0 x1 y1 =
     \<lparr>LineObject.X0 = x0, Y0 = y0, X1 = x1, Y1 = y1, Width = 1, StrokeColor = zeroColor,
      NonStroking = False\<rparr>"

definition gridObjects :: Objects where
  "gridObjects =
     \<lparr>Chars = [],
      Lines = [ruling 50 100 130 100, ruling 50 120 130 120, ruling 50 140 130 140,
               ruling 50 160 130 160,
               ruling 50 100 50 160, ruling 90 100 90 160, ruling 130 100 130 160],
      Rects = [], Curves = []\<rparr>"

lemma createTableRegion_Some:
  assumes "createTableRegion te hLines vLines = Some region"
  shows "HLines region = sort (getUniquePositions te hLines True)
     \<and> VLines region = sort (getUniquePositions te vLines False)
     \<and> 2 \<le> length (HLines region) \<and> 2 \<le> length (VLines region)
     \<and> length (Cells region) = length (HLines region) - 1
     \<and> (\<forall>row \<in> set (Cells region). length row = length (VLines region) - 1)"
  using assms
  by (auto simp add: createTableRegion_def Let_def split: if_splits)

lemma findTableRegions_mem:
  assumes "region \<in> set (findTableRegions te hLines vLines)"
  shows "\<exists>hGroup vGroup. createTableRegion te hGroup vGroup = Some region"
proof -
  from assms obtain hGroup vGroup where
    "region \<in> set (case createTableRegion te hGroup vGroup of None \<Rightarrow> [] | Some r \<Rightarrow> [r])"
    by (auto simp add: findTableRegions_def Let_def split: if_splits)
  then have "createTableRegion te hGroup vGroup = Some region"
    by (cases "createTableRegion te hGroup vGroup") simp_all
  then show ?thesis by blast
qed

lemma extractTableFromRegion_shape:
  "length (Rows (extractTableFromRegion te region objs)) = length (Cells region)
   \<and> map length (Rows (extractTableFromRegion te region objs)) = map length (Cells region)"
  by (simp add: extractTableFromRegion_def)

lemma grid_tables_eq:
  "extractLineBasedTables newTableExtractor gridObjects
   = [\<lparr>Rows = [[[], []], [[], []], [[], []]],
       BBox = \<lparr>BoundingBox.X0 = 51, Y0 = 99, X1 = 129, Y1 = 159\<rparr>\<rparr>]"
  by code_simp

text \<open>
  Claim C8. Every table that \<^verbatim>\<open>extractLineBasedTables\<close> returns was extracted from a
  region that \<^verbatim>\<open>createTableRegion\<close> built from a group of horizontal and a group of
  vertical lines. The \<^verbatim>\<open>HLines\<close> and \<^verbatim>\<open>VLines\<close> of that region are the snapped
  start and end positions of the lines of the two groups, sorted and without
  duplicates, at least two of each; the table has one row less than there are
  horizontal positions, and every row has one cell less than there are vertical
  positions.
\<close>

theorem line_tables_shape:
  assumes "t \<in> set (extractLineBasedTables te objs)"
  shows "\<exists>hGroup vGroup region.
     createTableRegion te hGroup vGroup = Some region
     \<and> t = extractTableFromRegion te region objs
     \<and> HLines region = sort (remdups (concat (map (\<lambda>line.
           [snap te (LineObject.Y0 line), snap te (LineObject.Y1 line)]) hGroup)))
     \<and> VLines region = sort (remdups (concat (map (\<lambda>line.
           [snap te (LineObject.X0 line), snap te (LineObject.X1 line)]) vGroup)))
     \<and> sorted (HLines region) \<and> distinct (HLines region)
     \<and> sorted (VLines region) \<and> distinct (VLines region)
     \<and> 2 \<le> length (HLines region) \<and> 2 \<le> length (VLines region)
     \<and> length (Rows t) = length (HLines region) - 1
     \<and> (\<forall>row \<in> set (Rows t). length row = length (VLines region) - 1)"
proof -
  from assms obtain region where
    r: "region \<in> set (findTableRegions te
          (fst (collectTableLines te objs) @ concat (map (fst \<circ> rectEdges) (Rects objs)))
          (snd (collectTableLines te objs) @ concat (map (snd \<circ> rectEdges) (Rects objs))))"
    and t: "t = extractTableFromRegion te region objs"
    by (auto simp add: extractLineBasedTables_def Let_def)
  from r obtain hGroup vGroup where c: "createTableRegion te hGroup vGroup = Some region"
    using findTableRegions_mem by blast
  note s = createTableRegion_Some [OF c]
  have rows: "\<forall>row \<in> set (Rows t). length row = length (VLines region) - 1"
  proof
    fix row assume "row \<in> set (Rows t)"
    then have "length row \<in> set (map length (Rows t))" by simp
    then have "length row \<in> set (map length (Cells region))"
      using extractTableFromRegion_shape [of te region objs] t by simp
    then show "length row = length (VLines region) - 1" using s by auto
  qed
  from s have hl: "HLines region = sort (remdups (concat (map (\<lambda>line.
           [snap te (LineObject.Y0 line), snap te (LineObject.Y1 line)]) hGroup)))"
    and vl: "VLines region = sort (remdups (concat (map (\<lambda>line.
           [snap te (LineObject.X0 line), snap te (LineObject.X1 line)]) vGroup)))"
    by (simp_all add: getUniquePositions_def)
  have sd: "sorted (HLines region)" "distinct (HLines region)"
    "sorted (VLines region)" "distinct (VLines region)"
    by (simp_all add: hl vl)
  from s have two: "2 \<le> length (HLines region)" "2 \<le> length (VLines region)"
    by blast+
  have "length (Rows t) = length (HLines region) - 1"
    using extractTableFromRegion_shape [of te region objs] t s by simp
  then have "createTableRegion te hGroup vGroup = Some region
     \<and> t = extractTableFromRegion te region objs
     \<and> HLines region = sort (remdups (concat (map (\<lambda>line.
           [snap te (LineObject.Y0 line), snap te (LineObject.Y1 line)]) hGroup)))
     \<and> VLines region = sort (remdups (concat (map (\<lambda>line.
           [snap te (LineObject.X0 line), snap te (LineObject.X1 line)]) vGroup)))
     \<and> sorted (HLines region) \<and> distinct (HLines region)
     \<and> sorted (VLines region) \<and> distinct (VLines region)
     \<and> 2 \<le> length (HLines region) \<and> 2 \<le> length (VLines region)
     \<and> length (Rows t) = length (HLines region) - 1
     \<and> (\<forall>row \<in> set (Rows t). length row = length (VLines region) - 1)"
    using c t hl vl sd two rows by blast
  then show ?thesis by blast
qed

theorem line_tables_shape_witness:
  "extractLineBasedTables newTableExtractor gridObjects \<noteq> []
   \<and> (\<exists>region.
         hd (extractLineBasedTables newTableExtractor gridObjects)
           = extractTableFromRegion newTableExtractor region gridObjects
         \<and> length (HLines region) = 4 \<and> length (VLines region) = 3)
   \<and> map length (Rows (hd (extractLineBasedTables newTableExtractor gridObjects)))
       = [2, 2, 2]"
proof -
  let ?t = "hd (extractLineBasedTables newTableExtractor gridObjects)"
  have rows: "Rows ?t = [[[], []], [[], []], [[], []]]"
    by (simp add: grid_tables_eq)
  have "?t \<in> set (extractLineBasedTables newTableExtractor gridObjects)"
    by (simp add: grid_tables_eq)
  from line_tables_shape [OF this] obtain region where
    t: "?t = extractTableFromRegion newTableExtractor region gridObjects"
    and h: "length (Rows ?t) = length (HLines region) - 1"
    and v: "\<forall>row \<in> set (Rows ?t). length row = length (VLines region) - 1"
    by blast
  from h have "length (HLines region) = 4" unfolding rows by simp
  moreover from v have "length (VLines region) = 3" unfolding rows by simp
  ultimately show ?thesis using t rows by (auto simp add: grid_tables_eq)
qed

end
